theory Spec2Isabelle
  imports Complex_Main "HOL-Library.Monad_Syntax"
begin

section \<open>Identifier validators of \<open>fiscal_validator.py\<close>\<close>

text \<open>
  Python strings are modelled as \<open>string\<close> (lists of 8-bit characters). The pattern
  \<open>[^0-9]\<close> of \<open>re.sub\<close> removes every character that is not one of the ten ASCII
  digits, so \<open>re.sub(r'[^0-9]', '', s)\<close> is a filter that keeps the ASCII digits.
\<close>

definition is_digit :: "char \<Rightarrow> bool" where
  "is_digit c = ((48::nat) \<le> of_char c \<and> of_char c \<le> (57::nat))"

definition strip_non_digits :: "string \<Rightarrow> string" where
  "strip_non_digits s = filter is_digit s"

text \<open>\<open>int(c)\<close> for a one-character string holding an ASCII digit.\<close>

definition int_of_digit :: "char \<Rightarrow> int" where
  "int_of_digit c = int (of_char c) - 48"

text \<open>
  The user-facing messages are Portuguese texts with accented letters and interpolated
  numbers; each message is modelled by one constructor that carries the interpolated value.
\<close>

datatype message =
    CNPJ_deve_ter_14_digitos nat
  | CNPJ_todos_digitos_iguais
  | CPF_deve_ter_11_digitos nat
  | CPF_todos_digitos_iguais
  | Primeiro_digito_verificador_invalido
  | Segundo_digito_verificador_invalido
  | CNPJ_valido
  | CPF_valido
  | Chave_deve_ter_44_digitos nat
  | Digito_verificador_invalido int
  | Chave_de_acesso_valida
  | NCM_deve_ter_8_digitos nat
  | NCM_valido
  | CFOP_deve_ter_4_digitos nat
  | Primeiro_digito_do_CFOP_invalido char
  | CFOP_valido
  | Valor_total_incorreto
  | Calculo_correto
  | Sem_base_de_calculo
  | Base_zero_mas_imposto_declarado
  | Valor_incorreto
  | Soma_incorreta
  | Soma_correta
  | Chave_de_acesso_nao_informada
  | NCM_nao_informado
  | CFOP_nao_informado
  | Aliquota_de_ICMS_incomum
  | Aliquota_de_PIS_incomum
  | Aliquota_de_COFINS_incomum
  | Campo_valor_produtos_ausente
  | Tipo_de_operacao_nao_informado
  | CFOP_indica_outro_tipo string string string

definition weight_1 :: "int list" where
  "weight_1 = [5, 4, 3, 2, 9, 8, 7, 6, 5, 4, 3, 2]"

definition weight_2 :: "int list" where
  "weight_2 = [6, 5, 4, 3, 2, 9, 8, 7, 6, 5, 4, 3, 2]"

text \<open>The loop \<open>for i in range(n): sum += int(s[i]) * w[i]\<close>.\<close>

definition weighted_sum :: "string \<Rightarrow> int list \<Rightarrow> nat \<Rightarrow> int" where
  "weighted_sum s w n = sum_list (map (\<lambda>i. int_of_digit (s ! i) * w ! i) [0..<n])"

definition mod11_digit :: "int \<Rightarrow> int" where
  "mod11_digit s = (let remainder = s mod 11 in if remainder < 2 then 0 else 11 - remainder)"

definition repeated_digits :: "nat \<Rightarrow> string list" where
  "repeated_digits n = map (\<lambda>d. replicate n d) ''0123456789''"

definition validate_cnpj :: "string \<Rightarrow> bool \<times> message" where
  "validate_cnpj cnpj =
     (let cnpj_clean = strip_non_digits cnpj in
      if length cnpj_clean \<noteq> 14 then (False, CNPJ_deve_ter_14_digitos (length cnpj_clean))
      else if cnpj_clean \<in> set (repeated_digits 14) then (False, CNPJ_todos_digitos_iguais)
      else
        let sum_1 = weighted_sum cnpj_clean weight_1 12;
            digit_1 = mod11_digit sum_1 in
        if int_of_digit (cnpj_clean ! 12) \<noteq> digit_1
        then (False, Primeiro_digito_verificador_invalido)
        else
          let sum_2 = weighted_sum cnpj_clean weight_2 13;
              digit_2 = mod11_digit sum_2 in
          if int_of_digit (cnpj_clean ! 13) \<noteq> digit_2
          then (False, Segundo_digito_verificador_invalido)
          else (True, CNPJ_valido))"

definition validate_cpf :: "string \<Rightarrow> bool \<times> message" where
  "validate_cpf cpf =
     (let cpf_clean = strip_non_digits cpf in
      if length cpf_clean \<noteq> 11 then (False, CPF_deve_ter_11_digitos (length cpf_clean))
      else if cpf_clean \<in> set (repeated_digits 11) then (False, CPF_todos_digitos_iguais)
      else
        let sum_1 = sum_list (map (\<lambda>i. int_of_digit (cpf_clean ! i) * (10 - int i)) [0..<9]);
            digit_1 = mod11_digit sum_1 in
        if int_of_digit (cpf_clean ! 9) \<noteq> digit_1
        then (False, Primeiro_digito_verificador_invalido)
        else
          let sum_2 = sum_list (map (\<lambda>i. int_of_digit (cpf_clean ! i) * (11 - int i)) [0..<10]);
              digit_2 = mod11_digit sum_2 in
          if int_of_digit (cpf_clean ! 10) \<noteq> digit_2
          then (False, Segundo_digito_verificador_invalido)
          else (True, CPF_valido))"

subsection \<open>Access key\<close>

text \<open>
  A Python dictionary with string keys is an association list in insertion order;
  \<open>d[k]\<close> for a key that is present is \<open>dict_get d k\<close>.
\<close>

type_synonym 'a dict = "(string \<times> 'a) list"

definition dict_get :: "'a dict \<Rightarrow> string \<Rightarrow> 'a" where
  "dict_get d k = the (map_of d k)"

text \<open>The Python slice \<open>s[a:b]\<close> for \<open>0 \<le> a \<le> b\<close>.\<close>

definition slice :: "'a list \<Rightarrow> nat \<Rightarrow> nat \<Rightarrow> 'a list" where
  "slice s a b = take (b - a) (drop a s)"

text \<open>\<open>list(range(2, 10)) * 5 + [2, 3, 4]\<close>\<close>

definition chave_weights :: "int list" where
  "chave_weights = concat (replicate 5 (map int [2..<10])) @ [2, 3, 4]"

definition chave_details :: "string \<Rightarrow> string dict" where
  "chave_details chave_clean =
     [(''uf'', slice chave_clean 0 2),
      (''ano_mes'', slice chave_clean 2 6),
      (''cnpj'', slice chave_clean 6 20),
      (''modelo'', slice chave_clean 20 22),
      (''serie'', slice chave_clean 22 25),
      (''numero'', slice chave_clean 25 34),
      (''tipo_emissao'', slice chave_clean 34 35),
      (''codigo'', slice chave_clean 35 43),
      (''dv'', slice chave_clean 43 44)]"

definition chave_expected_dv :: "string \<Rightarrow> int" where
  "chave_expected_dv chave_clean =
     (let sum_calc = sum_list (map (\<lambda>i. int_of_digit (chave_clean ! i) * chave_weights ! (42 - i)) [0..<43]);
          remainder = sum_calc mod 11
      in if remainder = 0 \<or> remainder = 1 then 0 else 11 - remainder)"

definition validate_chave_acesso :: "string \<Rightarrow> bool \<times> message \<times> string dict" where
  "validate_chave_acesso chave =
     (let chave_clean = strip_non_digits chave in
      if length chave_clean \<noteq> 44
      then (False, Chave_deve_ter_44_digitos (length chave_clean), [])
      else
        let details = chave_details chave_clean;
            expected_dv = chave_expected_dv chave_clean
        in if int_of_digit (hd (dict_get details ''dv'')) \<noteq> expected_dv
           then (False, Digito_verificador_invalido expected_dv, details)
           else (True, Chave_de_acesso_valida, details))"

subsection \<open>Fiscal codes\<close>

definition validate_ncm :: "string \<Rightarrow> bool \<times> message" where
  "validate_ncm ncm =
     (let ncm_clean = (if ncm \<noteq> [] then strip_non_digits ncm else []) in
      if length ncm_clean \<noteq> 8 then (False, NCM_deve_ter_8_digitos (length ncm_clean))
      else (True, NCM_valido))"

definition validate_cfop :: "string \<Rightarrow> bool \<times> message \<times> string dict" where
  "validate_cfop cfop =
     (let cfop_clean = (if cfop \<noteq> [] then strip_non_digits cfop else []) in
      if length cfop_clean \<noteq> 4 then (False, CFOP_deve_ter_4_digitos (length cfop_clean), [])
      else
        let primeiro_digito = hd cfop_clean in
        if primeiro_digito \<in> set ''123'' then
          (True, CFOP_valido,
           [(''tipo_operacao'', ''entrada''),
            (''natureza'',
               if primeiro_digito = CHR ''1'' then ''entrada_dentro_estado''
               else if primeiro_digito = CHR ''2'' then ''entrada_outros_estados''
               else ''entrada_exterior'')])
        else if primeiro_digito \<in> set ''567'' then
          (True, CFOP_valido,
           [(''tipo_operacao'', ''saida''),
            (''natureza'',
               if primeiro_digito = CHR ''5'' then ''saida_dentro_estado''
               else if primeiro_digito = CHR ''6'' then ''saida_outros_estados''
               else ''saida_exterior'')])
        else (False, Primeiro_digito_do_CFOP_invalido primeiro_digito,
              [(''tipo_operacao'', []), (''natureza'', [])]))"

subsection \<open>The check-digit equations, as the specification words them\<close>

text \<open>
  First check digit of a 14-digit tax id: the first twelve digits weighted
  5,4,3,2,9,8,7,6,5,4,3,2, modulo 11; a remainder below 2 gives 0, otherwise 11 minus the
  remainder. Second check digit: the first thirteen digits weighted 6,5,4,3,2,9,8,7,6,5,4,3,2.
\<close>

definition cnpj_first_check :: "string \<Rightarrow> int" where
  "cnpj_first_check d =
     (let r = (5 * int_of_digit (d ! 0) + 4 * int_of_digit (d ! 1) + 3 * int_of_digit (d ! 2)
             + 2 * int_of_digit (d ! 3) + 9 * int_of_digit (d ! 4) + 8 * int_of_digit (d ! 5)
             + 7 * int_of_digit (d ! 6) + 6 * int_of_digit (d ! 7) + 5 * int_of_digit (d ! 8)
             + 4 * int_of_digit (d ! 9) + 3 * int_of_digit (d ! 10) + 2 * int_of_digit (d ! 11)) mod 11
      in if r < 2 then 0 else 11 - r)"

definition cnpj_second_check :: "string \<Rightarrow> int" where
  "cnpj_second_check d =
     (let r = (6 * int_of_digit (d ! 0) + 5 * int_of_digit (d ! 1) + 4 * int_of_digit (d ! 2)
             + 3 * int_of_digit (d ! 3) + 2 * int_of_digit (d ! 4) + 9 * int_of_digit (d ! 5)
             + 8 * int_of_digit (d ! 6) + 7 * int_of_digit (d ! 7) + 6 * int_of_digit (d ! 8)
             + 5 * int_of_digit (d ! 9) + 4 * int_of_digit (d ! 10) + 3 * int_of_digit (d ! 11)
             + 2 * int_of_digit (d ! 12)) mod 11
      in if r < 2 then 0 else 11 - r)"

text \<open>A sequence of fourteen digits whose two trailing digits satisfy both equations.\<close>

definition cnpj_equations :: "string \<Rightarrow> bool" where
  "cnpj_equations d =
     (length d = 14 \<and> list_all is_digit d
      \<and> int_of_digit (d ! 12) = cnpj_first_check d
      \<and> int_of_digit (d ! 13) = cnpj_second_check d)"

text \<open>
  Check digit of an access key: the 43 leading digits read right-to-left (\<open>k = 0\<close> is
  the 43rd digit) with the weights 2,3,...,9 repeating with period 8, modulo 11; a remainder
  of 0 or 1 gives 0, otherwise 11 minus the remainder.
\<close>

definition chave_check_digit :: "string \<Rightarrow> int" where
  "chave_check_digit d =
     (let r = sum_list (map (\<lambda>k. int_of_digit (d ! (42 - k)) * (2 + int (k mod 8))) [0..<43]) mod 11
      in if r \<in> {0, 1} then 0 else 11 - r)"

section \<open>Python numbers\<close>

text \<open>
  A finite Python \<open>float\<close> (an IEEE 754 binary64 number) is modelled by its exact value,
  a real number; the sign of zero is not modelled. A float in general may also be infinite
  or NaN and has the type \<open>pyfloat\<close>.

  A \<open>decimal.Decimal\<close> is modelled by its exact value too. The program never changes the
  default context: 28 significant digits, rounding half-even, with the traps for
  \<open>InvalidOperation\<close> and \<open>DivisionByZero\<close> enabled.
\<close>

datatype pyfloat = Fin real | PosInf | NegInf | NaN

datatype error =
  InvalidOperation | DivisionByZero | DivisionUndefined | AttributeError | TypeError | KeyError
  | OverflowError

text \<open>\<open>ilog b n\<close> is the number of digits of \<open>n \<ge> 1\<close> in base \<open>b\<close>, minus one.\<close>

function ilog :: "int \<Rightarrow> int \<Rightarrow> int" where
  "ilog b n = (if b < 2 \<or> n < b then 0 else 1 + ilog b (n div b))"
  by pat_completeness auto
termination
  by (relation "measure (\<lambda>(b, n). nat n)") (auto simp: int_div_less_self)

declare ilog.simps [simp del]

text \<open>\<open>floor_log b x\<close> is the integer \<open>k\<close> with \<open>b ^ k \<le> x < b ^ (k + 1)\<close>, for \<open>x > 0\<close>.\<close>

definition floor_log :: "int \<Rightarrow> real \<Rightarrow> int" where
  "floor_log b x =
     (if 1 \<le> x then ilog b \<lfloor>x\<rfloor>
      else - ilog b (\<lceil>1 / x\<rceil> - 1) - 1)"

definition pow :: "real \<Rightarrow> int \<Rightarrow> real" where
  "pow b k = (if 0 \<le> k then b ^ nat k else 1 / b ^ nat (- k))"

definition round_half_even :: "real \<Rightarrow> int" where
  "round_half_even x =
     (let f = \<lfloor>x\<rfloor>; r = x - of_int f
      in if r < 1 / 2 then f else if 1 / 2 < r then f + 1 else if even f then f else f + 1)"

text \<open>\<open>decimal.ROUND_HALF_UP\<close>: ties go away from zero.\<close>

definition round_half_up :: "real \<Rightarrow> int" where
  "round_half_up x = (if 0 \<le> x then \<lfloor>x + 1 / 2\<rfloor> else - \<lfloor>- x + 1 / 2\<rfloor>)"

text \<open>
  Rounding of a real number to binary64, ties to even: 53 significant bits, least
  exponent \<open>-1022\<close> (subnormal numbers below it), overflow to infinity.
\<close>

definition fl :: "real \<Rightarrow> pyfloat" where
  "fl x =
     (if x = 0 then Fin 0
      else
        let e = max (floor_log 2 \<bar>x\<bar>) (- 1022) - 52;
            y = of_int (round_half_even (x / pow 2 e)) * pow 2 e
        in if 2 ^ 1024 \<le> \<bar>y\<bar> then (if 0 < x then PosInf else NegInf) else Fin y)"

text \<open>The float denoted by a decimal literal of the source, such as \<open>0.02\<close>.\<close>

definition literal :: "real \<Rightarrow> real" where
  "literal x = (case fl x of Fin y \<Rightarrow> y | _ \<Rightarrow> 0)"

subsection \<open>Float arithmetic and comparison\<close>

fun fadd :: "pyfloat \<Rightarrow> pyfloat \<Rightarrow> pyfloat" where
  "fadd (Fin a) (Fin b) = fl (a + b)"
| "fadd NaN _ = NaN"
| "fadd _ NaN = NaN"
| "fadd PosInf NegInf = NaN"
| "fadd NegInf PosInf = NaN"
| "fadd PosInf _ = PosInf"
| "fadd NegInf _ = NegInf"
| "fadd (Fin a) PosInf = PosInf"
| "fadd (Fin a) NegInf = NegInf"

fun fneg :: "pyfloat \<Rightarrow> pyfloat" where
  "fneg (Fin a) = Fin (- a)"
| "fneg PosInf = NegInf"
| "fneg NegInf = PosInf"
| "fneg NaN = NaN"

definition fsub :: "pyfloat \<Rightarrow> pyfloat \<Rightarrow> pyfloat" where
  "fsub a b = fadd a (fneg b)"

fun fabs :: "pyfloat \<Rightarrow> pyfloat" where
  "fabs (Fin a) = Fin \<bar>a\<bar>"
| "fabs PosInf = PosInf"
| "fabs NegInf = PosInf"
| "fabs NaN = NaN"

text \<open>\<open>a < b\<close> on floats; every comparison with NaN is false.\<close>

fun flt :: "pyfloat \<Rightarrow> pyfloat \<Rightarrow> bool" where
  "flt NaN _ = False"
| "flt _ NaN = False"
| "flt (Fin a) (Fin b) = (a < b)"
| "flt (Fin a) PosInf = True"
| "flt (Fin a) NegInf = False"
| "flt PosInf _ = False"
| "flt NegInf NegInf = False"
| "flt NegInf _ = True"

definition fgt :: "pyfloat \<Rightarrow> pyfloat \<Rightarrow> bool" where
  "fgt a b = flt b a"

text \<open>\<open>a <= b\<close> on floats.\<close>

fun fle :: "pyfloat \<Rightarrow> pyfloat \<Rightarrow> bool" where
  "fle NaN _ = False"
| "fle _ NaN = False"
| "fle (Fin a) (Fin b) = (a \<le> b)"
| "fle (Fin a) PosInf = True"
| "fle (Fin a) NegInf = False"
| "fle PosInf PosInf = True"
| "fle PosInf _ = False"
| "fle NegInf _ = True"

subsection \<open>\<open>str\<close> of a float, read back as a decimal\<close>

text \<open>
  \<open>str(x)\<close> is the shortest decimal numeral that rounds back to \<open>x\<close> (the one nearest to
  \<open>x\<close> among the shortest); \<open>Decimal(str(x))\<close> is the exact value of that numeral.
  \<open>candidates x n\<close> are the two decimals with \<open>n\<close> significant digits that enclose
  \<open>x > 0\<close>.
\<close>

definition candidates :: "real \<Rightarrow> nat \<Rightarrow> real list" where
  "candidates x n =
     (let k = floor_log 10 x - (int n - 1);
          lo = of_int \<lfloor>x / pow 10 k\<rfloor> * pow 10 k
      in [lo, lo + pow 10 k])"

text \<open>
  \<open>shortest fuel n x\<close> tries \<open>n\<close>, \<open>n + 1\<close>, ... significant digits, at most \<open>fuel\<close>
  times; when no numeral of up to 17 digits rounds back (which does not happen for a
  float), the exact value is returned.
\<close>

fun shortest :: "nat \<Rightarrow> nat \<Rightarrow> real \<Rightarrow> real" where
  "shortest 0 n x = x"
| "shortest (Suc fuel) n x =
     (case filter (\<lambda>c. fl c = Fin x) (candidates x n) of
        [] \<Rightarrow> shortest fuel (Suc n) x
      | [c] \<Rightarrow> c
      | c1 # c2 # _ \<Rightarrow> if \<bar>c1 - x\<bar> \<le> \<bar>c2 - x\<bar> then c1 else c2)"

text \<open>\<open>Decimal(str(x))\<close> for a finite float \<open>x\<close>; 17 digits always suffice.\<close>

definition decimal_of_float :: "real \<Rightarrow> real" where
  "decimal_of_float x =
     (if x = 0 then 0 else if 0 < x then shortest 17 1 x else - shortest 17 1 (- x))"

subsection \<open>Decimal arithmetic in the default context\<close>

text \<open>Rounding of an exact result to the 28 significant digits of the context.\<close>

definition ctx_round :: "real \<Rightarrow> real" where
  "ctx_round x =
     (if x = 0 then 0
      else let k = floor_log 10 \<bar>x\<bar> - 27
           in of_int (round_half_even (x / pow 10 k)) * pow 10 k)"

definition dec_add :: "real \<Rightarrow> real \<Rightarrow> real" where
  "dec_add a b = ctx_round (a + b)"

definition dec_sub :: "real \<Rightarrow> real \<Rightarrow> real" where
  "dec_sub a b = ctx_round (a - b)"

definition dec_mul :: "real \<Rightarrow> real \<Rightarrow> real" where
  "dec_mul a b = ctx_round (a * b)"

text \<open>
  Division raises \<open>DivisionByZero\<close> for a zero divisor, and for 0/0 the
  \<open>InvalidOperation\<close> whose signal is \<open>DivisionUndefined\<close>.
\<close>

definition dec_div :: "real \<Rightarrow> real \<Rightarrow> error + real" where
  "dec_div a b =
     (if b = 0 then (if a = 0 then Inl DivisionUndefined else Inl DivisionByZero)
      else Inr (ctx_round (a / b)))"

text \<open>
  \<open>x.quantize(Decimal('0.01'), rounding=...)\<close>, also \<open>round(x, 2)\<close> (which rounds half-even):
  \<open>InvalidOperation\<close> when the result would need more than 28 digits.
\<close>

definition quantize :: "(real \<Rightarrow> int) \<Rightarrow> real \<Rightarrow> error + real" where
  "quantize rounding x =
     (let c = rounding (x * 100)
      in if 10 ^ 28 \<le> \<bar>c\<bar> then Inl InvalidOperation else Inr (of_int c / 100))"

text \<open>\<open>float(d)\<close> for a decimal \<open>d\<close>: correctly rounded.\<close>

definition float_of_decimal :: "real \<Rightarrow> pyfloat" where
  "float_of_decimal d = fl d"

subsection \<open>Decimals with the special values\<close>

text \<open>
  A decimal read from the \<open>str\<close> of a float that is not finite is \<open>Infinity\<close>,
  \<open>-Infinity\<close> or a quiet \<open>NaN\<close>. A quiet NaN passes through the arithmetic without a
  signal; infinity times zero, and rounding infinity to two places, raise
  \<open>InvalidOperation\<close>.
\<close>

datatype pydecimal = Dec real | DecPosInf | DecNegInf | DecNaN

text \<open>\<open>Decimal(str(x))\<close> for a float \<open>x\<close>.\<close>

fun decimal_of_str :: "pyfloat \<Rightarrow> pydecimal" where
  "decimal_of_str (Fin x) = Dec (decimal_of_float x)"
| "decimal_of_str PosInf = DecPosInf"
| "decimal_of_str NegInf = DecNegInf"
| "decimal_of_str NaN = DecNaN"

fun decimal_negative :: "pydecimal \<Rightarrow> bool" where
  "decimal_negative (Dec x) = (x < 0)"
| "decimal_negative DecNegInf = True"
| "decimal_negative _ = False"

text \<open>\<open>a * b\<close> on decimals.\<close>

fun decimal_mul :: "pydecimal \<Rightarrow> pydecimal \<Rightarrow> error + pydecimal" where
  "decimal_mul DecNaN _ = Inr DecNaN"
| "decimal_mul _ DecNaN = Inr DecNaN"
| "decimal_mul (Dec a) (Dec b) = Inr (Dec (dec_mul a b))"
| "decimal_mul a b =
     (if a = Dec 0 \<or> b = Dec 0 then Inl InvalidOperation
      else if decimal_negative a = decimal_negative b then Inr DecPosInf
      else Inr DecNegInf)"

text \<open>\<open>round(d, 2)\<close> on a decimal: \<open>d.quantize(Decimal('0.01'))\<close>, half-even.\<close>

fun round_decimal :: "pydecimal \<Rightarrow> error + pydecimal" where
  "round_decimal (Dec x) =
     (case quantize round_half_even x of Inl e \<Rightarrow> Inl e | Inr y \<Rightarrow> Inr (Dec y))"
| "round_decimal DecNaN = Inr DecNaN"
| "round_decimal DecPosInf = Inl InvalidOperation"
| "round_decimal DecNegInf = Inl InvalidOperation"

text \<open>\<open>float(d)\<close> on a decimal.\<close>

fun float_of_pydecimal :: "pydecimal \<Rightarrow> pyfloat" where
  "float_of_pydecimal (Dec x) = float_of_decimal x"
| "float_of_pydecimal DecPosInf = PosInf"
| "float_of_pydecimal DecNegInf = NegInf"
| "float_of_pydecimal DecNaN = NaN"

section \<open>Invoice records\<close>

text \<open>
  An invoice is a Python dictionary of dictionaries. Each dictionary is modelled by a
  record with one component for every key the program reads; a component says whether
  the key is absent from the dictionary (\<open>Missing\<close>), present with the value \<open>None\<close>
  (\<open>Null\<close>) or present with a value (\<open>Val\<close>). Following the extraction schema
  (\<open>fiscal_extraction_parser.py\<close>), textual values are strings and numeric values are
  finite floats. Record components are prefixed by the name of their dictionary.
\<close>

datatype 'a entry = Missing | Null | Val 'a

text \<open>\<open>d.get(k)\<close>\<close>

fun get :: "'a entry \<Rightarrow> 'a option" where
  "get Missing = None"
| "get Null = None"
| "get (Val v) = Some v"

text \<open>\<open>d.get(k, default)\<close>\<close>

fun get_default :: "'a entry \<Rightarrow> 'a \<Rightarrow> 'a option" where
  "get_default Missing d = Some d"
| "get_default Null d = None"
| "get_default (Val v) d = Some v"

text \<open>
  \<open>d.get(k, {})\<close> followed by a \<open>.get\<close> on the result: \<open>None.get\<close> raises
  \<open>AttributeError\<close>.
\<close>

fun section_of :: "'a entry \<Rightarrow> 'a \<Rightarrow> error + 'a" where
  "section_of Missing d = Inr d"
| "section_of Null d = Inl AttributeError"
| "section_of (Val v) d = Inr v"

text \<open>Truth value of an optional string: \<open>None\<close> and the empty string are false.\<close>

fun truthy :: "string option \<Rightarrow> bool" where
  "truthy None = False"
| "truthy (Some s) = (s \<noteq> [])"

record endereco =
  endereco_uf :: "string entry"

record emitente =
  emitente_cnpj :: "string entry"
  emitente_razao_social :: "string entry"
  emitente_uf :: "string entry"
  emitente_endereco :: "endereco entry"

record destinatario =
  destinatario_documento :: "string entry"
  destinatario_tipo_documento :: "string entry"
  destinatario_endereco :: "endereco entry"

record identificacao =
  identificacao_data_emissao :: "string entry"
  identificacao_chave_acesso :: "string entry"
  identificacao_tipo_operacao :: "string entry"

record impostos =
  impostos_icms :: "real entry"
  impostos_pis :: "real entry"
  impostos_cofins :: "real entry"

record produto =
  produto_codigo :: "string entry"
  produto_descricao :: "string entry"
  produto_ncm :: "string entry"
  produto_cfop :: "string entry"
  produto_quantidade :: "real entry"
  produto_valor_unitario :: "real entry"
  produto_valor_total :: "real entry"
  produto_impostos :: "impostos entry"

record totais =
  totais_valor_produtos :: "real entry"
  totais_valor_total_nf :: "real entry"
  totais_base_calculo_icms :: "real entry"
  totais_valor_icms :: "real entry"
  totais_aliquota_icms :: "real entry"
  totais_base_calculo_pis :: "real entry"
  totais_valor_pis :: "real entry"
  totais_aliquota_pis :: "real entry"
  totais_base_calculo_cofins :: "real entry"
  totais_valor_cofins :: "real entry"
  totais_aliquota_cofins :: "real entry"
  totais_valor_ipi :: "real entry"

record invoice =
  inv_identificacao :: "identificacao entry"
  inv_emitente :: "emitente entry"
  inv_destinatario :: "destinatario entry"
  inv_produtos :: "produto list entry"
  inv_totais :: "totais entry"

text \<open>The empty dictionary \<open>{}\<close> at each record type.\<close>

definition empty_emitente :: emitente where
  "empty_emitente = \<lparr> emitente_cnpj = Missing, emitente_razao_social = Missing,
     emitente_uf = Missing, emitente_endereco = Missing \<rparr>"

definition empty_destinatario :: destinatario where
  "empty_destinatario = \<lparr> destinatario_documento = Missing,
     destinatario_tipo_documento = Missing, destinatario_endereco = Missing \<rparr>"

definition empty_identificacao :: identificacao where
  "empty_identificacao = \<lparr> identificacao_data_emissao = Missing,
     identificacao_chave_acesso = Missing, identificacao_tipo_operacao = Missing \<rparr>"

definition empty_impostos :: impostos where
  "empty_impostos = \<lparr> impostos_icms = Missing, impostos_pis = Missing, impostos_cofins = Missing \<rparr>"

definition empty_totais :: totais where
  "empty_totais = \<lparr> totais_valor_produtos = Missing, totais_valor_total_nf = Missing,
     totais_base_calculo_icms = Missing, totais_valor_icms = Missing,
     totais_aliquota_icms = Missing, totais_base_calculo_pis = Missing,
     totais_valor_pis = Missing, totais_aliquota_pis = Missing,
     totais_base_calculo_cofins = Missing, totais_valor_cofins = Missing,
     totais_aliquota_cofins = Missing, totais_valor_ipi = Missing \<rparr>"

text \<open>
  \<open>invoice_data.get('produtos', [])\<close> followed by an iteration: iterating \<open>None\<close>
  raises \<open>TypeError\<close>.
\<close>

fun produtos_of :: "produto list entry \<Rightarrow> error + produto list" where
  "produtos_of Missing = Inr []"
| "produtos_of Null = Inl TypeError"
| "produtos_of (Val ps) = Inr ps"

text \<open>\<open>str.lower\<close> and \<open>str.upper\<close> on ASCII letters.\<close>

definition lower_char :: "char \<Rightarrow> char" where
  "lower_char c =
     (case map_of (zip ''ABCDEFGHIJKLMNOPQRSTUVWXYZ'' ''abcdefghijklmnopqrstuvwxyz'') c of
        Some d \<Rightarrow> d | None \<Rightarrow> c)"

definition upper_char :: "char \<Rightarrow> char" where
  "upper_char c =
     (case map_of (zip ''abcdefghijklmnopqrstuvwxyz'' ''ABCDEFGHIJKLMNOPQRSTUVWXYZ'') c of
        Some d \<Rightarrow> d | None \<Rightarrow> c)"

definition lower :: "string \<Rightarrow> string" where
  "lower s = map lower_char s"

definition upper :: "string \<Rightarrow> string" where
  "upper s = map upper_char s"

section \<open>Python values and \<open>float(...)\<close>\<close>

text \<open>
  The values of JSON data: \<open>None\<close>, booleans, integers, floats, strings, lists and
  dictionaries (an association list in insertion order).
\<close>

datatype pyvalue =
    VNone
  | VBool bool
  | VInt int
  | VFloat pyfloat
  | VStr string
  | VList "pyvalue list"
  | VDict "(string \<times> pyvalue) list"

text \<open>
  \<open>float(n)\<close> for an integer: the nearest float, and \<open>OverflowError\<close> when that is
  not finite.
\<close>

definition float_of_int :: "int \<Rightarrow> error + pyfloat" where
  "float_of_int n = (case fl (of_int n) of Fin y \<Rightarrow> Inr (Fin y) | _ \<Rightarrow> Inl OverflowError)"

text \<open>
  \<open>float(s)\<close> for a string of characters below 256. Underscores may stand between two
  digits only and are dropped; white space around the numeral is dropped; what remains is
  an optional sign followed by \<open>inf\<close>, \<open>infinity\<close> or \<open>nan\<close> in any case, or by
  a decimal numeral with at least one digit and an optional exponent. The value is the
  nearest float. \<open>None\<close> stands for \<open>ValueError\<close>.
\<close>

definition is_space :: "char \<Rightarrow> bool" where
  "is_space c =
     (c \<in> set [CHR 0x09, CHR 0x0A, CHR 0x0B, CHR 0x0C, CHR 0x0D, CHR 0x20, CHR 0x85, CHR 0xA0])"

fun underscores_ok :: "char \<Rightarrow> string \<Rightarrow> bool" where
  "underscores_ok prev [] = (prev \<noteq> CHR ''_'')"
| "underscores_ok prev (c # cs) =
     ((if c = CHR ''_'' then is_digit prev else prev = CHR ''_'' \<longrightarrow> is_digit c)
      \<and> underscores_ok c cs)"

definition strip_space :: "string \<Rightarrow> string" where
  "strip_space s = rev (dropWhile is_space (rev (dropWhile is_space s)))"

definition digits_value :: "string \<Rightarrow> int" where
  "digits_value ds = foldl (\<lambda>n c. 10 * n + int_of_digit c) 0 ds"

definition has_sign :: "string \<Rightarrow> bool" where
  "has_sign s = (s \<noteq> [] \<and> (hd s = CHR ''-'' \<or> hd s = CHR ''+''))"

definition minus_sign :: "string \<Rightarrow> bool" where
  "minus_sign s = (s \<noteq> [] \<and> hd s = CHR ''-'')"

definition drop_sign :: "string \<Rightarrow> string" where
  "drop_sign s = (if has_sign s then tl s else s)"

definition parse_exponent :: "string \<Rightarrow> int option" where
  "parse_exponent s =
     (case s of
        [] \<Rightarrow> Some 0
      | c # r \<Rightarrow>
          if (c = CHR ''e'' \<or> c = CHR ''E'') \<and> drop_sign r \<noteq> [] \<and> list_all is_digit (drop_sign r)
          then Some (if minus_sign r then - digits_value (drop_sign r) else digits_value (drop_sign r))
          else None)"

definition parse_decimal :: "string \<Rightarrow> real option" where
  "parse_decimal s =
     (let int_part = takeWhile is_digit s;
          r1 = dropWhile is_digit s;
          point = (r1 \<noteq> [] \<and> hd r1 = CHR ''.'');
          frac_part = (if point then takeWhile is_digit (tl r1) else []);
          r2 = (if point then dropWhile is_digit (tl r1) else r1)
      in if int_part = [] \<and> frac_part = [] then None
         else (case parse_exponent r2 of
                 None \<Rightarrow> None
               | Some e \<Rightarrow>
                   Some (of_int (digits_value (int_part @ frac_part))
                         * pow 10 (e - int (length frac_part)))))"

definition float_of_string :: "string \<Rightarrow> pyfloat option" where
  "float_of_string s0 =
     (if \<not> underscores_ok (CHR 0x00) s0 then None
      else
        let s = strip_space (filter (\<lambda>c. c \<noteq> CHR ''_'') s0);
            word = lower (drop_sign s)
        in if word = ''inf'' \<or> word = ''infinity''
           then Some (if minus_sign s then NegInf else PosInf)
           else if word = ''nan'' then Some NaN
           else (case parse_decimal (drop_sign s) of
                   None \<Rightarrow> None
                 | Some x \<Rightarrow> Some (fl (if minus_sign s then - x else x))))"

section \<open>Arithmetic validators of \<open>fiscal_validator.py\<close>\<close>

text \<open>Sequencing of computations that may raise.\<close>

definition bind_err :: "error + 'a \<Rightarrow> ('a \<Rightarrow> error + 'b) \<Rightarrow> error + 'b" where
  "bind_err m f = (case m of Inl e \<Rightarrow> Inl e | Inr x \<Rightarrow> f x)"

text \<open>\<open>d[k]\<close>, raising \<open>KeyError\<close> for a key that is not in the dictionary.\<close>

definition dict_lookup :: "'a dict \<Rightarrow> string \<Rightarrow> error + 'a" where
  "dict_lookup d k = (case map_of d k of None \<Rightarrow> Inl KeyError | Some v \<Rightarrow> Inr v)"

text \<open>
  \<open>_safe_float\<close>: \<open>None\<close> gives the default; a boolean, an integer or a float goes
  through \<open>float(value)\<close>, which returns a float as it is (NaN and the infinities too)
  and raises \<open>OverflowError\<close> for an integer that is too large; a string is parsed, and
  gives the default when \<open>float\<close> raises \<open>ValueError\<close>; for a list or a dictionary
  \<open>float\<close> raises \<open>TypeError\<close>, which gives the default.
\<close>

fun safe_float :: "pyvalue \<Rightarrow> pyfloat \<Rightarrow> error + pyfloat" where
  "safe_float VNone d = Inr d"
| "safe_float (VBool b) d = Inr (Fin (if b then 1 else 0))"
| "safe_float (VInt n) d = float_of_int n"
| "safe_float (VFloat x) d = Inr x"
| "safe_float (VStr s) d = (case float_of_string s of None \<Rightarrow> Inr d | Some x \<Rightarrow> Inr x)"
| "safe_float (VList xs) d = Inr d"
| "safe_float (VDict kvs) d = Inr d"

text \<open>
  The numeric fields of an invoice are those of the schema, \<open>None\<close> or a finite float
  (see \<open>number\<close>); on them \<open>_safe_float\<close> never raises and returns the float itself,
  or the default.
\<close>

definition safe_float_field :: "real option \<Rightarrow> real \<Rightarrow> real" where
  "safe_float_field v d = (case v of None \<Rightarrow> d | Some x \<Rightarrow> x)"

text \<open>The Python value of a numeric field of the schema.\<close>

definition number :: "real option \<Rightarrow> pyvalue" where
  "number v = (case v of None \<Rightarrow> VNone | Some x \<Rightarrow> VFloat (Fin x))"

text \<open>The default \<open>tolerance=0.02\<close> of the three arithmetic validators.\<close>

definition default_tolerance :: real where
  "default_tolerance = literal 0.02"

text \<open>
  \<open>validate_product_calculation\<close>; the description of the product only enters the
  message text and is left out. The three numbers may be any value, the tolerance is a
  float.
\<close>

definition validate_product_calculation ::
  "pyvalue \<Rightarrow> pyvalue \<Rightarrow> pyvalue \<Rightarrow> pyfloat \<Rightarrow> error + bool \<times> message \<times> pyfloat dict" where
  "validate_product_calculation quantidade0 valor_unitario0 valor_total0 tolerance =
     bind_err (safe_float quantidade0 (Fin 0)) (\<lambda>quantidade.
     bind_err (safe_float valor_unitario0 (Fin 0)) (\<lambda>valor_unitario.
     bind_err (safe_float valor_total0 (Fin 0)) (\<lambda>valor_total.
     bind_err (decimal_mul (decimal_of_str quantidade) (decimal_of_str valor_unitario)) (\<lambda>product.
     bind_err (round_decimal product) (\<lambda>rounded.
       let expected_total = float_of_pydecimal rounded;
           difference = fabs (fsub expected_total valor_total);
           details = [(''quantidade'', quantidade),
                      (''valor_unitario'', valor_unitario),
                      (''valor_declarado'', valor_total),
                      (''valor_calculado'', expected_total),
                      (''diferenca'', difference)]
       in if fgt difference tolerance
          then Inr (False, Valor_total_incorreto, details)
          else Inr (True, Calculo_correto, details))))))"

text \<open>
  \<open>validate_tax_calculation\<close>, as \<open>validate_invoice\<close> calls it: with finite floats and
  the default tolerance or a finite one.
\<close>

definition validate_tax_calculation ::
  "real option \<Rightarrow> real option \<Rightarrow> real option \<Rightarrow> real \<Rightarrow> error + bool \<times> message \<times> pyfloat dict" where
  "validate_tax_calculation base_calculo0 aliquota0 valor_imposto0 tolerance =
     (let base_calculo = safe_float_field base_calculo0 0;
          aliquota = safe_float_field aliquota0 0;
          valor_imposto = safe_float_field valor_imposto0 0
      in if base_calculo = 0 then
           (if valor_imposto = 0 then Inr (True, Sem_base_de_calculo, [])
            else Inr (False, Base_zero_mas_imposto_declarado, []))
         else
           bind_err (dec_div (dec_mul (decimal_of_float base_calculo) (decimal_of_float aliquota)) 100)
             (\<lambda>quotient. bind_err (quantize round_half_even quotient)
               (\<lambda>rounded.
                  let expected_tax = float_of_decimal rounded;
                      difference = fabs (fsub expected_tax (Fin valor_imposto));
                      details = [(''base_calculo'', Fin base_calculo),
                                 (''aliquota'', Fin aliquota),
                                 (''valor_calculado'', expected_tax),
                                 (''valor_declarado'', Fin valor_imposto),
                                 (''diferenca'', difference)]
                  in if fgt difference (Fin tolerance)
                     then Inr (False, Valor_incorreto, details)
                     else Inr (True, Calculo_correto, details))))"

text \<open>The rate table \<open>self.tax_rates\<close>; it is never assigned after construction.\<close>

definition pis_padrao :: real where
  "pis_padrao = literal 1.65"

definition cofins_padrao :: real where
  "cofins_padrao = literal 7.6"

definition icms_interno :: "real dict" where
  "icms_interno =
     [(''PR'', 19.5), (''SC'', 17), (''RS'', 17), (''SP'', 18), (''RJ'', 20), (''MG'', 18),
      (''ES'', 17), (''AC'', 19), (''AM'', 20), (''AP'', 18), (''PA'', 19), (''RO'', 19.5),
      (''RR'', 20), (''TO'', 20), (''AL'', 19), (''BA'', 20.5), (''CE'', 20), (''MA'', 23),
      (''PB'', 20), (''PE'', 20.5), (''PI'', 22.5), (''RN'', 20), (''SE'', 18), (''DF'', 20),
      (''GO'', 19), (''MT'', 17), (''MS'', 17), (''default'', 18)]"

definition icms_interestadual :: "real dict" where
  "icms_interestadual = [(''sul_sudeste'', 12), (''outras_regioes'', 7)]"

definition get_icms_aliquota :: "string \<Rightarrow> string \<Rightarrow> real" where
  "get_icms_aliquota uf operacao_tipo =
     (if operacao_tipo = ''interno''
      then (case map_of icms_interno (upper uf) of
              Some r \<Rightarrow> r | None \<Rightarrow> dict_get icms_interno ''default'')
      else dict_get icms_interestadual ''sul_sudeste'')"

text \<open>
  \<open>validate_total_sum\<close>, called with floats (on which \<open>_safe_float\<close> is the identity);
  the computed sum may be infinite.
\<close>

definition validate_total_sum :: "pyfloat \<Rightarrow> pyfloat \<Rightarrow> real \<Rightarrow> bool \<times> message \<times> pyfloat dict" where
  "validate_total_sum items_total declared_total tolerance =
     (let difference = fabs (fsub items_total declared_total);
          details = [(''soma_calculada'', items_total),
                     (''total_declarado'', declared_total),
                     (''diferenca'', difference)]
      in if fgt difference (Fin tolerance) then (False, Soma_incorreta, details)
         else (True, Soma_correta, details))"

section \<open>Validation of a whole invoice\<close>

text \<open>
  A finding (class \<open>ValidationError\<close>). The field path, the suggestion and the texts built
  by f-strings are kept as structured values: \<open>Money x\<close> stands for \<open>f'R$ {x:.2f}'\<close> and
  \<open>Percent x\<close> for \<open>f'{x:.2f}%'\<close>.
\<close>

datatype fmt = Text string | Money pyfloat | Percent pyfloat

datatype field_path =
    Emitente_cnpj
  | Destinatario_documento
  | Identificacao_chave_acesso
  | Identificacao_tipo_operacao
  | Produtos_ncm nat
  | Produtos_cfop nat
  | Produtos_valor_total nat
  | Totais_valor_icms
  | Totais_aliquota_icms
  | Totais_valor_pis
  | Totais_aliquota_pis
  | Totais_valor_cofins
  | Totais_aliquota_cofins
  | Totais_valor_produtos

datatype hint =
    Verifique_CNPJ
  | Verifique_CPF
  | Informe_chave_de_acesso
  | Verifique_chave_de_acesso
  | Informe_NCM
  | Verifique_NCM
  | Informe_CFOP
  | Verifique_CFOP
  | Corrija_valor_total pyfloat
  | Verifique_calculo_ICMS
  | Verifique_aliquota
  | Verifique_calculo_ICMS_para string
  | Verifique_calculo_PIS
  | Verifique_regime_PIS
  | Verifique_calculo_COFINS
  | Verifique_regime_COFINS
  | Corrija_para pyfloat
  | Preencha_o_campo
  | Informe_tipo_de_operacao
  | Use_CFOP_compativel string

record validation_error =
  severity :: string
  category :: string
  field :: field_path
  description :: message
  current_value :: "fmt option"
  expected_value :: "fmt option"
  suggestion :: "hint option"

definition ValidationError ::
  "string \<Rightarrow> string \<Rightarrow> field_path \<Rightarrow> message \<Rightarrow> fmt option \<Rightarrow> fmt option \<Rightarrow> hint option
   \<Rightarrow> validation_error" where
  "ValidationError sev cat fld descr cur expd sug =
     \<lparr> severity = sev, category = cat, field = fld, description = descr,
       current_value = cur, expected_value = expd, suggestion = sug \<rparr>"

text \<open>The mutable state of a \<open>FiscalValidator\<close>: the two accumulators.\<close>

record validator =
  errors :: "validation_error list"
  warnings :: "validation_error list"

definition append_error :: "validation_error \<Rightarrow> validator \<Rightarrow> validator" where
  "append_error e s = s\<lparr>errors := errors s @ [e]\<rparr>"

definition append_warning :: "validation_error \<Rightarrow> validator \<Rightarrow> validator" where
  "append_warning w s = s\<lparr>warnings := warnings s @ [w]\<rparr>"

text \<open>
  A method that may raise returns the exception or unit, together with the state it
  leaves behind.
\<close>

type_synonym step = "(error + unit) \<times> validator"

definition and_then :: "step \<Rightarrow> (validator \<Rightarrow> step) \<Rightarrow> step" where
  "and_then r f = (case r of (Inl e, s) \<Rightarrow> (Inl e, s) | (Inr u, s) \<Rightarrow> f s)"

subsection \<open>\<open>_validate_documents\<close>\<close>

text \<open>The block run after \<open>validate_cnpj\<close> (three places) and after \<open>validate_cpf\<close> (two).\<close>

definition check_cnpj :: "field_path \<Rightarrow> string \<Rightarrow> validator \<Rightarrow> validator" where
  "check_cnpj fld doc s =
     (let (valid, msg) = validate_cnpj doc
      in if \<not> valid
         then append_error (ValidationError ''critico'' ''documento'' fld msg
                              (Some (Text doc)) None (Some Verifique_CNPJ)) s
         else s)"

definition check_cpf :: "field_path \<Rightarrow> string \<Rightarrow> validator \<Rightarrow> validator" where
  "check_cpf fld doc s =
     (let (valid, msg) = validate_cpf doc
      in if \<not> valid
         then append_error (ValidationError ''erro'' ''documento'' fld msg
                              (Some (Text doc)) None (Some Verifique_CPF)) s
         else s)"

definition documents_emitente :: "emitente \<Rightarrow> validator \<Rightarrow> validator" where
  "documents_emitente emitente s =
     (case get (emitente_cnpj emitente) of
        None \<Rightarrow> s
      | Some c \<Rightarrow> if c \<noteq> [] then check_cnpj Emitente_cnpj c s else s)"

definition documents_destinatario :: "destinatario \<Rightarrow> validator \<Rightarrow> validator" where
  "documents_destinatario destinatario s =
     (let tipo_doc0 = get_default (destinatario_tipo_documento destinatario) [];
          tipo_doc = (if truthy tipo_doc0 then map_option lower tipo_doc0 else tipo_doc0);
          documento = get_default (destinatario_documento destinatario) []
      in if tipo_doc = Some ''cnpj'' \<and> truthy documento
         then check_cnpj Destinatario_documento (the documento) s
         else if tipo_doc = Some ''cpf'' \<and> truthy documento
         then check_cpf Destinatario_documento (the documento) s
         else if truthy documento \<and> \<not> truthy tipo_doc
         then (let doc_clean = strip_non_digits (the documento)
               in if length doc_clean = 14 then check_cnpj Destinatario_documento (the documento) s
                  else if length doc_clean = 11 then check_cpf Destinatario_documento (the documento) s
                  else s)
         else s)"

definition documents_identificacao :: "identificacao \<Rightarrow> validator \<Rightarrow> validator" where
  "documents_identificacao identificacao s =
     (case get (identificacao_chave_acesso identificacao) of
        None \<Rightarrow>
          append_warning (ValidationError ''aviso'' ''identificacao'' Identificacao_chave_acesso
                            Chave_de_acesso_nao_informada (Some (Text ''None''))
                            (Some (Text ''44 digitos'')) (Some Informe_chave_de_acesso)) s
      | Some chave \<Rightarrow>
          if chave \<noteq> [] then
            (let (valid, msg, details) = validate_chave_acesso chave
             in if \<not> valid
                then append_error (ValidationError ''critico'' ''identificacao''
                                     Identificacao_chave_acesso msg (Some (Text chave)) None
                                     (Some Verifique_chave_de_acesso)) s
                else s)
          else s)"

definition validate_documents :: "invoice \<Rightarrow> validator \<Rightarrow> step" where
  "validate_documents invoice_data s =
     (case section_of (inv_emitente invoice_data) empty_emitente of
        Inl e \<Rightarrow> (Inl e, s)
      | Inr emitente \<Rightarrow>
          let s1 = documents_emitente emitente s
          in case section_of (inv_destinatario invoice_data) empty_destinatario of
               Inl e \<Rightarrow> (Inl e, s1)
             | Inr destinatario \<Rightarrow>
                 let s2 = documents_destinatario destinatario s1
                 in case section_of (inv_identificacao invoice_data) empty_identificacao of
                      Inl e \<Rightarrow> (Inl e, s2)
                    | Inr identificacao \<Rightarrow> (Inr (), documents_identificacao identificacao s2))"

subsection \<open>\<open>_validate_fiscal_codes\<close>\<close>

definition fiscal_codes_ncm :: "nat \<Rightarrow> produto \<Rightarrow> validator \<Rightarrow> validator" where
  "fiscal_codes_ncm i produto s =
     (case get (produto_ncm produto) of
        None \<Rightarrow>
          append_warning (ValidationError ''aviso'' ''codigo_fiscal'' (Produtos_ncm i)
                            NCM_nao_informado (Some (Text ''None'')) (Some (Text ''8 digitos''))
                            (Some Informe_NCM)) s
      | Some ncm \<Rightarrow>
          if ncm \<noteq> [] then
            (let (valid, msg) = validate_ncm ncm
             in if \<not> valid
                then append_warning (ValidationError ''aviso'' ''codigo_fiscal'' (Produtos_ncm i)
                                       msg (Some (Text ncm)) (Some (Text ''8 digitos''))
                                       (Some Verifique_NCM)) s
                else s)
          else s)"

definition fiscal_codes_cfop :: "nat \<Rightarrow> produto \<Rightarrow> validator \<Rightarrow> validator" where
  "fiscal_codes_cfop i produto s =
     (case get (produto_cfop produto) of
        None \<Rightarrow>
          append_warning (ValidationError ''aviso'' ''codigo_fiscal'' (Produtos_cfop i)
                            CFOP_nao_informado (Some (Text ''None'')) (Some (Text ''4 digitos''))
                            (Some Informe_CFOP)) s
      | Some cfop \<Rightarrow>
          if cfop \<noteq> [] then
            (let (valid, msg, details) = validate_cfop cfop
             in if \<not> valid
                then append_error (ValidationError ''erro'' ''codigo_fiscal'' (Produtos_cfop i)
                                     msg (Some (Text cfop)) (Some (Text ''4 digitos''))
                                     (Some Verifique_CFOP)) s
                else s)
          else s)"

text \<open>The loop \<open>for i, produto in enumerate(produtos)\<close>, from index \<open>i\<close> on.\<close>

fun fiscal_codes_loop :: "nat \<Rightarrow> produto list \<Rightarrow> validator \<Rightarrow> validator" where
  "fiscal_codes_loop i [] s = s"
| "fiscal_codes_loop i (produto # rest) s =
     fiscal_codes_loop (Suc i) rest (fiscal_codes_cfop i produto (fiscal_codes_ncm i produto s))"

definition validate_fiscal_codes :: "invoice \<Rightarrow> validator \<Rightarrow> step" where
  "validate_fiscal_codes invoice_data s =
     (case produtos_of (inv_produtos invoice_data) of
        Inl e \<Rightarrow> (Inl e, s)
      | Inr produtos \<Rightarrow> (Inr (), fiscal_codes_loop 0 produtos s))"

subsection \<open>\<open>_validate_products_calculations\<close>\<close>

text \<open>The body of the loop for the product at index \<open>i\<close>.\<close>

definition products_calculations_body :: "nat \<Rightarrow> produto \<Rightarrow> validator \<Rightarrow> step" where
  "products_calculations_body i produto s =
     (let qtd = safe_float_field (get (produto_quantidade produto)) 0;
          val_unit = safe_float_field (get (produto_valor_unitario produto)) 0;
          val_total = safe_float_field (get (produto_valor_total produto)) 0
      in if 0 < qtd \<or> 0 < val_unit \<or> 0 < val_total then
           (case validate_product_calculation (VFloat (Fin qtd)) (VFloat (Fin val_unit))
                   (VFloat (Fin val_total)) (Fin default_tolerance) of
              Inl e \<Rightarrow> (Inl e, s)
            | Inr (valid, msg, details) \<Rightarrow>
                if \<not> valid then
                  (case dict_lookup details ''valor_calculado'' of
                     Inl e \<Rightarrow> (Inl e, s)
                   | Inr valor_calculado \<Rightarrow>
                       (Inr (),
                        append_error (ValidationError ''erro'' ''calculo'' (Produtos_valor_total i)
                                        msg (Some (Money (Fin val_total)))
                                        (Some (Money valor_calculado))
                                        (Some (Corrija_valor_total valor_calculado))) s))
                else (Inr (), s))
         else (Inr (), s))"

fun products_calculations_loop :: "nat \<Rightarrow> produto list \<Rightarrow> validator \<Rightarrow> step" where
  "products_calculations_loop i [] s = (Inr (), s)"
| "products_calculations_loop i (produto # rest) s =
     and_then (products_calculations_body i produto s) (products_calculations_loop (Suc i) rest)"

definition validate_products_calculations :: "invoice \<Rightarrow> validator \<Rightarrow> step" where
  "validate_products_calculations invoice_data s =
     (case produtos_of (inv_produtos invoice_data) of
        Inl e \<Rightarrow> (Inl e, s)
      | Inr produtos \<Rightarrow> products_calculations_loop 0 produtos s)"

subsection \<open>\<open>_validate_tax_calculations\<close>\<close>

text \<open>
  The block \<open>if not valid: self.errors.append(...)\<close> that follows each call of
  \<open>validate_tax_calculation\<close>; it reads \<open>details['valor_calculado']\<close>.
\<close>

definition tax_error ::
  "field_path \<Rightarrow> hint \<Rightarrow> real \<Rightarrow> bool \<times> message \<times> pyfloat dict \<Rightarrow> validator \<Rightarrow> step" where
  "tax_error fld sug valor r s =
     (case r of (valid, msg, details) \<Rightarrow>
        if \<not> valid then
          (case dict_lookup details ''valor_calculado'' of
             Inl e \<Rightarrow> (Inl e, s)
           | Inr valor_calculado \<Rightarrow>
               (Inr (),
                append_error (ValidationError ''erro'' ''imposto'' fld msg
                                (Some (Money (Fin valor))) (Some (Money valor_calculado))
                                (Some sug)) s))
        else (Inr (), s))"

definition tax_icms :: "totais \<Rightarrow> string \<Rightarrow> validator \<Rightarrow> step" where
  "tax_icms totais uf_emitente s =
     (let base_icms = safe_float_field (get (totais_base_calculo_icms totais)) 0;
          valor_icms = safe_float_field (get (totais_valor_icms totais)) 0;
          aliquota_icms_declarada = safe_float_field (get (totais_aliquota_icms totais)) 0
      in if 0 < base_icms \<and> 0 < valor_icms then
           (let aliquota_esperada = get_icms_aliquota uf_emitente ''interno''
            in if 0 < aliquota_icms_declarada then
                 (case validate_tax_calculation (Some base_icms) (Some aliquota_icms_declarada)
                         (Some valor_icms) default_tolerance of
                    Inl e \<Rightarrow> (Inl e, s)
                  | Inr r \<Rightarrow>
                      and_then (tax_error Totais_valor_icms Verifique_calculo_ICMS valor_icms r s)
                        (\<lambda>s1. (Inr (),
                           if \<not> (7 \<le> aliquota_icms_declarada \<and> aliquota_icms_declarada \<le> 25)
                           then append_warning
                                  (ValidationError ''aviso'' ''imposto'' Totais_aliquota_icms
                                     Aliquota_de_ICMS_incomum
                                     (Some (Percent (Fin aliquota_icms_declarada)))
                                     (Some (Percent (Fin aliquota_esperada)))
                                     (Some Verifique_aliquota)) s1
                           else s1)))
               else
                 (case validate_tax_calculation (Some base_icms) (Some aliquota_esperada)
                         (Some valor_icms) default_tolerance of
                    Inl e \<Rightarrow> (Inl e, s)
                  | Inr r \<Rightarrow>
                      tax_error Totais_valor_icms (Verifique_calculo_ICMS_para uf_emitente)
                        valor_icms r s))
         else (Inr (), s))"

definition tax_pis :: "totais \<Rightarrow> validator \<Rightarrow> step" where
  "tax_pis totais s =
     (let base_pis = safe_float_field (get (totais_base_calculo_pis totais)) 0;
          valor_pis = safe_float_field (get (totais_valor_pis totais)) 0;
          aliquota_pis0 = safe_float_field (get (totais_aliquota_pis totais)) 0
      in if 0 < base_pis \<and> 0 < valor_pis then
           (let aliquota_pis = (if aliquota_pis0 = 0 then pis_padrao else aliquota_pis0)
            in case validate_tax_calculation (Some base_pis) (Some aliquota_pis) (Some valor_pis)
                      default_tolerance of
                 Inl e \<Rightarrow> (Inl e, s)
               | Inr r \<Rightarrow>
                   and_then (tax_error Totais_valor_pis Verifique_calculo_PIS valor_pis r s)
                     (\<lambda>s1. (Inr (),
                        if aliquota_pis \<notin> set [literal 0.65, literal 1.65]
                        then append_warning
                               (ValidationError ''aviso'' ''imposto'' Totais_aliquota_pis
                                  Aliquota_de_PIS_incomum (Some (Percent (Fin aliquota_pis)))
                                  (Some (Text ''0,65% ou 1,65%'')) (Some Verifique_regime_PIS)) s1
                        else s1)))
         else (Inr (), s))"

definition tax_cofins :: "totais \<Rightarrow> validator \<Rightarrow> step" where
  "tax_cofins totais s =
     (let base_cofins = safe_float_field (get (totais_base_calculo_cofins totais)) 0;
          valor_cofins = safe_float_field (get (totais_valor_cofins totais)) 0;
          aliquota_cofins0 = safe_float_field (get (totais_aliquota_cofins totais)) 0
      in if 0 < base_cofins \<and> 0 < valor_cofins then
           (let aliquota_cofins = (if aliquota_cofins0 = 0 then cofins_padrao else aliquota_cofins0)
            in case validate_tax_calculation (Some base_cofins) (Some aliquota_cofins)
                      (Some valor_cofins) default_tolerance of
                 Inl e \<Rightarrow> (Inl e, s)
               | Inr r \<Rightarrow>
                   and_then (tax_error Totais_valor_cofins Verifique_calculo_COFINS valor_cofins r s)
                     (\<lambda>s1. (Inr (),
                        if aliquota_cofins \<notin> set [literal 3.0, literal 7.6]
                        then append_warning
                               (ValidationError ''aviso'' ''imposto'' Totais_aliquota_cofins
                                  Aliquota_de_COFINS_incomum (Some (Percent (Fin aliquota_cofins)))
                                  (Some (Text ''3,0% ou 7,6%'')) (Some Verifique_regime_COFINS)) s1
                        else s1)))
         else (Inr (), s))"

text \<open>
  \<open>emitente.get('uf', '').upper()\<close> raises \<open>AttributeError\<close> when the key is present
  with the value \<open>None\<close>.
\<close>

definition validate_tax_calculations :: "invoice \<Rightarrow> validator \<Rightarrow> step" where
  "validate_tax_calculations invoice_data s =
     (case section_of (inv_emitente invoice_data) empty_emitente of
        Inl e \<Rightarrow> (Inl e, s)
      | Inr emitente \<Rightarrow>
          (case get_default (emitente_uf emitente) [] of
             None \<Rightarrow> (Inl AttributeError, s)
           | Some uf \<Rightarrow>
               (let uf_emitente = upper uf
                in case section_of (inv_totais invoice_data) empty_totais of
                     Inl e \<Rightarrow> (Inl e, s)
                   | Inr totais \<Rightarrow>
                       and_then (tax_icms totais uf_emitente s)
                         (\<lambda>s1. and_then (tax_pis totais s1) (tax_cofins totais)))))"

subsection \<open>\<open>_validate_totals\<close>\<close>

text \<open>The built-in \<open>sum\<close> over floats: left to right, starting from 0.\<close>

definition sum_floats :: "real list \<Rightarrow> pyfloat" where
  "sum_floats xs = foldl fadd (Fin 0) (map Fin xs)"

definition validate_totals :: "invoice \<Rightarrow> validator \<Rightarrow> step" where
  "validate_totals invoice_data s =
     (case produtos_of (inv_produtos invoice_data) of
        Inl e \<Rightarrow> (Inl e, s)
      | Inr produtos \<Rightarrow>
          (case section_of (inv_totais invoice_data) empty_totais of
             Inl e \<Rightarrow> (Inl e, s)
           | Inr totais \<Rightarrow>
               (let sum_produtos =
                      sum_floats (map (\<lambda>p. safe_float_field (get (produto_valor_total p)) 0) produtos);
                    valor_produtos = safe_float_field (get (totais_valor_produtos totais)) 0;
                    s1 = (if fgt sum_produtos (Fin 0) \<or> 0 < valor_produtos then
                            (let (valid, msg, details) =
                                   validate_total_sum sum_produtos (Fin valor_produtos)
                                     default_tolerance
                             in if \<not> valid
                                then append_error
                                       (ValidationError ''erro'' ''totalizador'' Totais_valor_produtos
                                          msg (Some (Money (Fin valor_produtos)))
                                          (Some (Money sum_produtos))
                                          (Some (Corrija_para sum_produtos))) s
                                else s)
                          else s);
                    s2 = (if get (totais_valor_produtos totais) = None \<and> 0 < length produtos
                          then append_warning
                                 (ValidationError ''aviso'' ''totalizador'' Totais_valor_produtos
                                    Campo_valor_produtos_ausente (Some (Text ''None''))
                                    (Some (Money sum_produtos)) (Some Preencha_o_campo)) s1
                          else s1)
                in (Inr (), s2))))"

subsection \<open>\<open>_validate_consistency\<close>\<close>

definition consistency_body :: "string \<Rightarrow> nat \<Rightarrow> produto \<Rightarrow> validator \<Rightarrow> validator" where
  "consistency_body tipo_op i produto s =
     (case get (produto_cfop produto) of
        None \<Rightarrow> s
      | Some cfop \<Rightarrow>
          if cfop \<noteq> [] then
            (let (valid, msg, details) = validate_cfop cfop
             in if valid then
                  (let cfop_tipo = (case map_of details ''tipo_operacao'' of
                                      None \<Rightarrow> [] | Some t \<Rightarrow> t)
                   in if cfop_tipo \<noteq> [] \<and> cfop_tipo \<noteq> tipo_op
                      then append_error
                             (ValidationError ''erro'' ''consistencia'' (Produtos_cfop i)
                                (CFOP_indica_outro_tipo cfop cfop_tipo tipo_op)
                                (Some (Text cfop)) None (Some (Use_CFOP_compativel tipo_op))) s
                      else s)
                else s)
          else s)"

fun consistency_loop :: "string \<Rightarrow> nat \<Rightarrow> produto list \<Rightarrow> validator \<Rightarrow> validator" where
  "consistency_loop tipo_op i [] s = s"
| "consistency_loop tipo_op i (produto # rest) s =
     consistency_loop tipo_op (Suc i) rest (consistency_body tipo_op i produto s)"

definition validate_consistency :: "invoice \<Rightarrow> validator \<Rightarrow> step" where
  "validate_consistency invoice_data s =
     (case section_of (inv_identificacao invoice_data) empty_identificacao of
        Inl e \<Rightarrow> (Inl e, s)
      | Inr identificacao \<Rightarrow>
          (case get (identificacao_tipo_operacao identificacao) of
             None \<Rightarrow>
               (Inr (),
                append_warning
                  (ValidationError ''aviso'' ''identificacao'' Identificacao_tipo_operacao
                     Tipo_de_operacao_nao_informado (Some (Text ''None''))
                     (Some (Text ''entrada ou saida'')) (Some Informe_tipo_de_operacao)) s)
           | Some tipo_op0 \<Rightarrow>
               (let tipo_op = lower tipo_op0
                in case produtos_of (inv_produtos invoice_data) of
                     Inl e \<Rightarrow> (Inl e, s)
                   | Inr produtos \<Rightarrow> (Inr (), consistency_loop tipo_op 0 produtos s))))"

subsection \<open>\<open>_compile_validation_result\<close> and \<open>validate_invoice\<close>\<close>

record validacao_geral =
  status :: string
  score_conformidade :: int
  total_erros_criticos :: int
  total_erros :: int
  total_avisos :: int
  apto_para_processamento :: bool

record report =
  validacao_geral :: validacao_geral
  problemas :: "validation_error list"
  timestamp :: nat
  validador :: string

text \<open>
  \<open>datetime.now()\<close> is an input of the model: \<open>now\<close> is the instant read from the clock,
  and the \<open>timestamp\<close> of the report is that instant.
\<close>

definition compile_validation_result :: "nat \<Rightarrow> validator \<Rightarrow> report" where
  "compile_validation_result now s =
     (let total_errors =
            int (length (filter (\<lambda>e. severity e \<in> set [''critico'', ''erro'']) (errors s)));
          total_warnings =
            int (length (filter (\<lambda>e. severity e = ''aviso'') (errors s)))
            + int (length (warnings s));
          total_critical = int (length (filter (\<lambda>e. severity e = ''critico'') (errors s)));
          score0 = 100;
          score1 = score0 - total_critical * 25;
          score2 = score1 - (total_errors - total_critical) * 10;
          score3 = score2 - total_warnings * 3;
          score = max 0 score3;
          (status_str, apto) =
            (if 0 < total_critical then (''invalido'', False)
             else if 0 < total_errors then (''invalido'', False)
             else if 0 < total_warnings then (''com_avisos'', True)
             else (''valido'', True))
      in \<lparr> validacao_geral =
             \<lparr> status = status_str,
               score_conformidade = score,
               total_erros_criticos = total_critical,
               total_erros = total_errors - total_critical,
               total_avisos = total_warnings,
               apto_para_processamento = apto \<rparr>,
           problemas = errors s @ warnings s,
           timestamp = now,
           validador = ''FiscalValidator v2.0 (Corrigido e Atualizado 2024-2025)'' \<rparr>)"

text \<open>
  \<open>validate_invoice\<close> on a validator in state \<open>s\<close>, with the clock showing \<open>now\<close>: the
  report or the exception raised, and the state of the validator afterwards.
\<close>

definition validate_invoice :: "invoice \<Rightarrow> nat \<Rightarrow> validator \<Rightarrow> (error + report) \<times> validator" where
  "validate_invoice invoice_data now s =
     (let s0 = s\<lparr>errors := [], warnings := []\<rparr>
      in case and_then (validate_documents invoice_data s0)
                (\<lambda>s1. and_then (validate_fiscal_codes invoice_data s1)
                (\<lambda>s2. and_then (validate_products_calculations invoice_data s2)
                (\<lambda>s3. and_then (validate_tax_calculations invoice_data s3)
                (\<lambda>s4. and_then (validate_totals invoice_data s4)
                (\<lambda>s5. validate_consistency invoice_data s5))))) of
           (Inl e, s') \<Rightarrow> (Inl e, s')
         | (Inr u, s') \<Rightarrow> (Inr (compile_validation_result now s'), s'))"

section \<open>The fiscal calculator of \<open>fiscal_calculator.py\<close>\<close>

text \<open>
  The dictionaries that the calculator returns are modelled as Python values: a
  dictionary is an association list in insertion order. Texts with accented letters are
  written without the accents.
\<close>

fun VOptStr :: "string option \<Rightarrow> pyvalue" where
  "VOptStr None = VNone"
| "VOptStr (Some s) = VStr s"

text \<open>
  The state of a \<open>FiscalCalculator\<close>: the rate table \<open>self.tax_rates\<close>, whose values are
  decimals. \<open>new_calculator\<close> is the state after \<open>__init__\<close>.
\<close>

record calculator =
  tax_rates_pis_padrao :: real
  tax_rates_cofins_padrao :: real
  tax_rates_pis_cumulativo :: real
  tax_rates_cofins_cumulativo :: real
  tax_rates_icms_interno :: "real dict"

definition new_calculator :: calculator where
  "new_calculator =
     \<lparr> tax_rates_pis_padrao = 1.65,
       tax_rates_cofins_padrao = 7.6,
       tax_rates_pis_cumulativo = 0.65,
       tax_rates_cofins_cumulativo = 3.0,
       tax_rates_icms_interno =
         [(''SP'', 18.0), (''RJ'', 20.0), (''MG'', 18.0), (''PR'', 19.5), (''SC'', 17.0),
          (''RS'', 17.0), (''default'', 18.0)] \<rparr>"

text \<open>\<open>_safe_decimal\<close> on the values of the schema, with its default \<open>0.0\<close>.\<close>

definition safe_decimal :: "real option \<Rightarrow> real" where
  "safe_decimal v = (case v of None \<Rightarrow> decimal_of_float 0 | Some x \<Rightarrow> decimal_of_float x)"

text \<open>
  \<open>_safe_get\<close> walks a path of keys: one step into a sub-dictionary (\<open>descend\<close>) gives the
  default as soon as the value on the way is absent or not a dictionary, and the last
  step (\<open>leaf\<close>) gives the default for an absent key and for \<open>None\<close>.
\<close>

definition descend :: "'a entry \<Rightarrow> ('a \<Rightarrow> 'r) \<Rightarrow> 'r \<Rightarrow> 'r" where
  "descend e f d = (case e of Val v \<Rightarrow> f v | _ \<Rightarrow> d)"

definition leaf :: "'a entry \<Rightarrow> 'a \<Rightarrow> 'a" where
  "leaf e d = (case e of Val v \<Rightarrow> v | _ \<Rightarrow> d)"

definition emitente_uf_of :: "invoice \<Rightarrow> string" where
  "emitente_uf_of invoice_data =
     descend (inv_emitente invoice_data)
       (\<lambda>e. descend (emitente_endereco e) (\<lambda>en. leaf (endereco_uf en) ''SP'') ''SP'') ''SP''"

definition destinatario_uf_of :: "invoice \<Rightarrow> string" where
  "destinatario_uf_of invoice_data =
     descend (inv_destinatario invoice_data)
       (\<lambda>d. descend (destinatario_endereco d) (\<lambda>en. leaf (endereco_uf en) ''SP'') ''SP'') ''SP''"

definition classificar_carga_tributaria :: "pyfloat \<Rightarrow> string" where
  "classificar_carga_tributaria percentual =
     (if flt percentual (Fin 10) then ''Baixa''
      else if flt percentual (Fin 20) then ''Moderada''
      else if flt percentual (Fin 30) then ''Alta''
      else ''Muito Alta'')"

text \<open>\<open>(x * rate / Decimal('100')).quantize(Decimal('0.01'), rounding=ROUND_HALF_UP)\<close>\<close>

definition percent_of :: "real \<Rightarrow> real \<Rightarrow> error + real" where
  "percent_of x rate = bind_err (dec_div (dec_mul x rate) 100) (quantize round_half_up)"

text \<open>\<open>(x / total * Decimal('100')).quantize(Decimal('0.01'), rounding=ROUND_HALF_UP)\<close>\<close>

definition share_of :: "real \<Rightarrow> real \<Rightarrow> error + real" where
  "share_of x whole = bind_err (dec_div x whole) (\<lambda>q. quantize round_half_up (dec_mul q 100))"

text \<open>
  \<open>_comparar_regimes_tributarios\<close>. Its argument is a float; the decimal read from an
  infinite float is infinite and makes \<open>quantize\<close> raise, the decimal read from NaN is
  NaN and passes through.
\<close>

definition regimes_dict :: "pyfloat \<Rightarrow> pyfloat \<Rightarrow> pyfloat \<Rightarrow> pyvalue" where
  "regimes_dict impostos_simples impostos_presumido impostos_real =
     VDict
       [(''simples_nacional'',
           VDict [(''impostos_estimados'', VFloat impostos_simples),
                  (''aliquota_efetiva'', VFloat (Fin (literal 10.0)))]),
        (''lucro_presumido'',
           VDict [(''impostos_estimados'', VFloat impostos_presumido),
                  (''aliquota_efetiva'', VFloat (Fin (literal 3.65)))]),
        (''lucro_real'',
           VDict [(''impostos_estimados_sem_creditos'', VFloat impostos_real),
                  (''aliquota_base'', VFloat (Fin (literal 9.25))),
                  (''observacao'', VStr ''Valor pode ser menor com aproveitamento de creditos'')])]"

fun comparar_regimes_tributarios :: "pyfloat \<Rightarrow> error + pyvalue" where
  "comparar_regimes_tributarios (Fin faturamento_mensal) =
     (let fat = decimal_of_float faturamento_mensal
      in bind_err (percent_of fat 10.0) (\<lambda>impostos_simples.
         bind_err (percent_of fat 3.65) (\<lambda>impostos_presumido.
         bind_err (percent_of fat 9.25) (\<lambda>impostos_real.
           Inr (regimes_dict (float_of_decimal impostos_simples)
                  (float_of_decimal impostos_presumido) (float_of_decimal impostos_real))))))"
| "comparar_regimes_tributarios NaN = Inr (regimes_dict NaN NaN NaN)"
| "comparar_regimes_tributarios PosInf = Inl InvalidOperation"
| "comparar_regimes_tributarios NegInf = Inl InvalidOperation"

subsection \<open>\<open>_analisar_produtos\<close>\<close>

text \<open>
  The loop over the products: the running total and the two lists of descriptions.
  \<open>prod.get('impostos', {})\<close> followed by \<open>.get\<close> raises when the value is \<open>None\<close>.
\<close>

fun analisar_produtos_loop ::
  "produto list \<Rightarrow> real \<times> pyvalue list \<times> pyvalue list \<Rightarrow> error + real \<times> pyvalue list \<times> pyvalue list" where
  "analisar_produtos_loop [] acc = Inr acc"
| "analisar_produtos_loop (produto # rest) (valor_total, produtos_sem_icms, produtos_sem_pis_cofins) =
     (let valor = safe_decimal (get (produto_valor_total produto));
          valor_total1 = dec_add valor_total valor
      in bind_err (section_of (produto_impostos produto) empty_impostos) (\<lambda>impostos.
           let icms_val = get (impostos_icms impostos);
               sem_icms1 =
                 (if icms_val = None \<or> icms_val = Some 0
                  then produtos_sem_icms @ [VOptStr (get_default (produto_descricao produto) ''N/A'')]
                  else produtos_sem_icms);
               sem_pis_cofins1 =
                 (if get (impostos_pis impostos) = None \<or> get (impostos_cofins impostos) = None
                  then produtos_sem_pis_cofins
                         @ [VOptStr (get_default (produto_descricao produto) ''N/A'')]
                  else produtos_sem_pis_cofins)
           in analisar_produtos_loop rest (valor_total1, sem_icms1, sem_pis_cofins1)))"

text \<open>The argument is \<open>None\<close> when the key produtos holds \<open>None\<close>.\<close>

definition analisar_produtos :: "produto list option \<Rightarrow> error + pyvalue" where
  "analisar_produtos produtos0 =
     (case produtos0 of
        None \<Rightarrow> Inr (VDict [])
      | Some produtos \<Rightarrow>
          if produtos = [] then Inr (VDict [])
          else
            bind_err (analisar_produtos_loop produtos (0, [], []))
              (\<lambda>(valor_total, produtos_sem_icms, produtos_sem_pis_cofins).
                 bind_err (bind_err (dec_div valor_total (of_nat (length produtos)))
                             (quantize round_half_up))
                   (\<lambda>valor_medio.
                      Inr (VDict
                        [(''total_produtos'', VInt (int (length produtos))),
                         (''valor_medio_produto'', VFloat (float_of_decimal valor_medio)),
                         (''produtos_sem_icms'',
                            VDict [(''quantidade'', VInt (int (length produtos_sem_icms))),
                                   (''exemplos'', VList (take 3 produtos_sem_icms))]),
                         (''produtos_sem_pis_cofins'',
                            VDict [(''quantidade'', VInt (int (length produtos_sem_pis_cofins))),
                                   (''exemplos'', VList (take 3 produtos_sem_pis_cofins))])]))))"

subsection \<open>\<open>analisar_nota_individual\<close>\<close>

text \<open>\<open>invoice_data.get('produtos', [])\<close>: \<open>None\<close> when the key holds \<open>None\<close>.\<close>

definition produtos_get :: "invoice \<Rightarrow> produto list option" where
  "produtos_get invoice_data = get_default (inv_produtos invoice_data) []"

text \<open>\<open>len(produtos)\<close>\<close>

definition len_produtos :: "produto list option \<Rightarrow> error + int" where
  "len_produtos produtos = (case produtos of None \<Rightarrow> Inl TypeError | Some ps \<Rightarrow> Inr (int (length ps)))"

definition analisar_nota_individual :: "calculator \<Rightarrow> invoice \<Rightarrow> error + pyvalue" where
  "analisar_nota_individual self invoice_data =
     (let produtos = produtos_get invoice_data;
          emitente_uf = emitente_uf_of invoice_data;
          destinatario_uf = destinatario_uf_of invoice_data
      in bind_err (section_of (inv_totais invoice_data) empty_totais) (\<lambda>totais.
         let valor_total = safe_decimal (get (totais_valor_total_nf totais));
             valor_icms = safe_decimal (get (totais_valor_icms totais));
             valor_pis = safe_decimal (get (totais_valor_pis totais));
             valor_cofins = safe_decimal (get (totais_valor_cofins totais));
             valor_ipi = safe_decimal (get (totais_valor_ipi totais));
             campos_none =
               (if get (totais_valor_pis totais) = None then [VStr ''PIS''] else [])
               @ (if get (totais_valor_cofins totais) = None then [VStr ''COFINS''] else [])
               @ (if get (totais_valor_icms totais) = None then [VStr ''ICMS''] else [])
         in bind_err (quantize round_half_up
                        (dec_add (dec_add (dec_add valor_icms valor_pis) valor_cofins) valor_ipi))
              (\<lambda>total_impostos.
            bind_err (if 0 < valor_total then share_of total_impostos valor_total else Inr 0)
              (\<lambda>carga_tributaria.
            bind_err (percent_of valor_total (tax_rates_pis_padrao self))
              (\<lambda>credito_pis_potencial.
            bind_err (percent_of valor_total (tax_rates_cofins_padrao self))
              (\<lambda>credito_cofins_potencial.
            let credito_pis_recuperavel = max 0 (dec_sub credito_pis_potencial valor_pis);
                credito_cofins_recuperavel = max 0 (dec_sub credito_cofins_potencial valor_cofins);
                credito_total_recuperavel =
                  dec_add credito_pis_recuperavel credito_cofins_recuperavel;
                aliquota_icms_uf =
                  (case map_of (tax_rates_icms_interno self) emitente_uf of
                     Some r \<Rightarrow> r
                   | None \<Rightarrow> dict_get (tax_rates_icms_interno self) ''default'');
                base_icms = safe_decimal (get (totais_base_calculo_icms totais))
            in bind_err (if 0 < base_icms then percent_of base_icms aliquota_icms_uf else Inr 0)
              (\<lambda>icms_esperado.
            let diferenca_icms = dec_sub valor_icms icms_esperado
            in bind_err (comparar_regimes_tributarios (float_of_decimal valor_total))
              (\<lambda>comparacao_regimes.
            bind_err (analisar_produtos produtos)
              (\<lambda>analise_produtos.
            let operacao_interestadual = (emitente_uf \<noteq> destinatario_uf)
            in bind_err (len_produtos produtos)
              (\<lambda>total_produtos.
            Inr (VDict
              [(''impostos_calculados'',
                  VDict [(''icms'', VFloat (float_of_decimal valor_icms)),
                         (''pis'', VFloat (float_of_decimal valor_pis)),
                         (''cofins'', VFloat (float_of_decimal valor_cofins)),
                         (''ipi'', VFloat (float_of_decimal valor_ipi)),
                         (''total_impostos'', VFloat (float_of_decimal total_impostos)),
                         (''campos_ausentes'', VList campos_none)]),
               (''carga_tributaria'',
                  VDict [(''percentual'', VFloat (float_of_decimal carga_tributaria)),
                         (''classificacao'',
                            VStr (classificar_carga_tributaria (float_of_decimal carga_tributaria))),
                         (''valor_total_nf'', VFloat (float_of_decimal valor_total))]),
               (''oportunidades_creditos'',
                  VDict [(''pis'',
                            VDict [(''atual'', VFloat (float_of_decimal valor_pis)),
                                   (''potencial'', VFloat (float_of_decimal credito_pis_potencial)),
                                   (''recuperavel'', VFloat (float_of_decimal credito_pis_recuperavel)),
                                   (''ausente'', VBool (get (totais_valor_pis totais) = None))]),
                         (''cofins'',
                            VDict [(''atual'', VFloat (float_of_decimal valor_cofins)),
                                   (''potencial'', VFloat (float_of_decimal credito_cofins_potencial)),
                                   (''recuperavel'', VFloat (float_of_decimal credito_cofins_recuperavel)),
                                   (''ausente'', VBool (get (totais_valor_cofins totais) = None))]),
                         (''total_recuperavel_mensal'',
                            VFloat (float_of_decimal credito_total_recuperavel)),
                         (''total_recuperavel_anual'',
                            VFloat (float_of_decimal (dec_mul credito_total_recuperavel 12))),
                         (''observacao'',
                            if campos_none \<noteq> []
                            then VStr ''Valores calculados considerando campos ausentes como R$ 0,00''
                            else VNone)]),
               (''analise_icms'',
                  VDict [(''valor_cobrado'', VFloat (float_of_decimal valor_icms)),
                         (''valor_esperado'', VFloat (float_of_decimal icms_esperado)),
                         (''diferenca'', VFloat (float_of_decimal diferenca_icms)),
                         (''aliquota_uf'', VFloat (float_of_decimal aliquota_icms_uf)),
                         (''base_calculo'', VFloat (float_of_decimal base_icms)),
                         (''status'',
                            if \<bar>diferenca_icms\<bar> < 0.50 then VStr ''correto'' else VStr ''verificar''),
                         (''ausente'', VBool (get (totais_valor_icms totais) = None))]),
               (''comparacao_regimes'', comparacao_regimes),
               (''analise_produtos'', analise_produtos),
               (''contexto_operacao'',
                  VDict [(''interestadual'', VBool operacao_interestadual),
                         (''uf_emitente'', VStr emitente_uf),
                         (''uf_destinatario'', VStr destinatario_uf),
                         (''total_produtos'', VInt total_produtos)]),
               (''qualidade_dados'',
                  VDict [(''campos_none_total'', VInt (int (length campos_none))),
                         (''campos_none_lista'', VList campos_none),
                         (''integridade_dados'',
                            if campos_none = [] then VStr ''completa'' else VStr ''parcial'')])])))))))))))"

text \<open>Reading a path of keys in a returned dictionary.\<close>

fun lookup_path :: "pyvalue \<Rightarrow> string list \<Rightarrow> pyvalue option" where
  "lookup_path v [] = Some v"
| "lookup_path (VDict d) (k # ks) =
     (case map_of d k of None \<Rightarrow> None | Some v \<Rightarrow> lookup_path v ks)"
| "lookup_path _ (k # ks) = None"

subsection \<open>\<open>analisar_multiplas_notas\<close>\<close>

text \<open>
  A dictionary that the loop fills keeps its keys in insertion order. \<open>upsert k init f d\<close>
  is \<open>if k not in d: d[k] = init\<close> followed by \<open>d[k] = f(d[k])\<close>.
\<close>

fun upsert :: "'k \<Rightarrow> 'v \<Rightarrow> ('v \<Rightarrow> 'v) \<Rightarrow> ('k \<times> 'v) list \<Rightarrow> ('k \<times> 'v) list" where
  "upsert k init f [] = [(k, f init)]"
| "upsert k init f ((k', v) # rest) =
     (if k = k' then (k', f v) # rest else (k', v) # upsert k init f rest)"

text \<open>
  The local variables of the loop: the running totals, the three dictionaries
  \<open>fornecedores\<close> (name \<open>\<mapsto>\<close> valor, quantidade), \<open>produtos_dict\<close> (codigo \<open>\<mapsto>\<close> descricao,
  quantidade, valor_total) and \<open>notas_por_mes\<close> (mes \<open>\<mapsto>\<close> quantidade, valor), and the
  counters of \<open>None\<close> fields.
\<close>

record aggregate =
  agg_faturamento_total :: real
  agg_impostos_total :: real
  agg_icms_total :: real
  agg_pis_total :: real
  agg_cofins_total :: real
  agg_ipi_total :: real
  agg_fornecedores :: "(string \<times> real \<times> int) list"
  agg_produtos_dict :: "(string option \<times> string option \<times> real \<times> real) list"
  agg_notas_por_mes :: "(string \<times> int \<times> real) list"
  agg_notas_com_none :: int
  agg_none_pis :: int
  agg_none_cofins :: int
  agg_none_icms :: int
  agg_none_ipi :: int

definition empty_aggregate :: aggregate where
  "empty_aggregate =
     \<lparr> agg_faturamento_total = 0, agg_impostos_total = 0, agg_icms_total = 0,
       agg_pis_total = 0, agg_cofins_total = 0, agg_ipi_total = 0,
       agg_fornecedores = [], agg_produtos_dict = [], agg_notas_por_mes = [],
       agg_notas_com_none = 0, agg_none_pis = 0, agg_none_cofins = 0, agg_none_icms = 0,
       agg_none_ipi = 0 \<rparr>"

text \<open>\<open>self._safe_get(inv, 'emitente', 'razao_social', default='N/A')\<close>\<close>

definition emitente_nome_of :: "invoice \<Rightarrow> string" where
  "emitente_nome_of nota =
     descend (inv_emitente nota) (\<lambda>e. leaf (emitente_razao_social e) ''N/A'') ''N/A''"

text \<open>\<open>self._safe_get(inv, 'identificacao', 'data_emissao', default='')\<close>\<close>

definition data_emissao_of :: "invoice \<Rightarrow> string" where
  "data_emissao_of nota =
     descend (inv_identificacao nota) (\<lambda>i. leaf (identificacao_data_emissao i) []) []"

text \<open>The inner loop over the products of one invoice.\<close>

fun produtos_dict_loop ::
  "produto list \<Rightarrow> (string option \<times> string option \<times> real \<times> real) list
     \<Rightarrow> (string option \<times> string option \<times> real \<times> real) list" where
  "produtos_dict_loop [] d = d"
| "produtos_dict_loop (produto # rest) d =
     (let codigo = get_default (produto_codigo produto) ''N/A'';
          d1 = upsert codigo (get_default (produto_descricao produto) ''N/A'', 0, 0)
                 (\<lambda>(descricao, quantidade, valor_total).
                    (descricao,
                     dec_add quantidade (safe_decimal (get (produto_quantidade produto))),
                     dec_add valor_total (safe_decimal (get (produto_valor_total produto)))))
                 d
      in produtos_dict_loop rest d1)"

text \<open>The body of the loop for one invoice.\<close>

definition multiplas_body :: "invoice \<Rightarrow> aggregate \<Rightarrow> error + aggregate" where
  "multiplas_body nota a =
     bind_err (section_of (inv_totais nota) empty_totais) (\<lambda>totais.
       let valor_nf = safe_decimal (get (totais_valor_total_nf totais));
           icms = safe_decimal (get (totais_valor_icms totais));
           pis = safe_decimal (get (totais_valor_pis totais));
           cofins = safe_decimal (get (totais_valor_cofins totais));
           ipi = safe_decimal (get (totais_valor_ipi totais));
           pis_none = (get (totais_valor_pis totais) = None);
           cofins_none = (get (totais_valor_cofins totais) = None);
           icms_none = (get (totais_valor_icms totais) = None);
           ipi_none = (get (totais_valor_ipi totais) = None);
           nota_tem_none = (pis_none \<or> cofins_none \<or> icms_none \<or> ipi_none);
           emitente = emitente_nome_of nota
       in bind_err (produtos_of (inv_produtos nota)) (\<lambda>produtos.
            let data_emissao = data_emissao_of nota
            in Inr
                 \<lparr> agg_faturamento_total = dec_add (agg_faturamento_total a) valor_nf,
                   agg_impostos_total =
                     dec_add (agg_impostos_total a)
                       (dec_add (dec_add (dec_add icms pis) cofins) ipi),
                   agg_icms_total = dec_add (agg_icms_total a) icms,
                   agg_pis_total = dec_add (agg_pis_total a) pis,
                   agg_cofins_total = dec_add (agg_cofins_total a) cofins,
                   agg_ipi_total = dec_add (agg_ipi_total a) ipi,
                   agg_fornecedores =
                     upsert emitente (0, 0)
                       (\<lambda>(valor, quantidade). (dec_add valor valor_nf, quantidade + 1))
                       (agg_fornecedores a),
                   agg_produtos_dict = produtos_dict_loop produtos (agg_produtos_dict a),
                   agg_notas_por_mes =
                     (if data_emissao \<noteq> []
                      then upsert (take 7 data_emissao) (0, 0)
                             (\<lambda>(quantidade, valor). (quantidade + 1, dec_add valor valor_nf))
                             (agg_notas_por_mes a)
                      else agg_notas_por_mes a),
                   agg_notas_com_none =
                     (if nota_tem_none then agg_notas_com_none a + 1 else agg_notas_com_none a),
                   agg_none_pis = (if pis_none then agg_none_pis a + 1 else agg_none_pis a),
                   agg_none_cofins =
                     (if cofins_none then agg_none_cofins a + 1 else agg_none_cofins a),
                   agg_none_icms = (if icms_none then agg_none_icms a + 1 else agg_none_icms a),
                   agg_none_ipi = (if ipi_none then agg_none_ipi a + 1 else agg_none_ipi a) \<rparr>))"

fun multiplas_loop :: "invoice list \<Rightarrow> aggregate \<Rightarrow> error + aggregate" where
  "multiplas_loop [] a = Inr a"
| "multiplas_loop (nota # rest) a = bind_err (multiplas_body nota a) (multiplas_loop rest)"

text \<open>
  \<open>sorted(rows, key=lambda x: x['valor_total'], reverse=True)\<close>: a stable sort in
  descending order of the key, which is a float and never NaN here. Each row is carried
  with its key.
\<close>

fun insert_desc :: "pyfloat \<times> 'a \<Rightarrow> (pyfloat \<times> 'a) list \<Rightarrow> (pyfloat \<times> 'a) list" where
  "insert_desc x [] = [x]"
| "insert_desc x (y # ys) = (if flt (fst y) (fst x) then x # y # ys else y # insert_desc x ys)"

definition sorted_desc :: "(pyfloat \<times> 'a) list \<Rightarrow> (pyfloat \<times> 'a) list" where
  "sorted_desc rows = foldl (\<lambda>acc x. insert_desc x acc) [] rows"

text \<open>
  \<open>sorted(notas_por_mes.items())\<close>: the keys are distinct strings, compared by code point.
\<close>

fun str_less :: "string \<Rightarrow> string \<Rightarrow> bool" where
  "str_less [] [] = False"
| "str_less [] (b # bs) = True"
| "str_less (a # as) [] = False"
| "str_less (a # as) (b # bs) =
     ((of_char a :: nat) < of_char b \<or> (a = b \<and> str_less as bs))"

fun insert_asc :: "string \<times> 'a \<Rightarrow> (string \<times> 'a) list \<Rightarrow> (string \<times> 'a) list" where
  "insert_asc x [] = [x]"
| "insert_asc x (y # ys) =
     (if str_less (fst x) (fst y) then x # y # ys else y # insert_asc x ys)"

definition sorted_items :: "(string \<times> 'a) list \<Rightarrow> (string \<times> 'a) list" where
  "sorted_items items = foldl (\<lambda>acc x. insert_asc x acc) [] items"

text \<open>The rows of \<open>top_fornecedores\<close> before sorting, in the order of the dictionary.\<close>

fun fornecedores_rows ::
  "real \<Rightarrow> (string \<times> real \<times> int) list \<Rightarrow> error + (pyfloat \<times> pyvalue) list" where
  "fornecedores_rows faturamento_total [] = Inr []"
| "fornecedores_rows faturamento_total ((nome, valor, quantidade) # rest) =
     bind_err
       (if 0 < faturamento_total
        then bind_err (share_of valor faturamento_total)
               (\<lambda>p. Inr (VFloat (float_of_decimal p)))
        else Inr (VInt 0))
       (\<lambda>percentual.
          bind_err (fornecedores_rows faturamento_total rest)
            (\<lambda>rows.
               Inr ((float_of_decimal valor,
                     VDict [(''nome'', VStr nome),
                            (''valor_total'', VFloat (float_of_decimal valor)),
                            (''quantidade_notas'', VInt quantidade),
                            (''percentual_faturamento'', percentual)]) # rows)))"

text \<open>The rows of \<open>top_produtos\<close> before sorting.\<close>

definition produtos_rows ::
  "(string option \<times> string option \<times> real \<times> real) list \<Rightarrow> (pyfloat \<times> pyvalue) list" where
  "produtos_rows d =
     map (\<lambda>(codigo, descricao, quantidade, valor_total).
            (float_of_decimal valor_total,
             VDict [(''codigo'', VOptStr codigo),
                    (''descricao'', VOptStr descricao),
                    (''quantidade_total'', VFloat (float_of_decimal quantidade)),
                    (''valor_total'', VFloat (float_of_decimal valor_total))])) d"

text \<open>
  \<open>sum(f['percentual_faturamento'] for f in ...)\<close>, read as a float: the summands are
  floats, or all the integer 0; the sum starts from the integer 0, and adding a float to
  it gives that float.
\<close>

fun as_float :: "pyvalue \<Rightarrow> pyfloat" where
  "as_float (VFloat x) = x"
| "as_float (VInt n) = Fin (of_int n)"
| "as_float _ = NaN"

definition percentual_faturamento_of :: "pyvalue \<Rightarrow> pyvalue" where
  "percentual_faturamento_of row =
     (case row of
        VDict d \<Rightarrow> (case map_of d ''percentual_faturamento'' of Some v \<Rightarrow> v | None \<Rightarrow> VNone)
      | _ \<Rightarrow> VNone)"

definition sum_percentual :: "pyvalue list \<Rightarrow> pyfloat" where
  "sum_percentual rows =
     foldl (\<lambda>acc row. fadd acc (as_float (percentual_faturamento_of row))) (Fin 0) rows"

text \<open>\<open>str(n)\<close> for a natural number.\<close>

fun str_nat :: "nat \<Rightarrow> string" where
  "str_nat n =
     (if n < 10 then [''0123456789'' ! n]
      else str_nat (n div 10) @ [''0123456789'' ! (n mod 10)])"

declare str_nat.simps [simp del]

text \<open>A percentage of the distribution of taxes.\<close>

definition distribuicao_percent :: "real \<Rightarrow> real \<Rightarrow> error + pyvalue" where
  "distribuicao_percent imposto impostos_total =
     (if 0 < impostos_total
      then bind_err (share_of imposto impostos_total) (\<lambda>p. Inr (VFloat (float_of_decimal p)))
      else Inr (VInt 0))"

definition analisar_multiplas_notas :: "calculator \<Rightarrow> invoice list \<Rightarrow> error + pyvalue" where
  "analisar_multiplas_notas self invoices_data =
     (if invoices_data = [] then Inr (VDict [])
      else
        let total_notas = int (length invoices_data)
        in bind_err (multiplas_loop invoices_data empty_aggregate) (\<lambda>a.
           let faturamento_total = agg_faturamento_total a;
               impostos_total = agg_impostos_total a
           in bind_err (if 0 < faturamento_total then share_of impostos_total faturamento_total
                        else Inr 0)
             (\<lambda>carga_tributaria.
           bind_err (if 0 < total_notas
                     then bind_err (dec_div faturamento_total (of_int total_notas))
                            (quantize round_half_up)
                     else Inr 0)
             (\<lambda>ticket_medio.
           bind_err (fornecedores_rows faturamento_total (agg_fornecedores a))
             (\<lambda>rows.
           let top_fornecedores = take 10 (map snd (sorted_desc rows));
               top_produtos =
                 take 10 (map snd (sorted_desc (produtos_rows (agg_produtos_dict a))));
               concentracao_top3 = sum_percentual (take 3 top_fornecedores)
           in bind_err (comparar_regimes_tributarios (float_of_decimal faturamento_total))
             (\<lambda>comparacao_regimes.
           let evolucao_mensal =
                 map (\<lambda>(mes, quantidade, valor).
                        VDict [(''mes'', VStr mes),
                               (''quantidade_notas'', VInt quantidade),
                               (''faturamento'', VFloat (float_of_decimal valor))])
                   (sorted_items (agg_notas_por_mes a))
           in bind_err (distribuicao_percent (agg_icms_total a) impostos_total)
             (\<lambda>icms_percent.
           bind_err (distribuicao_percent (agg_pis_total a) impostos_total)
             (\<lambda>pis_percent.
           bind_err (distribuicao_percent (agg_cofins_total a) impostos_total)
             (\<lambda>cofins_percent.
           bind_err (if 0 < total_notas
                     then bind_err (share_of (of_int (agg_notas_com_none a)) (of_int total_notas))
                            (\<lambda>p. Inr (VFloat (float_of_decimal p)))
                     else Inr (VInt 0))
             (\<lambda>percentual_notas_incompletas.
           Inr (VDict
             [(''metricas_gerais'',
                 VDict [(''total_notas'', VInt total_notas),
                        (''faturamento_total'', VFloat (float_of_decimal faturamento_total)),
                        (''ticket_medio'', VFloat (float_of_decimal ticket_medio)),
                        (''total_fornecedores'', VInt (int (length (agg_fornecedores a)))),
                        (''total_produtos_unicos'',
                           VInt (int (length (agg_produtos_dict a))))]),
              (''impostos_agregados'',
                 VDict [(''icms_total'', VFloat (float_of_decimal (agg_icms_total a))),
                        (''pis_total'', VFloat (float_of_decimal (agg_pis_total a))),
                        (''cofins_total'', VFloat (float_of_decimal (agg_cofins_total a))),
                        (''ipi_total'', VFloat (float_of_decimal (agg_ipi_total a))),
                        (''total_impostos'', VFloat (float_of_decimal impostos_total))]),
              (''carga_tributaria_agregada'',
                 VDict [(''percentual'', VFloat (float_of_decimal carga_tributaria)),
                        (''classificacao'',
                           VStr (classificar_carga_tributaria (float_of_decimal carga_tributaria))),
                        (''distribuicao'',
                           VDict [(''icms_percent'', icms_percent),
                                  (''pis_percent'', pis_percent),
                                  (''cofins_percent'', cofins_percent)])]),
              (''top_fornecedores'', VList top_fornecedores),
              (''analise_concentracao'',
                 VDict [(''concentracao_top3_percent'', VFloat concentracao_top3),
                        (''nivel_risco'',
                           if fgt concentracao_top3 (Fin 70) then VStr ''alto''
                           else if fgt concentracao_top3 (Fin 50) then VStr ''medio''
                           else VStr ''baixo'')]),
              (''top_produtos'', VList top_produtos),
              (''comparacao_regimes'', comparacao_regimes),
              (''evolucao_temporal'', VList evolucao_mensal),
              (''qualidade_dados'',
                 VDict [(''notas_com_campos_none'', VInt (agg_notas_com_none a)),
                        (''percentual_notas_incompletas'', percentual_notas_incompletas),
                        (''campos_none_por_tipo'',
                           VDict [(''PIS'', VInt (agg_none_pis a)),
                                  (''COFINS'', VInt (agg_none_cofins a)),
                                  (''ICMS'', VInt (agg_none_icms a)),
                                  (''IPI'', VInt (agg_none_ipi a))]),
                        (''observacao'',
                           if 0 < agg_notas_com_none a
                           then VStr (str_nat (nat (agg_notas_com_none a)) @ '' de ''
                                      @ str_nat (nat total_notas)
                                      @ '' notas possuem campos ausentes (None)'')
                           else VStr ''Todos os campos preenchidos'')])])))))))))))"

section \<open>Notions used to state the properties\<close>

text \<open>
  \<open>adds PE PW s s'\<close>: state \<open>s'\<close> extends the accumulators of \<open>s\<close> by errors that
  satisfy \<open>PE\<close> and warnings that satisfy \<open>PW\<close>.
\<close>

definition adds ::
  "(validation_error \<Rightarrow> bool) \<Rightarrow> (validation_error \<Rightarrow> bool) \<Rightarrow> validator \<Rightarrow> validator \<Rightarrow> bool" where
  "adds PE PW s s' =
     (\<exists>es ws. errors s' = errors s @ es \<and> warnings s' = warnings s @ ws
        \<and> list_all PE es \<and> list_all PW ws)"

text \<open>An error, or a warning, about one of the fields in \<open>F\<close>.\<close>

definition err_shape :: "field_path set \<Rightarrow> validation_error \<Rightarrow> bool" where
  "err_shape F e = (severity e \<in> {''critico'', ''erro''} \<and> field e \<in> F)"

definition warn_shape :: "field_path set \<Rightarrow> validation_error \<Rightarrow> bool" where
  "warn_shape F w = (severity w = ''aviso'' \<and> field w \<in> F)"

text \<open>The number of findings of a given severity.\<close>

definition count_severity :: "string \<Rightarrow> validation_error list \<Rightarrow> int" where
  "count_severity sev ps = int (length (filter (\<lambda>p. severity p = sev) ps))"

text \<open>
  The per-line arithmetic check of \<open>_validate_products_calculations\<close>: the three numbers of
  a line as the loop reads them, the guard of the loop, the guard as the specification
  words it, and the outcome of \<open>validate_product_calculation\<close> on the line.
\<close>

definition line_qtd :: "produto \<Rightarrow> real" where
  "line_qtd p = safe_float_field (get (produto_quantidade p)) 0"

definition line_val_unit :: "produto \<Rightarrow> real" where
  "line_val_unit p = safe_float_field (get (produto_valor_unitario p)) 0"

definition line_val_total :: "produto \<Rightarrow> real" where
  "line_val_total p = safe_float_field (get (produto_valor_total p)) 0"

definition line_positive :: "produto \<Rightarrow> bool" where
  "line_positive p = (0 < line_qtd p \<or> 0 < line_val_unit p \<or> 0 < line_val_total p)"

definition line_nonzero :: "produto \<Rightarrow> bool" where
  "line_nonzero p = (line_qtd p \<noteq> 0 \<or> line_val_unit p \<noteq> 0 \<or> line_val_total p \<noteq> 0)"

definition line_check :: "produto \<Rightarrow> error + bool \<times> message \<times> pyfloat dict" where
  "line_check p =
     validate_product_calculation (VFloat (Fin (line_qtd p))) (VFloat (Fin (line_val_unit p)))
       (VFloat (Fin (line_val_total p))) (Fin default_tolerance)"

definition line_invalid :: "produto \<Rightarrow> bool" where
  "line_invalid p = (case line_check p of Inr (valid, msg, details) \<Rightarrow> \<not> valid | Inl e \<Rightarrow> False)"

text \<open>The indices \<open>i\<close> for which a finding about \<open>produtos[i].valor_total\<close> is recorded.\<close>

definition valor_total_findings :: "validation_error list \<Rightarrow> nat set" where
  "valor_total_findings ps = {i. \<exists>p \<in> set ps. field p = Produtos_valor_total i}"

text \<open>The same, for the findings accumulated in a validator state.\<close>

definition recorded_valor_total :: "validator \<Rightarrow> nat set" where
  "recorded_valor_total s = valor_total_findings (errors s @ warnings s)"

text \<open>The field paths of the findings of a run, in report order; the exception otherwise.\<close>

definition report_fields :: "(error + report) \<times> validator \<Rightarrow> error + field_path list" where
  "report_fields r = (case fst r of Inl e \<Rightarrow> Inl e | Inr rep \<Rightarrow> Inr (map field (problemas rep)))"

text \<open>A freshly constructed validator.\<close>

definition new_validator :: validator where
  "new_validator = \<lparr> errors = [], warnings = [] \<rparr>"

text \<open>Invoices and invoice lines in which every key is absent, to build examples from.\<close>

definition empty_produto :: produto where
  "empty_produto = \<lparr> produto_codigo = Missing, produto_descricao = Missing,
     produto_ncm = Missing, produto_cfop = Missing, produto_quantidade = Missing,
     produto_valor_unitario = Missing, produto_valor_total = Missing,
     produto_impostos = Missing \<rparr>"

definition empty_invoice :: invoice where
  "empty_invoice = \<lparr> inv_identificacao = Missing, inv_emitente = Missing,
     inv_destinatario = Missing, inv_produtos = Missing, inv_totais = Missing \<rparr>"

text \<open>
  The tolerance check of \<open>validate_line_total\<close>. As the specification words it, in exact
  decimal arithmetic: the product rounded to two places differs from the declared total
  by at most the tolerance.
\<close>

definition line_total_within :: "real \<Rightarrow> real \<Rightarrow> real \<Rightarrow> real \<Rightarrow> bool" where
  "line_total_within qty unit_price declared tolerance =
     (\<bar>of_int (round_half_even (qty * unit_price * 100)) / 100 - declared\<bar> \<le> tolerance)"

text \<open>
  As the program computes it, from the three floats that \<open>_safe_float\<close> returns: the
  expected total is the float nearest to the product of the decimal readings of quantity
  and unit price (a decimal of 28 digits), rounded half-even to two places, and NaN when
  one of the two is NaN; the difference from the declared total is a floating-point
  difference. No expected total is computed, and \<open>InvalidOperation\<close> is raised, when
  the rounded product would need more than 28 digits, and when quantity or unit price is
  infinite and the other is not NaN.
\<close>

fun expected_total :: "pyfloat \<Rightarrow> pyfloat \<Rightarrow> pyfloat" where
  "expected_total (Fin qty) (Fin unit_price) =
     float_of_decimal
       (of_int (round_half_even (dec_mul (decimal_of_float qty) (decimal_of_float unit_price) * 100))
        / 100)"
| "expected_total _ _ = NaN"

definition float_difference :: "pyfloat \<Rightarrow> pyfloat \<Rightarrow> pyfloat" where
  "float_difference expected declared = fabs (fsub expected declared)"

fun product_out_of_range :: "pyfloat \<Rightarrow> pyfloat \<Rightarrow> bool" where
  "product_out_of_range (Fin qty) (Fin unit_price) =
     (10 ^ 28
        \<le> \<bar>round_half_even (dec_mul (decimal_of_float qty) (decimal_of_float unit_price) * 100)\<bar>)"
| "product_out_of_range NaN _ = False"
| "product_out_of_range _ NaN = False"
| "product_out_of_range _ _ = True"

section \<open>Quantities the claims about the calculator speak of\<close>

text \<open>
  The totals of an invoice as the calculator reads them (\<open>{}\<close> when the key is absent),
  its grand total and its four taxes as floats (0 when absent or \<open>None\<close>), and the
  volume and the taxes of a batch: the decimal sums over the invoices, in the order of
  the list.
\<close>

definition totais_of :: "invoice \<Rightarrow> totais" where
  "totais_of nf = (case inv_totais nf of Val t \<Rightarrow> t | _ \<Rightarrow> empty_totais)"

definition float_or_zero :: "real entry \<Rightarrow> real" where
  "float_or_zero e = (case e of Val x \<Rightarrow> x | _ \<Rightarrow> 0)"

definition grand_total :: "invoice \<Rightarrow> real" where
  "grand_total nf = float_or_zero (totais_valor_total_nf (totais_of nf))"

definition taxes :: "invoice \<Rightarrow> real" where
  "taxes nf =
     dec_add
       (dec_add
          (dec_add (decimal_of_float (float_or_zero (totais_valor_icms (totais_of nf))))
             (decimal_of_float (float_or_zero (totais_valor_pis (totais_of nf)))))
          (decimal_of_float (float_or_zero (totais_valor_cofins (totais_of nf)))))
       (decimal_of_float (float_or_zero (totais_valor_ipi (totais_of nf))))"





text \<open>
  The exceptions of a computation are all among \<open>es\<close>. The exceptions that the
  calculator can raise are \<open>calculator_errors\<close>.
\<close>

definition raises_only :: "error set \<Rightarrow> error + 'a \<Rightarrow> bool" where
  "raises_only es m = (case m of Inl e \<Rightarrow> e \<in> es | Inr x \<Rightarrow> True)"


section \<open>Successive calls\<close>





section \<open>Concrete inputs\<close>

text \<open>An invoice whose only content is an issuer tax id of three digits.\<close>

definition nf_cnpj :: invoice where
  "nf_cnpj = empty_invoice \<lparr> inv_emitente :=
      Val \<lparr> emitente_cnpj = Val ''123'', emitente_razao_social = Missing,
            emitente_uf = Missing, emitente_endereco = Missing \<rparr> \<rparr>"

text \<open>An invoice whose access key is the empty string.\<close>

definition ident_empty_chave :: identificacao where
  "ident_empty_chave =
     \<lparr> identificacao_data_emissao = Missing, identificacao_chave_acesso = Val [],
       identificacao_tipo_operacao = Val ''entrada'' \<rparr>"

definition nf_empty_chave :: invoice where
  "nf_empty_chave = empty_invoice \<lparr> inv_identificacao := Val ident_empty_chave \<rparr>"

text \<open>
  A line with quantity \<open>-1\<close>, unit price \<open>-1\<close> and no total, and the invoice made of
  that line alone.
\<close>

definition negative_line :: produto where
  "negative_line =
     empty_produto \<lparr> produto_quantidade := Val (- 1), produto_valor_unitario := Val (- 1) \<rparr>"

definition nf_negative_line :: invoice where
  "nf_negative_line = empty_invoice \<lparr> inv_produtos := Val [negative_line] \<rparr>"

text \<open>
  An all-zero line, and a line of 2 units at 10.00 declared as 20.03; the invoice with
  these two lines.
\<close>

definition zero_line :: produto where
  "zero_line =
     empty_produto \<lparr> produto_quantidade := Val 0, produto_valor_unitario := Val 0,
                     produto_valor_total := Val 0 \<rparr>"

definition wrong_line :: produto where
  "wrong_line =
     empty_produto \<lparr> produto_quantidade := Val 2, produto_valor_unitario := Val 10,
                     produto_valor_total := Val (literal 20.03) \<rparr>"

definition nf_two_lines :: invoice where
  "nf_two_lines = empty_invoice \<lparr> inv_produtos := Val [zero_line, wrong_line] \<rparr>"

text \<open>
  The invoice \<open>exemplo_nf_com_none\<close> of the self-test at the end of
  \<open>fiscal_intelligence_agent.py\<close>, with the keys the program reads.
\<close>

definition exemplo_totais :: totais where
  "exemplo_totais =
     \<lparr> totais_valor_produtos = Val (literal 259.78),
       totais_valor_total_nf = Val (literal 259.78),
       totais_base_calculo_icms = Val (literal 15.1),
       totais_valor_icms = Val (literal 2.72),
       totais_aliquota_icms = Missing,
       totais_base_calculo_pis = Missing,
       totais_valor_pis = Null,
       totais_aliquota_pis = Missing,
       totais_base_calculo_cofins = Missing,
       totais_valor_cofins = Null,
       totais_aliquota_cofins = Missing,
       totais_valor_ipi = Val (literal 0.0) \<rparr>"

definition exemplo_produtos :: "produto list" where
  "exemplo_produtos =
     [\<lparr> produto_codigo = Val ''90793AB42600'',
        produto_descricao = Val ''OLEO YAMALUBE 4T'',
        produto_ncm = Val ''27101932'',
        produto_cfop = Val ''5656'',
        produto_quantidade = Val (literal 1.0),
        produto_valor_unitario = Val (literal 32.9),
        produto_valor_total = Val (literal 32.9),
        produto_impostos =
          Val \<lparr> impostos_icms = Val (literal 0.0), impostos_pis = Null, impostos_cofins = Null \<rparr> \<rparr>,
      \<lparr> produto_codigo = Val ''904301222700'',
        produto_descricao = Val ''GAXETA'',
        produto_ncm = Val ''73182900'',
        produto_cfop = Val ''5102'',
        produto_quantidade = Val (literal 1.0),
        produto_valor_unitario = Val (literal 1.94),
        produto_valor_total = Val (literal 1.94),
        produto_impostos =
          Val \<lparr> impostos_icms = Val (literal 0.35), impostos_pis = Null, impostos_cofins = Null \<rparr> \<rparr>]"

definition exemplo_nf_com_none :: invoice where
  "exemplo_nf_com_none =
     \<lparr> inv_identificacao =
         Val \<lparr> identificacao_data_emissao = Val ''2025-05-09'',
               identificacao_chave_acesso =
                 Val ''3525.0531.1525.6200.0346.5500.1000.0113.3410.0044.0803'',
               identificacao_tipo_operacao = Val ''0 - Entrada'' \<rparr>,
       inv_emitente =
         Val \<lparr> emitente_cnpj = Val ''31.152.562/0003-46'',
               emitente_razao_social = Val ''NOBRE COMERCIO DE MOTOCICLETAS'',
               emitente_uf = Missing,
               emitente_endereco = Val \<lparr> endereco_uf = Val ''SP'' \<rparr> \<rparr>,
       inv_destinatario =
         Val \<lparr> destinatario_documento = Val ''529.278.128-29'',
               destinatario_tipo_documento = Val ''CPF'',
               destinatario_endereco = Val \<lparr> endereco_uf = Val ''SP'' \<rparr> \<rparr>,
       inv_produtos = Val exemplo_produtos,
       inv_totais = Val exemplo_totais \<rparr>"



section \<open>Properties of the identifier validators\<close>

lemma upt12: "[0..<12] = [0,1,2,3,4,5,6,7,8,9,10,11]"
  by code_simp

lemma upt13: "[0..<13] = [0,1,2,3,4,5,6,7,8,9,10,11,12]"
  by code_simp

lemma first_pass_eq: "mod11_digit (weighted_sum d weight_1 12) = cnpj_first_check d"
  by (simp add: weighted_sum_def weight_1_def cnpj_first_check_def mod11_digit_def upt12 Let_def algebra_simps)

lemma second_pass_eq: "mod11_digit (weighted_sum d weight_2 13) = cnpj_second_check d"
  by (simp add: weighted_sum_def weight_2_def cnpj_second_check_def mod11_digit_def upt13 Let_def algebra_simps)

lemma strip_non_digits_id: "list_all is_digit d \<Longrightarrow> strip_non_digits d = d"
  by (simp add: strip_non_digits_def list_all_iff)

lemma int_of_digit_eq_iff: "int_of_digit a = int_of_digit b \<longleftrightarrow> a = b"
  by (simp add: int_of_digit_def)

lemma weighted_sum_update:
  "n \<le> k \<Longrightarrow> weighted_sum (d[k := c]) w n = weighted_sum d w n"
proof -
  assume "n \<le> k"
  then have "map (\<lambda>i. int_of_digit (d[k := c] ! i) * w ! i) [0..<n]
      = map (\<lambda>i. int_of_digit (d ! i) * w ! i) [0..<n]"
    by (intro map_cong) auto
  then show ?thesis unfolding weighted_sum_def by (rule arg_cong)
qed

lemma all_digits_update:
  "list_all is_digit d \<Longrightarrow> is_digit c \<Longrightarrow> list_all is_digit (d[k := c])"
  by (metis list_all_iff set_update_subset_insert subsetD insert_iff)

lemma repeated_nonzero_fails:
  "\<forall>c \<in> set ''123456789''. \<not> cnpj_equations (replicate 14 c)"
  by code_simp

lemma repeated_equations_zero:
  assumes "cnpj_equations d" and "d \<in> set (repeated_digits 14)"
  shows "d = ''00000000000000''"
proof -
  from assms(2) obtain c where c: "c \<in> set ''0123456789''" and d: "d = replicate 14 c"
    by (auto simp: repeated_digits_def)
  have z: "replicate 14 CHR ''0'' = ''00000000000000''" by code_simp
  show ?thesis
  proof (cases "c = CHR ''0''")
    case True
    with d z show ?thesis by simp
  next
    case False
    with c have "c \<in> set ''123456789''" by auto
    with repeated_nonzero_fails have "\<not> cnpj_equations (replicate 14 c)" by blast
    with assms(1) d show ?thesis by simp
  qed
qed

lemma validate_cnpj_accepts:
  assumes "cnpj_equations d" and "d \<noteq> ''00000000000000''"
  shows "validate_cnpj d = (True, CNPJ_valido)"
proof -
  have "d \<notin> set (repeated_digits 14)"
    using assms repeated_equations_zero by blast
  then show ?thesis
    using assms(1)
    by (simp add: validate_cnpj_def cnpj_equations_def strip_non_digits_id
        first_pass_eq second_pass_eq Let_def)
qed

lemma validate_cnpj_flip_first:
  assumes "cnpj_equations d" and "is_digit c" and "c \<noteq> d ! 12"
  shows "\<not> fst (validate_cnpj (d[12 := c]))"
proof -
  let ?e = "d[12 := c]"
  have len: "length d = 14" and digs: "list_all is_digit d"
    and chk: "int_of_digit (d ! 12) = cnpj_first_check d"
    using assms(1) by (simp_all add: cnpj_equations_def)
  have strip: "strip_non_digits ?e = ?e"
    using digs assms(2) by (simp add: strip_non_digits_id all_digits_update)
  have same: "mod11_digit (weighted_sum ?e weight_1 12) = cnpj_first_check d"
    by (simp add: weighted_sum_update first_pass_eq)
  have "int_of_digit (?e ! 12) \<noteq> cnpj_first_check d"
    using len assms(3) by (simp add: int_of_digit_eq_iff flip: chk)
  then show ?thesis
    using len by (simp add: validate_cnpj_def strip same Let_def)
qed

lemma validate_cnpj_flip_second:
  assumes "cnpj_equations d" and "is_digit c" and "c \<noteq> d ! 13"
  shows "\<not> fst (validate_cnpj (d[13 := c]))"
proof -
  let ?e = "d[13 := c]"
  have len: "length d = 14" and digs: "list_all is_digit d"
    and chk: "int_of_digit (d ! 13) = cnpj_second_check d"
    using assms(1) by (simp_all add: cnpj_equations_def)
  have strip: "strip_non_digits ?e = ?e"
    using digs assms(2) by (simp add: strip_non_digits_id all_digits_update)
  have same: "mod11_digit (weighted_sum ?e weight_2 13) = cnpj_second_check d"
    by (simp add: weighted_sum_update second_pass_eq)
  have "int_of_digit (?e ! 13) \<noteq> cnpj_second_check d"
    using len assms(3) by (simp add: int_of_digit_eq_iff flip: chk)
  then show ?thesis
    using len by (simp add: validate_cnpj_def strip same Let_def)
qed

text \<open>
  Claim C1, as stated, fails: the all-zero sequence satisfies both check-digit equations
  (both weighted sums are 0, so both check digits are 0), yet \<open>validate_cnpj\<close> rejects it
  through its guard against repeated-digit sequences.
\<close>

theorem validate_cnpj_all_zero_counterexample:
  "cnpj_equations ''00000000000000'' \<and> \<not> fst (validate_cnpj ''00000000000000'')"
  by code_simp

text \<open>
  Claim C1, amended: every sequence of fourteen digits that satisfies the two check-digit
  equations and is not the all-zero sequence is accepted by \<open>validate_cnpj\<close>; and for every
  sequence satisfying the equations, replacing the 13th digit or the 14th digit by any
  other digit makes \<open>validate_cnpj\<close> reject.
\<close>

theorem validate_cnpj_check_digits:
  assumes "cnpj_equations d"
  shows "(d \<noteq> ''00000000000000'' \<longrightarrow> validate_cnpj d = (True, CNPJ_valido))
       \<and> (\<forall>c. is_digit c \<and> c \<noteq> d ! 12 \<longrightarrow> \<not> fst (validate_cnpj (d[12 := c])))
       \<and> (\<forall>c. is_digit c \<and> c \<noteq> d ! 13 \<longrightarrow> \<not> fst (validate_cnpj (d[13 := c])))"
  using assms validate_cnpj_accepts validate_cnpj_flip_first validate_cnpj_flip_second
  by blast

theorem validate_cnpj_check_digits_witness:
  "cnpj_equations ''31152562000346''
   \<and> validate_cnpj ''31152562000346'' = (True, CNPJ_valido)
   \<and> \<not> fst (validate_cnpj (''31152562000346''[12 := CHR ''5'']))
   \<and> \<not> fst (validate_cnpj (''31152562000346''[13 := CHR ''7'']))"
proof -
  have h: "cnpj_equations ''31152562000346''" by code_simp
  have d5: "is_digit CHR ''5''" and d7: "is_digit CHR ''7''" by (simp_all add: is_digit_def)
  from validate_cnpj_check_digits [OF h] d5 d7 h show ?thesis by simp
qed

lemma chave_weights_list:
  "chave_weights = [2,3,4,5,6,7,8,9, 2,3,4,5,6,7,8,9, 2,3,4,5,6,7,8,9, 2,3,4,5,6,7,8,9,
                    2,3,4,5,6,7,8,9, 2,3,4]"
  by code_simp

lemma upt43: "[0..<43] = [0,1,2,3,4,5,6,7,8,9,10,11,12,13,14,15,16,17,18,19,20,21,22,23,24,25,26,27,28,29,
   30,31,32,33,34,35,36,37,38,39,40,41,42]"
  by code_simp

lemma chave_weights_cycle: "k < 43 \<Longrightarrow> chave_weights ! k = 2 + int (k mod 8)"
proof -
  assume "k < 43"
  then have "k \<in> set [0..<43]" by simp
  then show ?thesis
    unfolding upt43 chave_weights_list by auto
qed

lemma chave_sum_reindex:
  "sum_list (map (\<lambda>i. int_of_digit (d ! i) * chave_weights ! (42 - i)) [0..<43])
   = sum_list (map (\<lambda>k. int_of_digit (d ! (42 - k)) * (2 + int (k mod 8))) [0..<43])"
proof -
  have "sum_list (map (\<lambda>i. int_of_digit (d ! i) * chave_weights ! (42 - i)) [0..<43])
      = (\<Sum>i = 0..<43. int_of_digit (d ! i) * chave_weights ! (42 - i))"
    by (simp add: interv_sum_list_conv_sum_set_nat)
  also have "\<dots> = (\<Sum>k = 0..<43. int_of_digit (d ! (42 - k)) * chave_weights ! (42 - (42 - k)))"
    by (subst sum.atLeastLessThan_rev) simp
  also have "\<dots> = (\<Sum>k = 0..<43. int_of_digit (d ! (42 - k)) * (2 + int (k mod 8)))"
    by (rule sum.cong) (simp_all add: chave_weights_cycle)
  also have "\<dots> = sum_list (map (\<lambda>k. int_of_digit (d ! (42 - k)) * (2 + int (k mod 8))) [0..<43])"
    by (simp add: interv_sum_list_conv_sum_set_nat)
  finally show ?thesis .
qed

lemma chave_expected_dv_eq: "chave_expected_dv d = chave_check_digit d"
  by (simp add: chave_expected_dv_def chave_check_digit_def chave_sum_reindex Let_def)

lemma slice_append: "a \<le> b \<Longrightarrow> b \<le> c \<Longrightarrow> slice d a b @ slice d b c = slice d a c"
proof -
  assume ab: "a \<le> b" and bc: "b \<le> c"
  have "take ((b - a) + (c - b)) (drop a d)
      = take (b - a) (drop a d) @ take (c - b) (drop (b - a) (drop a d))"
    by (rule take_add)
  with ab bc show ?thesis by (simp add: slice_def)
qed

lemma slice_all: "length d = n \<Longrightarrow> slice d 0 n = d"
  by (simp add: slice_def)

lemma chave_details_concat:
  "length d = 44 \<Longrightarrow> concat (map snd (chave_details d)) = d"
  by (simp add: chave_details_def slice_append slice_all)

lemma chave_details_dv: "length d = 44 \<Longrightarrow> hd (dict_get (chave_details d) ''dv'') = d ! 43"
  by (simp add: chave_details_def dict_get_def slice_def hd_drop_conv_nth)

text \<open>
  Claim C8: for every string of 44 digits whose last digit is the modulo-11 check digit of
  the 43 digits before it, \<open>validate_chave_acesso\<close> returns ok = true together with the
  decomposed fields uf (2), ano_mes (4), cnpj (14), modelo (2), serie (3), numero (9),
  tipo_emissao (1), codigo (8), dv (1), in that order, and concatenating the fields in
  that order gives back the 44-digit string.
\<close>

theorem validate_chave_acesso_roundtrip:
  assumes "length d = 44" and "list_all is_digit d"
    and "int_of_digit (d ! 43) = chave_check_digit d"
  shows "validate_chave_acesso d = (True, Chave_de_acesso_valida, chave_details d)
       \<and> map fst (chave_details d) =
           [''uf'', ''ano_mes'', ''cnpj'', ''modelo'', ''serie'', ''numero'', ''tipo_emissao'',
            ''codigo'', ''dv'']
       \<and> map (length \<circ> snd) (chave_details d) = [2, 4, 14, 2, 3, 9, 1, 8, 1]
       \<and> concat (map snd (chave_details d)) = d"
proof -
  have "validate_chave_acesso d = (True, Chave_de_acesso_valida, chave_details d)"
    using assms
    by (simp add: validate_chave_acesso_def strip_non_digits_id chave_details_dv
        chave_expected_dv_eq Let_def)
  moreover have "map (length \<circ> snd) (chave_details d) = [2, 4, 14, 2, 3, 9, 1, 8, 1]"
    using assms(1) by (simp add: chave_details_def slice_def)
  moreover have "map fst (chave_details d) =
      [''uf'', ''ano_mes'', ''cnpj'', ''modelo'', ''serie'', ''numero'', ''tipo_emissao'',
       ''codigo'', ''dv'']"
    by (simp add: chave_details_def)
  ultimately show ?thesis using assms(1) by (simp add: chave_details_concat)
qed

theorem validate_chave_acesso_roundtrip_witness:
  "length ''35250531152562000346550010000113341000440803'' = 44
   \<and> list_all is_digit ''35250531152562000346550010000113341000440803''
   \<and> int_of_digit (''35250531152562000346550010000113341000440803'' ! 43)
       = chave_check_digit ''35250531152562000346550010000113341000440803''
   \<and> fst (validate_chave_acesso ''35250531152562000346550010000113341000440803'')
   \<and> concat (map snd (chave_details ''35250531152562000346550010000113341000440803''))
       = ''35250531152562000346550010000113341000440803''"
proof -
  let ?k = "''35250531152562000346550010000113341000440803''"
  have h1: "length ?k = 44" by simp
  have h2: "list_all is_digit ?k" by code_simp
  have h3: "int_of_digit (?k ! 43) = chave_check_digit ?k" by code_simp
  from validate_chave_acesso_roundtrip [OF h1 h2 h3] h1 h2 h3 show ?thesis by simp
qed

section \<open>Properties of the invoice validator\<close>

text \<open>
  On the numeric fields of the schema \<open>_safe_float\<close> is \<open>safe_float_field\<close>, and on
  finite floats \<open>validate_product_calculation\<close> multiplies and rounds finite decimals.
\<close>

lemma safe_float_number: "safe_float (number v) (Fin d) = Inr (Fin (safe_float_field v d))"
  by (cases v) (simp_all add: number_def safe_float_field_def)

lemma validate_product_calculation_finite:
  "validate_product_calculation (VFloat (Fin quantidade)) (VFloat (Fin valor_unitario))
     (VFloat (Fin valor_total)) (Fin tolerance) =
     bind_err
       (quantize round_half_even
          (dec_mul (decimal_of_float quantidade) (decimal_of_float valor_unitario)))
       (\<lambda>rounded.
          let expected_total = float_of_decimal rounded;
              difference = fabs (fsub expected_total (Fin valor_total));
              details = [(''quantidade'', Fin quantidade),
                         (''valor_unitario'', Fin valor_unitario),
                         (''valor_declarado'', Fin valor_total),
                         (''valor_calculado'', expected_total),
                         (''diferenca'', difference)]
          in if fgt difference (Fin tolerance)
             then Inr (False, Valor_total_incorreto, details)
             else Inr (True, Calculo_correto, details))"
  by (simp add: validate_product_calculation_def bind_err_def split: sum.splits)

lemma adds_refl: "adds PE PW s s"
  by (simp add: adds_def)

lemma adds_trans: "adds PE PW s s1 \<Longrightarrow> adds PE PW s1 s2 \<Longrightarrow> adds PE PW s s2"
  by (auto simp: adds_def)

lemma adds_mono:
  "adds PE PW s s' \<Longrightarrow> (\<And>e. PE e \<Longrightarrow> PE' e) \<Longrightarrow> (\<And>w. PW w \<Longrightarrow> PW' w) \<Longrightarrow> adds PE' PW' s s'"
  unfolding adds_def list_all_iff by blast

lemma adds_append_error: "PE e \<Longrightarrow> adds PE PW s (append_error e s)"
  by (simp add: adds_def append_error_def)

lemma adds_append_warning: "PW w \<Longrightarrow> adds PE PW s (append_warning w s)"
  by (simp add: adds_def append_warning_def)

lemma adds_and_then:
  assumes "adds PE PW s (snd r)" and "\<And>s1. adds PE PW s1 (snd (f s1))"
  shows "adds PE PW s (snd (and_then r f))"
proof (cases r)
  case (Pair a s1)
  then show ?thesis
    using assms adds_trans [OF assms(1)] by (cases a) (auto simp: and_then_def)
qed

lemma shape_simps [simp]:
  "err_shape F (ValidationError sev cat fld d c x g) \<longleftrightarrow> sev \<in> {''critico'', ''erro''} \<and> fld \<in> F"
  "warn_shape F (ValidationError sev cat fld d c x g) \<longleftrightarrow> sev = ''aviso'' \<and> fld \<in> F"
  by (simp_all add: err_shape_def warn_shape_def ValidationError_def)

lemma check_cnpj_adds: "fld \<in> F \<Longrightarrow> adds (err_shape F) (warn_shape F) s (check_cnpj fld doc s)"
  by (auto simp: check_cnpj_def Let_def adds_refl adds_append_error split: prod.splits)

lemma check_cpf_adds: "fld \<in> F \<Longrightarrow> adds (err_shape F) (warn_shape F) s (check_cpf fld doc s)"
  by (auto simp: check_cpf_def Let_def adds_refl adds_append_error split: prod.splits)

lemma documents_emitente_adds:
  "Emitente_cnpj \<in> F \<Longrightarrow> adds (err_shape F) (warn_shape F) s (documents_emitente em s)"
  by (auto simp: documents_emitente_def adds_refl check_cnpj_adds split: option.splits)

lemma documents_destinatario_adds:
  "Destinatario_documento \<in> F \<Longrightarrow> adds (err_shape F) (warn_shape F) s (documents_destinatario d s)"
  by (simp add: documents_destinatario_def Let_def adds_refl check_cnpj_adds check_cpf_adds)

lemma documents_identificacao_adds:
  "Identificacao_chave_acesso \<in> F \<Longrightarrow> adds (err_shape F) (warn_shape F) s (documents_identificacao i s)"
  by (auto simp: documents_identificacao_def Let_def adds_refl adds_append_error adds_append_warning
      split: option.splits prod.splits)

lemma documents_identificacao_empty:
  "identificacao_chave_acesso i = Val [] \<Longrightarrow> documents_identificacao i s = s"
  by (simp add: documents_identificacao_def)


lemma validate_documents_adds:
  assumes "{Emitente_cnpj, Destinatario_documento, Identificacao_chave_acesso} \<subseteq> F"
  shows "adds (err_shape F) (warn_shape F) s (snd (validate_documents nf s))"
proof -
  have 1: "\<And>em t. adds (err_shape F) (warn_shape F) t (documents_emitente em t)"
    using assms by (simp add: documents_emitente_adds)
  have 2: "\<And>d t. adds (err_shape F) (warn_shape F) t (documents_destinatario d t)"
    using assms by (simp add: documents_destinatario_adds)
  have 3: "\<And>i t. adds (err_shape F) (warn_shape F) t (documents_identificacao i t)"
    using assms by (simp add: documents_identificacao_adds)
  show ?thesis
    unfolding validate_documents_def Let_def
    by (auto split: sum.splits intro: adds_refl 1 adds_trans [OF 1 2] adds_trans [OF adds_trans [OF 1 2] 3])
qed

lemma validate_documents_empty_chave:
  assumes "{Emitente_cnpj, Destinatario_documento} \<subseteq> F"
    and "inv_identificacao nf = Val ident" and "identificacao_chave_acesso ident = Val []"
  shows "adds (err_shape F) (warn_shape F) s (snd (validate_documents nf s))"
proof -
  have 1: "\<And>em t. adds (err_shape F) (warn_shape F) t (documents_emitente em t)"
    using assms by (simp add: documents_emitente_adds)
  have 2: "\<And>d t. adds (err_shape F) (warn_shape F) t (documents_destinatario d t)"
    using assms by (simp add: documents_destinatario_adds)
  show ?thesis
    unfolding validate_documents_def Let_def
    by (auto simp: assms(2,3) documents_identificacao_empty split: sum.splits
        intro: adds_refl 1 adds_trans [OF 1 2])
qed

lemma fiscal_codes_ncm_adds:
  "Produtos_ncm i \<in> F \<Longrightarrow> adds (err_shape F) (warn_shape F) s (fiscal_codes_ncm i p s)"
  by (auto simp: fiscal_codes_ncm_def Let_def adds_refl adds_append_warning
      split: option.splits prod.splits)

lemma fiscal_codes_cfop_adds:
  "Produtos_cfop i \<in> F \<Longrightarrow> adds (err_shape F) (warn_shape F) s (fiscal_codes_cfop i p s)"
  by (auto simp: fiscal_codes_cfop_def Let_def adds_refl adds_append_warning adds_append_error
      split: option.splits prod.splits)

lemma fiscal_codes_loop_adds:
  assumes "range Produtos_ncm \<union> range Produtos_cfop \<subseteq> F"
  shows "adds (err_shape F) (warn_shape F) s (fiscal_codes_loop i ps s)"
proof (induction ps arbitrary: i s)
  case Nil
  show ?case by (simp add: adds_refl)
next
  case (Cons p ps)
  have a: "adds (err_shape F) (warn_shape F) s (fiscal_codes_ncm i p s)"
    using assms by (intro fiscal_codes_ncm_adds) auto
  have b: "adds (err_shape F) (warn_shape F) (fiscal_codes_ncm i p s)
             (fiscal_codes_cfop i p (fiscal_codes_ncm i p s))"
    using assms by (intro fiscal_codes_cfop_adds) auto
  show ?case
    using adds_trans [OF adds_trans [OF a b] Cons.IH] by simp
qed

lemma validate_fiscal_codes_adds:
  assumes "range Produtos_ncm \<union> range Produtos_cfop \<subseteq> F"
  shows "adds (err_shape F) (warn_shape F) s (snd (validate_fiscal_codes nf s))"
  using fiscal_codes_loop_adds [OF assms]
  by (auto simp: validate_fiscal_codes_def adds_refl split: sum.splits)

lemma products_calculations_body_adds:
  "Produtos_valor_total i \<in> F \<Longrightarrow>
     adds (err_shape F) (warn_shape F) s (snd (products_calculations_body i p s))"
  by (auto simp: products_calculations_body_def Let_def adds_refl adds_append_error
      split: sum.splits prod.splits)

lemma products_calculations_loop_adds:
  assumes "range Produtos_valor_total \<subseteq> F"
  shows "adds (err_shape F) (warn_shape F) s (snd (products_calculations_loop i ps s))"
proof (induction ps arbitrary: i s)
  case Nil
  show ?case by (simp add: adds_refl)
next
  case (Cons p ps)
  have a: "adds (err_shape F) (warn_shape F) s (snd (products_calculations_body i p s))"
    using assms by (intro products_calculations_body_adds) auto
  show ?case
    using adds_and_then [OF a Cons.IH] by simp
qed

lemma validate_products_calculations_adds:
  assumes "range Produtos_valor_total \<subseteq> F"
  shows "adds (err_shape F) (warn_shape F) s (snd (validate_products_calculations nf s))"
  using products_calculations_loop_adds [OF assms]
  by (auto simp: validate_products_calculations_def adds_refl split: sum.splits)

lemma tax_error_adds:
  "fld \<in> F \<Longrightarrow> adds (err_shape F) (warn_shape F) s (snd (tax_error fld sug v r s))"
  by (auto simp: tax_error_def adds_refl adds_append_error split: sum.splits prod.splits)

lemma tax_icms_adds:
  assumes "{Totais_valor_icms, Totais_aliquota_icms} \<subseteq> F"
  shows "adds (err_shape F) (warn_shape F) s (snd (tax_icms t uf s))"
proof -
  have e: "\<And>sug v r t. adds (err_shape F) (warn_shape F) t (snd (tax_error Totais_valor_icms sug v r t))"
    using assms by (simp add: tax_error_adds)
  have w: "\<And>c x g t. adds (err_shape F) (warn_shape F) t
       (append_warning (ValidationError ''aviso'' ''imposto'' Totais_aliquota_icms Aliquota_de_ICMS_incomum c x g) t)"
    using assms by (simp add: adds_append_warning)
  show ?thesis
    unfolding tax_icms_def Let_def
    by (auto split: sum.splits intro!: adds_refl adds_and_then e w)
qed

lemma tax_pis_adds:
  assumes "{Totais_valor_pis, Totais_aliquota_pis} \<subseteq> F"
  shows "adds (err_shape F) (warn_shape F) s (snd (tax_pis t s))"
proof -
  have e: "\<And>sug v r t. adds (err_shape F) (warn_shape F) t (snd (tax_error Totais_valor_pis sug v r t))"
    using assms by (simp add: tax_error_adds)
  have w: "\<And>c x g t. adds (err_shape F) (warn_shape F) t
       (append_warning (ValidationError ''aviso'' ''imposto'' Totais_aliquota_pis Aliquota_de_PIS_incomum c x g) t)"
    using assms by (simp add: adds_append_warning)
  show ?thesis
    unfolding tax_pis_def Let_def
    by (auto split: sum.splits intro!: adds_refl adds_and_then e w)
qed

lemma tax_cofins_adds:
  assumes "{Totais_valor_cofins, Totais_aliquota_cofins} \<subseteq> F"
  shows "adds (err_shape F) (warn_shape F) s (snd (tax_cofins t s))"
proof -
  have e: "\<And>sug v r t. adds (err_shape F) (warn_shape F) t (snd (tax_error Totais_valor_cofins sug v r t))"
    using assms by (simp add: tax_error_adds)
  have w: "\<And>c x g t. adds (err_shape F) (warn_shape F) t
       (append_warning (ValidationError ''aviso'' ''imposto'' Totais_aliquota_cofins Aliquota_de_COFINS_incomum c x g) t)"
    using assms by (simp add: adds_append_warning)
  show ?thesis
    unfolding tax_cofins_def Let_def
    by (auto split: sum.splits intro!: adds_refl adds_and_then e w)
qed

lemma validate_tax_calculations_adds:
  assumes "{Totais_valor_icms, Totais_aliquota_icms, Totais_valor_pis, Totais_aliquota_pis,
            Totais_valor_cofins, Totais_aliquota_cofins} \<subseteq> F"
  shows "adds (err_shape F) (warn_shape F) s (snd (validate_tax_calculations nf s))"
proof -
  have 1: "\<And>t uf s. adds (err_shape F) (warn_shape F) s (snd (tax_icms t uf s))"
    using assms by (intro tax_icms_adds) auto
  have 2: "\<And>t s. adds (err_shape F) (warn_shape F) s (snd (tax_pis t s))"
    using assms by (intro tax_pis_adds) auto
  have 3: "\<And>t s. adds (err_shape F) (warn_shape F) s (snd (tax_cofins t s))"
    using assms by (intro tax_cofins_adds) auto
  show ?thesis
    unfolding validate_tax_calculations_def Let_def
    by (auto split: sum.splits option.splits intro!: adds_refl adds_and_then 1 2 3)
qed

lemma validate_totals_adds:
  assumes "Totais_valor_produtos \<in> F"
  shows "adds (err_shape F) (warn_shape F) s (snd (validate_totals nf s))"
proof -
  have e: "\<And>m c x g t. adds (err_shape F) (warn_shape F) t
       (append_error (ValidationError ''erro'' ''totalizador'' Totais_valor_produtos m c x g) t)"
    using assms by (simp add: adds_append_error)
  have w: "\<And>m c x g t. adds (err_shape F) (warn_shape F) t
       (append_warning (ValidationError ''aviso'' ''totalizador'' Totais_valor_produtos m c x g) t)"
    using assms by (simp add: adds_append_warning)
  show ?thesis
    unfolding validate_totals_def Let_def
    by (auto split: sum.splits prod.splits intro: adds_refl e w adds_trans [OF e w])
qed

lemma consistency_body_adds:
  "Produtos_cfop i \<in> F \<Longrightarrow> adds (err_shape F) (warn_shape F) s (consistency_body tp i p s)"
  by (auto simp: consistency_body_def Let_def adds_refl adds_append_error
      split: option.splits prod.splits)

lemma consistency_loop_adds:
  assumes "range Produtos_cfop \<subseteq> F"
  shows "adds (err_shape F) (warn_shape F) s (consistency_loop tp i ps s)"
proof (induction ps arbitrary: i s)
  case Nil
  show ?case by (simp add: adds_refl)
next
  case (Cons p ps)
  have a: "adds (err_shape F) (warn_shape F) s (consistency_body tp i p s)"
    using assms by (intro consistency_body_adds) auto
  show ?case
    using adds_trans [OF a Cons.IH] by simp
qed

lemma validate_consistency_adds:
  assumes "insert Identificacao_tipo_operacao (range Produtos_cfop) \<subseteq> F"
  shows "adds (err_shape F) (warn_shape F) s (snd (validate_consistency nf s))"
proof -
  have l: "\<And>tp i ps s. adds (err_shape F) (warn_shape F) s (consistency_loop tp i ps s)"
    using assms by (intro consistency_loop_adds) auto
  show ?thesis
    unfolding validate_consistency_def Let_def
    using assms
    by (auto split: sum.splits option.splits intro!: adds_refl adds_append_warning l)
qed

lemma and_then_Inr:
  "and_then r f = (Inr u, s') \<Longrightarrow> \<exists>s1. r = (Inr (), s1) \<and> f s1 = (Inr u, s')"
  by (cases r) (auto simp: and_then_def split: sum.splits)

lemma recorded_adds:
  assumes "adds (err_shape F) (warn_shape F) s s'" and "F \<inter> range Produtos_valor_total = {}"
  shows "recorded_valor_total s' = recorded_valor_total s"
proof -
  from assms(1) obtain es ws where e: "errors s' = errors s @ es" and w: "warnings s' = warnings s @ ws"
    and les: "list_all (err_shape F) es" and lws: "list_all (warn_shape F) ws"
    by (auto simp: adds_def)
  have "\<And>p i. p \<in> set es \<Longrightarrow> field p \<noteq> Produtos_valor_total i"
    using les assms(2) by (auto simp: list_all_iff err_shape_def)
  moreover have "\<And>p i. p \<in> set ws \<Longrightarrow> field p \<noteq> Produtos_valor_total i"
    using lws assms(2) by (auto simp: list_all_iff warn_shape_def)
  ultimately show ?thesis
    unfolding recorded_valor_total_def valor_total_findings_def e w by auto
qed

lemma dict_lookup_line:
  "line_check p = Inr (valid, msg, details) \<Longrightarrow> \<exists>v. dict_lookup details ''valor_calculado'' = Inr v"
  by (auto simp: line_check_def validate_product_calculation_finite bind_err_def Let_def dict_lookup_def
      split: sum.splits if_splits)

lemma body_skip:
  "\<not> line_positive p \<Longrightarrow> products_calculations_body i p s = (Inr (), s)"
  by (simp add: products_calculations_body_def line_positive_def line_qtd_def line_val_unit_def
      line_val_total_def Let_def)

lemma body_recorded:
  assumes "products_calculations_body i p s = (Inr (), s')"
  shows "recorded_valor_total s' = recorded_valor_total s \<union> (if line_positive p \<and> line_invalid p then {i} else {})"
proof (cases "line_positive p")
  case False
  with assms show ?thesis by (simp add: body_skip)
next
  case True
  then have body: "products_calculations_body i p s =
     (case line_check p of
        Inl e \<Rightarrow> (Inl e, s)
      | Inr (valid, msg, details) \<Rightarrow>
          if \<not> valid then
            (case dict_lookup details ''valor_calculado'' of
               Inl e \<Rightarrow> (Inl e, s)
             | Inr valor_calculado \<Rightarrow>
                 (Inr (),
                  append_error (ValidationError ''erro'' ''calculo'' (Produtos_valor_total i)
                                  msg (Some (Money (Fin (line_val_total p))))
                                  (Some (Money valor_calculado))
                                  (Some (Corrija_valor_total valor_calculado))) s))
          else (Inr (), s))"
    unfolding products_calculations_body_def line_positive_def line_check_def line_qtd_def
        line_val_unit_def line_val_total_def Let_def by simp
  show ?thesis
  proof (cases "line_check p")
    case (Inl e)
    with assms body show ?thesis by simp
  next
    case (Inr r)
    obtain valid msg details where r: "r = (valid, msg, details)" by (cases r) auto
    show ?thesis
    proof (cases valid)
      case True
      with assms body Inr r have "s' = s" by simp
      moreover have "\<not> line_invalid p" using Inr r True by (simp add: line_invalid_def)
      ultimately show ?thesis by simp
    next
      case False
      from dict_lookup_line Inr r obtain v where v: "dict_lookup details ''valor_calculado'' = Inr v"
        by blast
      have inv: "line_invalid p" using Inr r False by (simp add: line_invalid_def)
      from assms body Inr r False v
      have "s' = append_error (ValidationError ''erro'' ''calculo'' (Produtos_valor_total i)
                                  msg (Some (Money (Fin (line_val_total p))))
                                  (Some (Money v)) (Some (Corrija_valor_total v))) s"
        by simp
      then have "recorded_valor_total s' = insert i (recorded_valor_total s)"
        by (auto simp: recorded_valor_total_def valor_total_findings_def append_error_def ValidationError_def)
      with True inv show ?thesis by simp
    qed
  qed
qed

lemma index_set_Cons:
  "{j. i \<le> j \<and> j < i + length (p # ps) \<and> Q ((p # ps) ! (j - i))}
   = (if Q p then {i} else {}) \<union> {j. Suc i \<le> j \<and> j < Suc i + length ps \<and> Q (ps ! (j - Suc i))}"
proof (rule set_eqI)
  fix j
  show "j \<in> {j. i \<le> j \<and> j < i + length (p # ps) \<and> Q ((p # ps) ! (j - i))}
    \<longleftrightarrow> j \<in> (if Q p then {i} else {}) \<union> {j. Suc i \<le> j \<and> j < Suc i + length ps \<and> Q (ps ! (j - Suc i))}"
  proof (cases "j = i")
    case True
    then show ?thesis by simp
  next
    case False
    show ?thesis
    proof (cases "i < j")
      case True
      then obtain k where k: "j = Suc (i + k)" using less_iff_Suc_add by auto
      then show ?thesis by simp
    next
      case False
      with \<open>j \<noteq> i\<close> have "j < i" by simp
      then show ?thesis by simp
    qed
  qed
qed

lemma loop_recorded:
  "products_calculations_loop i ps s = (Inr (), s') \<Longrightarrow>
     recorded_valor_total s' = recorded_valor_total s \<union> {j. i \<le> j \<and> j < i + length ps \<and> line_positive (ps ! (j - i)) \<and> line_invalid (ps ! (j - i))}"
proof (induction ps arbitrary: i s)
  case Nil
  then show ?case by auto
next
  case (Cons p ps)
  let ?Q = "\<lambda>p. line_positive p \<and> line_invalid p"
  from Cons.prems obtain s1 where b: "products_calculations_body i p s = (Inr (), s1)"
    and l: "products_calculations_loop (Suc i) ps s1 = (Inr (), s')"
    by (auto dest: and_then_Inr)
  have "recorded_valor_total s' = recorded_valor_total s1 \<union> {j. Suc i \<le> j \<and> j < Suc i + length ps \<and> ?Q (ps ! (j - Suc i))}"
    using Cons.IH [OF l] .
  also have "recorded_valor_total s1 = recorded_valor_total s \<union> (if ?Q p then {i} else {})"
    using body_recorded [OF b] .
  finally have "recorded_valor_total s' = recorded_valor_total s \<union> ((if ?Q p then {i} else {}) \<union> {j. Suc i \<le> j \<and> j < Suc i + length ps \<and> ?Q (ps ! (j - Suc i))})"
    by (simp only: Un_assoc)
  then show ?case
    by (simp only: index_set_Cons [of i p ps ?Q, symmetric])
qed

lemma validate_invoice_Inr:
  assumes "validate_invoice nf now s = (Inr rep, s')"
  shows "\<exists>s1 s2 s3 s4 s5.
           validate_documents nf (s\<lparr>errors := [], warnings := []\<rparr>) = (Inr (), s1)
         \<and> validate_fiscal_codes nf s1 = (Inr (), s2)
         \<and> validate_products_calculations nf s2 = (Inr (), s3)
         \<and> validate_tax_calculations nf s3 = (Inr (), s4)
         \<and> validate_totals nf s4 = (Inr (), s5)
         \<and> validate_consistency nf s5 = (Inr (), s')
         \<and> rep = compile_validation_result now s'"
proof -
  let ?chain = "and_then (validate_documents nf (s\<lparr>errors := [], warnings := []\<rparr>))
                (\<lambda>s1. and_then (validate_fiscal_codes nf s1)
                (\<lambda>s2. and_then (validate_products_calculations nf s2)
                (\<lambda>s3. and_then (validate_tax_calculations nf s3)
                (\<lambda>s4. and_then (validate_totals nf s4)
                (\<lambda>s5. validate_consistency nf s5)))))"
  from assms have c: "?chain = (Inr (), s')" and r: "rep = compile_validation_result now s'"
    by (auto simp: validate_invoice_def Let_def split: prod.splits sum.splits)
  from and_then_Inr [OF c] obtain s1 where 1: "validate_documents nf (s\<lparr>errors := [], warnings := []\<rparr>) = (Inr (), s1)"
    and c1: "and_then (validate_fiscal_codes nf s1)
                (\<lambda>s2. and_then (validate_products_calculations nf s2)
                (\<lambda>s3. and_then (validate_tax_calculations nf s3)
                (\<lambda>s4. and_then (validate_totals nf s4)
                (\<lambda>s5. validate_consistency nf s5)))) = (Inr (), s')" by blast
  from and_then_Inr [OF c1] obtain s2 where 2: "validate_fiscal_codes nf s1 = (Inr (), s2)"
    and c2: "and_then (validate_products_calculations nf s2)
                (\<lambda>s3. and_then (validate_tax_calculations nf s3)
                (\<lambda>s4. and_then (validate_totals nf s4)
                (\<lambda>s5. validate_consistency nf s5))) = (Inr (), s')" by blast
  from and_then_Inr [OF c2] obtain s3 where 3: "validate_products_calculations nf s2 = (Inr (), s3)"
    and c3: "and_then (validate_tax_calculations nf s3)
                (\<lambda>s4. and_then (validate_totals nf s4)
                (\<lambda>s5. validate_consistency nf s5)) = (Inr (), s')" by blast
  from and_then_Inr [OF c3] obtain s4 where 4: "validate_tax_calculations nf s3 = (Inr (), s4)"
    and c4: "and_then (validate_totals nf s4) (\<lambda>s5. validate_consistency nf s5) = (Inr (), s')" by blast
  from and_then_Inr [OF c4] obtain s5 where 5: "validate_totals nf s4 = (Inr (), s5)"
    and 6: "validate_consistency nf s5 = (Inr (), s')" by blast
  from 1 2 3 4 5 6 r show ?thesis by blast
qed

lemma validate_invoice_state:
  "snd (validate_invoice nf now s) =
     snd (and_then (validate_documents nf (s\<lparr>errors := [], warnings := []\<rparr>))
                (\<lambda>s1. and_then (validate_fiscal_codes nf s1)
                (\<lambda>s2. and_then (validate_products_calculations nf s2)
                (\<lambda>s3. and_then (validate_tax_calculations nf s3)
                (\<lambda>s4. and_then (validate_totals nf s4)
                (\<lambda>s5. validate_consistency nf s5))))))"
  by (auto simp: validate_invoice_def Let_def split: prod.splits sum.splits)

lemma validate_invoice_adds:
  "adds (err_shape UNIV) (warn_shape UNIV) (s\<lparr>errors := [], warnings := []\<rparr>)
     (snd (validate_invoice nf now s))"
  unfolding validate_invoice_state
  by (intro adds_and_then validate_documents_adds validate_fiscal_codes_adds
      validate_products_calculations_adds validate_tax_calculations_adds validate_totals_adds
      validate_consistency_adds) simp_all

lemma validate_invoice_adds_empty_chave:
  assumes "inv_identificacao nf = Val ident" and "identificacao_chave_acesso ident = Val []"
  shows "adds (err_shape (- {Identificacao_chave_acesso})) (warn_shape (- {Identificacao_chave_acesso}))
     (s\<lparr>errors := [], warnings := []\<rparr>) (snd (validate_invoice nf now s))"
  unfolding validate_invoice_state
  by (intro adds_and_then validate_documents_empty_chave [OF _ assms] validate_fiscal_codes_adds
      validate_products_calculations_adds validate_tax_calculations_adds validate_totals_adds
      validate_consistency_adds) auto

lemma count_errors:
  assumes "list_all (err_shape UNIV) es"
  shows "int (length (filter (\<lambda>e. severity e \<in> set [''critico'', ''erro'']) es)) = int (length es)"
    and "count_severity ''aviso'' es = 0"
    and "int (length es) = count_severity ''critico'' es + count_severity ''erro'' es"
  using assms by (induction es) (auto simp: err_shape_def count_severity_def)

lemma count_warnings:
  assumes "list_all (warn_shape UNIV) ws"
  shows "count_severity ''critico'' ws = 0" and "count_severity ''erro'' ws = 0"
    and "count_severity ''aviso'' ws = int (length ws)"
  using assms by (induction ws) (auto simp: warn_shape_def count_severity_def)

lemma count_severity_append:
  "count_severity sev (xs @ ys) = count_severity sev xs + count_severity sev ys"
  by (simp add: count_severity_def)

lemma count_severity_nonneg: "0 \<le> count_severity sev xs"
  by (simp add: count_severity_def)

lemma compile_counts:
  fixes now :: nat
  assumes "list_all (err_shape UNIV) (errors s)" and "list_all (warn_shape UNIV) (warnings s)"
  defines "rep \<equiv> compile_validation_result now s"
  defines "crit \<equiv> count_severity ''critico'' (problemas rep)"
    and "err \<equiv> count_severity ''erro'' (problemas rep)"
    and "warn \<equiv> count_severity ''aviso'' (problemas rep)"
  shows "total_erros_criticos (validacao_geral rep) = crit"
    and "total_erros (validacao_geral rep) = err"
    and "total_avisos (validacao_geral rep) = warn"
    and "score_conformidade (validacao_geral rep) = max 0 (100 - 25 * crit - 10 * err - 3 * warn)"
    and "status (validacao_geral rep) =
           (if 0 < crit \<or> 0 < err then ''invalido'' else if 0 < warn then ''com_avisos'' else ''valido'')"
    and "apto_para_processamento (validacao_geral rep) \<longleftrightarrow> status (validacao_geral rep) \<noteq> ''invalido''"
proof -
  note ce = count_errors [OF assms(1)] and cw = count_warnings [OF assms(2)]
  have p: "problemas rep = errors s @ warnings s"
    by (simp add: rep_def compile_validation_result_def Let_def split: prod.splits)
  have crit: "crit = count_severity ''critico'' (errors s)"
    and err: "err = count_severity ''erro'' (errors s)"
    and warn: "warn = int (length (warnings s))"
    by (simp_all add: crit_def err_def warn_def p count_severity_append ce cw)
  have te: "int (length (filter (\<lambda>e. severity e \<in> set [''critico'', ''erro'']) (errors s))) = crit + err"
    using ce(1) ce(3) crit err by simp
  have tc: "int (length (filter (\<lambda>e. severity e = ''critico'') (errors s))) = crit"
    by (simp add: crit count_severity_def)
  have tw: "int (length (filter (\<lambda>e. severity e = ''aviso'') (errors s))) + int (length (warnings s)) = warn"
    using ce(2) warn by (simp add: count_severity_def)
  have nn: "0 \<le> crit" "0 \<le> err" "0 \<le> warn"
    by (simp_all add: crit_def err_def warn_def count_severity_nonneg)
  show "total_erros_criticos (validacao_geral rep) = crit"
    unfolding rep_def compile_validation_result_def Let_def te tc tw
    by (simp add: mult.commute split: prod.splits)
  show "total_erros (validacao_geral rep) = err"
    unfolding rep_def compile_validation_result_def Let_def te tc tw
    by (simp add: mult.commute split: prod.splits)
  show "total_avisos (validacao_geral rep) = warn"
    unfolding rep_def compile_validation_result_def Let_def te tc tw
    by (simp add: mult.commute split: prod.splits)
  show "score_conformidade (validacao_geral rep) = max 0 (100 - 25 * crit - 10 * err - 3 * warn)"
    unfolding rep_def compile_validation_result_def Let_def te tc tw
    by (simp add: mult.commute split: prod.splits)
  show st: "status (validacao_geral rep) =
           (if 0 < crit \<or> 0 < err then ''invalido'' else if 0 < warn then ''com_avisos'' else ''valido'')"
    using nn unfolding rep_def compile_validation_result_def Let_def te tc tw by (auto split: prod.splits)
  show "apto_para_processamento (validacao_geral rep) \<longleftrightarrow> status (validacao_geral rep) \<noteq> ''invalido''"
    using nn unfolding rep_def compile_validation_result_def Let_def te tc tw by (auto split: prod.splits)
qed

lemma validate_invoice_shapes:
  assumes "validate_invoice nf now s = (r, s')"
  shows "list_all (err_shape UNIV) (errors s')" and "list_all (warn_shape UNIV) (warnings s')"
  using validate_invoice_adds [of s nf now] assms by (auto simp: adds_def)


subsection \<open>Evaluation of the model on concrete inputs\<close>

lemma ilog_numeral:
  "ilog (numeral b) (numeral n) =
     (if numeral b < (2::int) \<or> numeral n < (numeral b::int) then 0
      else 1 + ilog (numeral b) (numeral n div numeral b))"
  by (rule ilog.simps)

lemma ilog_one: "ilog b 1 = 0" "ilog b 0 = 0"
  by (subst ilog.simps, simp)+

lemma shortest_numeral:
  "shortest (numeral k) n x = 
     (case filter (\<lambda>c. fl c = Fin x) (candidates x n) of
        [] \<Rightarrow> shortest (pred_numeral k) (Suc n) x
      | [c] \<Rightarrow> c
      | c1 # c2 # _ \<Rightarrow> if \<bar>c1 - x\<bar> \<le> \<bar>c2 - x\<bar> then c1 else c2)"
  by (simp add: numeral_eq_Suc)

lemma bind_err_weak_cong: "m = m' \<Longrightarrow> bind_err m f = bind_err m' f"
  by simp

lemma bind_err_simps: "bind_err (Inr x) f = f x" "bind_err (Inl e) f = Inl e"
  by (simp_all add: bind_err_def)

lemma and_then_weak_cong: "r = r' \<Longrightarrow> and_then r f = and_then r' f"
  by simp

lemma and_then_simps: "and_then (Inr u, s) f = f s" "and_then (Inl e, s) f = (Inl e, s)"
  by (simp_all add: and_then_def)

lemmas num_eval = ilog_numeral ilog_one floor_log_def pow_def round_half_even_def round_half_up_def Let_def
lemmas float_eval = fl_def literal_def decimal_of_float_def candidates_def shortest_numeral
  fgt_def fsub_def float_of_decimal_def num_eval
lemmas dec_eval = ctx_round_def dec_add_def dec_sub_def dec_mul_def dec_div_def quantize_def bind_err_simps

lemmas validator_eval =
  validate_invoice_def validate_documents_def documents_emitente_def documents_destinatario_def
  documents_identificacao_def check_cnpj_def check_cpf_def
  validate_fiscal_codes_def fiscal_codes_ncm_def fiscal_codes_cfop_def
  validate_products_calculations_def products_calculations_body_def
  validate_tax_calculations_def tax_icms_def tax_pis_def tax_cofins_def tax_error_def
  validate_totals_def sum_floats_def validate_total_sum_def
  validate_consistency_def consistency_body_def compile_validation_result_def
  append_error_def append_warning_def ValidationError_def and_then_simps
  empty_emitente_def empty_destinatario_def empty_identificacao_def empty_totais_def
  empty_invoice_def empty_produto_def new_validator_def safe_float_field_def report_fields_def
  default_tolerance_def

section \<open>The claims about the invoice validator\<close>

lemma nf_cnpj_run:
  "\<exists>rep s'. validate_invoice nf_cnpj 0 new_validator = (Inr rep, s')
     \<and> map severity (problemas rep) = [''critico'', ''aviso'', ''aviso'']"
  by (simp add: nf_cnpj_def validator_eval float_eval validate_cnpj_def strip_non_digits_def
      is_digit_def cong: and_then_weak_cong bind_err_weak_cong let_weak_cong)

text \<open>
  Claim C2: in every report that \<open>validate_invoice\<close> returns, the three counts are the
  numbers of findings of severity critico, erro and aviso among the reported findings; the
  score is 100 minus 25 per critical finding, 10 per non-critical error and 3 per warning,
  floored at 0; the status is invalido when there is a critical finding or an error,
  otherwise com_avisos when there is a warning, otherwise valido; and
  apto_para_processamento holds exactly when the status is not invalido.
\<close>

theorem validate_invoice_score:
  assumes "validate_invoice nf now s = (Inr rep, s')"
  shows "(let g = validacao_geral rep;
              crit = count_severity ''critico'' (problemas rep);
              err = count_severity ''erro'' (problemas rep);
              warn = count_severity ''aviso'' (problemas rep)
          in total_erros_criticos g = crit \<and> total_erros g = err \<and> total_avisos g = warn
           \<and> score_conformidade g = max 0 (100 - 25 * crit - 10 * err - 3 * warn)
           \<and> status g = (if 0 < crit \<or> 0 < err then ''invalido''
                          else if 0 < warn then ''com_avisos'' else ''valido'')
           \<and> (apto_para_processamento g \<longleftrightarrow> status g \<noteq> ''invalido''))"
proof -
  from validate_invoice_Inr [OF assms(1)] have rep: "rep = compile_validation_result now s'"
    by blast
  show ?thesis
    unfolding Let_def rep
    using compile_counts [OF validate_invoice_shapes [OF assms(1)], of now]
    by blast
qed

theorem validate_invoice_score_witness:
  "\<exists>rep s'. validate_invoice nf_cnpj 0 new_validator = (Inr rep, s')
     \<and> map severity (problemas rep) = [''critico'', ''aviso'', ''aviso'']
     \<and> score_conformidade (validacao_geral rep) = 69
     \<and> status (validacao_geral rep) = ''invalido''
     \<and> \<not> apto_para_processamento (validacao_geral rep)"
proof -
  from nf_cnpj_run obtain rep s' where run: "validate_invoice nf_cnpj 0 new_validator = (Inr rep, s')"
    and sev: "map severity (problemas rep) = [''critico'', ''aviso'', ''aviso'']"
    by (elim exE conjE)
  from sev obtain a b c where abc: "problemas rep = [a, b, c]"
    and s: "severity a = ''critico''" "severity b = ''aviso''" "severity c = ''aviso''"
    by auto
  have cnt: "count_severity ''critico'' (problemas rep) = 1"
    "count_severity ''erro'' (problemas rep) = 0"
    "count_severity ''aviso'' (problemas rep) = 2"
    by (simp_all add: count_severity_def abc s)
  from validate_invoice_score [OF run] cnt run sev show ?thesis
    by (auto simp: Let_def)
qed

lemma nf_empty_chave_run:
  "report_fields (validate_invoice nf_empty_chave 0 new_validator) = Inr []
   \<and> errors (snd (validate_invoice nf_empty_chave 0 new_validator)) = []
   \<and> warnings (snd (validate_invoice nf_empty_chave 0 new_validator)) = []"
  by (simp add: nf_empty_chave_def ident_empty_chave_def validator_eval float_eval lower_def lower_char_def
      cong: and_then_weak_cong bind_err_weak_cong let_weak_cong)

text \<open>
  Claim C10: when the key chave_acesso of identificacao is present and holds the empty
  string, a run of \<open>validate_invoice\<close> records no finding about
  identificacao.chave_acesso at all, neither the warning for an absent key nor the critical
  error for a malformed one; this holds for the accumulators after the run and for the
  findings of the report.
\<close>

theorem empty_chave_acesso_no_finding:
  assumes "inv_identificacao nf = Val ident" and "identificacao_chave_acesso ident = Val []"
    and "validate_invoice nf now s = (r, s')"
  shows "Identificacao_chave_acesso \<notin> field ` set (errors s' @ warnings s')
       \<and> (\<forall>rep. r = Inr rep \<longrightarrow> Identificacao_chave_acesso \<notin> field ` set (problemas rep))"
proof -
  from validate_invoice_adds_empty_chave [OF assms(1,2), of s now] assms(3)
  obtain es ws where e: "errors s' = es" and w: "warnings s' = ws"
    and les: "list_all (err_shape (- {Identificacao_chave_acesso})) es"
    and lws: "list_all (warn_shape (- {Identificacao_chave_acesso})) ws"
    by (auto simp: adds_def)
  have 1: "Identificacao_chave_acesso \<notin> field ` set (errors s' @ warnings s')"
    using les lws by (auto simp: e w list_all_iff err_shape_def warn_shape_def)
  have 2: "problemas rep = errors s' @ warnings s'" if "r = Inr rep" for rep
    using validate_invoice_Inr [of nf now s rep s'] assms(3) that
    by (auto simp: compile_validation_result_def Let_def split: prod.splits)
  from 1 2 show ?thesis by simp
qed

theorem empty_chave_acesso_no_finding_witness:
  "inv_identificacao nf_empty_chave = Val ident_empty_chave
   \<and> identificacao_chave_acesso ident_empty_chave = Val []
   \<and> report_fields (validate_invoice nf_empty_chave 0 new_validator) = Inr []
   \<and> Identificacao_chave_acesso \<notin>
        field ` set (errors (snd (validate_invoice nf_empty_chave 0 new_validator))
                     @ warnings (snd (validate_invoice nf_empty_chave 0 new_validator)))"
proof -
  have h1: "inv_identificacao nf_empty_chave = Val ident_empty_chave"
    by (simp add: nf_empty_chave_def)
  have h2: "identificacao_chave_acesso ident_empty_chave = Val []"
    by (simp add: ident_empty_chave_def)
  have h3: "validate_invoice nf_empty_chave 0 new_validator
      = (fst (validate_invoice nf_empty_chave 0 new_validator),
         snd (validate_invoice nf_empty_chave 0 new_validator))"
    by simp
  from empty_chave_acesso_no_finding [OF h1 h2 h3] h1 h2 nf_empty_chave_run show ?thesis
    by simp
qed

lemma validate_invoice_valor_total:
  assumes "validate_invoice nf now s = (Inr rep, s')"
    and "produtos_of (inv_produtos nf) = Inr ps"
  shows "valor_total_findings (problemas rep) =
           {i. i < length ps \<and> line_positive (ps ! i) \<and> line_invalid (ps ! i)}"
proof -
  let ?F = "- range Produtos_valor_total"
  let ?s0 = "s\<lparr>errors := [], warnings := []\<rparr>"
  from validate_invoice_Inr [OF assms(1)] obtain s1 s2 s3 s4 s5 where
    1: "validate_documents nf ?s0 = (Inr (), s1)"
    and 2: "validate_fiscal_codes nf s1 = (Inr (), s2)"
    and 3: "validate_products_calculations nf s2 = (Inr (), s3)"
    and 4: "validate_tax_calculations nf s3 = (Inr (), s4)"
    and 5: "validate_totals nf s4 = (Inr (), s5)"
    and 6: "validate_consistency nf s5 = (Inr (), s')"
    and rep: "rep = compile_validation_result now s'"
    by blast
  have disj: "?F \<inter> range Produtos_valor_total = {}" by auto
  have "adds (err_shape ?F) (warn_shape ?F) ?s0 (snd (validate_documents nf ?s0))"
    by (rule validate_documents_adds) auto
  then have r1: "recorded_valor_total s1 = recorded_valor_total ?s0"
    using 1 disj by (auto dest: recorded_adds)
  have "adds (err_shape ?F) (warn_shape ?F) s1 (snd (validate_fiscal_codes nf s1))"
    by (rule validate_fiscal_codes_adds) auto
  then have r2: "recorded_valor_total s2 = recorded_valor_total s1"
    using 2 disj by (auto dest: recorded_adds)
  have "products_calculations_loop 0 ps s2 = (Inr (), s3)"
    using 3 assms(2) by (simp add: validate_products_calculations_def)
  from loop_recorded [OF this]
  have r3: "recorded_valor_total s3 = recorded_valor_total s2
      \<union> {j. j < length ps \<and> line_positive (ps ! j) \<and> line_invalid (ps ! j)}"
    by simp
  have "adds (err_shape ?F) (warn_shape ?F) s3 (snd (validate_tax_calculations nf s3))"
    by (rule validate_tax_calculations_adds) auto
  then have r4: "recorded_valor_total s4 = recorded_valor_total s3"
    using 4 disj by (auto dest: recorded_adds)
  have "adds (err_shape ?F) (warn_shape ?F) s4 (snd (validate_totals nf s4))"
    by (rule validate_totals_adds) auto
  then have r5: "recorded_valor_total s5 = recorded_valor_total s4"
    using 5 disj by (auto dest: recorded_adds)
  have "adds (err_shape ?F) (warn_shape ?F) s5 (snd (validate_consistency nf s5))"
    by (rule validate_consistency_adds) auto
  then have r6: "recorded_valor_total s' = recorded_valor_total s5"
    using 6 disj by (auto dest: recorded_adds)
  have r0: "recorded_valor_total ?s0 = {}"
    by (simp add: recorded_valor_total_def valor_total_findings_def)
  have "problemas rep = errors s' @ warnings s'"
    by (simp add: rep compile_validation_result_def Let_def split: prod.splits)
  then have "valor_total_findings (problemas rep) = recorded_valor_total s'"
    by (simp add: recorded_valor_total_def)
  with r0 r1 r2 r3 r4 r5 r6 show ?thesis by simp
qed

lemma not_nonzero_not_positive: "\<not> line_nonzero p \<Longrightarrow> \<not> line_positive p"
  by (auto simp: line_nonzero_def line_positive_def)

lemmas line_eval = line_nonzero_def line_positive_def line_invalid_def line_check_def line_qtd_def
  line_val_unit_def line_val_total_def validate_product_calculation_finite

text \<open>
  Claim C9, as stated, fails: the line with quantity \<open>-1\<close> and unit price \<open>-1\<close> has
  nonzero numbers, and \<open>validate_product_calculation\<close> on it reports an incorrect total
  (expected 1.00, declared 0.00); yet the run records no finding about its valor_total,
  because the guard of the loop asks for a number greater than zero.
\<close>

theorem negative_line_counterexample:
  "line_nonzero negative_line \<and> line_invalid negative_line
   \<and> report_fields (validate_invoice nf_negative_line 0 new_validator)
       = Inr [Identificacao_chave_acesso, Produtos_ncm 0, Produtos_cfop 0, Totais_valor_produtos,
              Identificacao_tipo_operacao]"
proof -
  have "line_nonzero negative_line"
    by (simp add: negative_line_def empty_produto_def line_eval safe_float_field_def)
  moreover have "line_invalid negative_line"
    by (simp add: negative_line_def empty_produto_def line_eval safe_float_field_def default_tolerance_def
        dec_eval float_eval cong: bind_err_weak_cong let_weak_cong)
  moreover have "report_fields (validate_invoice nf_negative_line 0 new_validator)
       = Inr [Identificacao_chave_acesso, Produtos_ncm 0, Produtos_cfop 0, Totais_valor_produtos,
              Identificacao_tipo_operacao]"
    by (simp add: nf_negative_line_def negative_line_def validator_eval float_eval
        cong: and_then_weak_cong bind_err_weak_cong let_weak_cong)
  ultimately show ?thesis by simp
qed

lemma nf_two_lines_run:
  "\<exists>rep s'. validate_invoice nf_two_lines 0 new_validator = (Inr rep, s')
     \<and> map field (problemas rep) =
         [Produtos_valor_total 1, Totais_valor_produtos, Identificacao_chave_acesso,
          Produtos_ncm 0, Produtos_cfop 0, Produtos_ncm 1, Produtos_cfop 1,
          Totais_valor_produtos, Identificacao_tipo_operacao]"
  by (simp add: nf_two_lines_def zero_line_def wrong_line_def validator_eval
      validate_product_calculation_finite dict_lookup_def dec_eval float_eval
      cong: and_then_weak_cong bind_err_weak_cong let_weak_cong)

text \<open>
  Claim C9, amended: in \<open>validate_invoice\<close> the arithmetic check of a line is evaluated
  exactly when at least one of quantity, unit price and line total (each 0 when absent) is
  greater than zero: a finding about \<open>produtos[i].valor_total\<close> is reported exactly for the
  lines that pass this guard and whose check fails; a line whose three numbers are zero or
  absent produces no such finding; and a line that does not pass the guard leaves the
  validator unchanged and raises nothing.
\<close>

theorem line_check_guard:
  assumes "validate_invoice nf now s = (Inr rep, s')"
    and "produtos_of (inv_produtos nf) = Inr ps"
  shows "valor_total_findings (problemas rep) =
           {i. i < length ps \<and> line_positive (ps ! i) \<and> line_invalid (ps ! i)}
       \<and> (\<forall>i < length ps. \<not> line_nonzero (ps ! i) \<longrightarrow> i \<notin> valor_total_findings (problemas rep))
       \<and> (\<forall>i p t. \<not> line_positive p \<longrightarrow> products_calculations_body i p t = (Inr (), t))"
  using validate_invoice_valor_total [OF assms] not_nonzero_not_positive body_skip
  by auto

theorem line_check_guard_witness:
  "\<exists>rep s'. validate_invoice nf_two_lines 0 new_validator = (Inr rep, s')
     \<and> produtos_of (inv_produtos nf_two_lines) = Inr [zero_line, wrong_line]
     \<and> \<not> line_nonzero zero_line \<and> line_positive wrong_line \<and> line_invalid wrong_line
     \<and> valor_total_findings (problemas rep) = {1}"
proof -
  from nf_two_lines_run obtain rep s' where
    run: "validate_invoice nf_two_lines 0 new_validator = (Inr rep, s')"
    by (elim exE conjE)
  have ps: "produtos_of (inv_produtos nf_two_lines) = Inr [zero_line, wrong_line]"
    by (simp add: nf_two_lines_def empty_invoice_def)
  have z: "\<not> line_nonzero zero_line"
    by (simp add: zero_line_def empty_produto_def line_eval safe_float_field_def)
  have wp: "line_positive wrong_line"
    by (simp add: wrong_line_def empty_produto_def line_eval safe_float_field_def)
  have wi: "line_invalid wrong_line"
    by (simp add: wrong_line_def empty_produto_def line_eval safe_float_field_def default_tolerance_def
        dec_eval float_eval cong: bind_err_weak_cong let_weak_cong)
  from line_check_guard [OF run ps]
  have "valor_total_findings (problemas rep) =
      {i. i < length [zero_line, wrong_line] \<and> line_positive ([zero_line, wrong_line] ! i)
          \<and> line_invalid ([zero_line, wrong_line] ! i)}"
    by (elim conjE)
  also have "\<dots> = {1}"
    using z wp wi not_nonzero_not_positive [OF z] by (auto simp: less_Suc_eq)
  finally show ?thesis using run ps z wp wi by blast
qed

section \<open>The claim about the line-total check\<close>

lemma not_fgt_iff_fle: "a \<noteq> NaN \<Longrightarrow> b \<noteq> NaN \<Longrightarrow> \<not> fgt a b \<longleftrightarrow> fle a b"
  by (cases a; cases b) (auto simp: fgt_def)

lemma fgt_NaN: "\<not> fgt NaN b" "\<not> fgt a NaN"
  by (cases b; simp add: fgt_def) (cases a; simp add: fgt_def)

lemma safe_float_error: "safe_float v d = Inl e \<Longrightarrow> e = OverflowError"
  by (cases v) (auto simp: float_of_int_def split: pyfloat.splits option.splits)

lemma validate_product_calculation_cases:
  assumes "safe_float qty (Fin 0) = Inr q" and "safe_float unit_price (Fin 0) = Inr u"
    and "safe_float declared (Fin 0) = Inr t"
  shows "validate_product_calculation qty unit_price declared tolerance =
     (if product_out_of_range q u then Inl InvalidOperation
      else Inr (\<not> fgt (float_difference (expected_total q u) t) tolerance,
                if fgt (float_difference (expected_total q u) t) tolerance
                then Valor_total_incorreto else Calculo_correto,
                [(''quantidade'', q), (''valor_unitario'', u), (''valor_declarado'', t),
                 (''valor_calculado'', expected_total q u),
                 (''diferenca'', float_difference (expected_total q u) t)]))"
  by (cases q; cases u)
    (simp_all add: validate_product_calculation_def assms bind_err_def quantize_def Let_def
       float_difference_def)

lemma validate_product_calculation_overflow:
  "validate_product_calculation qty unit_price declared tolerance = Inl OverflowError
   \<longleftrightarrow> safe_float qty (Fin 0) = Inl OverflowError
     \<or> safe_float unit_price (Fin 0) = Inl OverflowError
     \<or> safe_float declared (Fin 0) = Inl OverflowError"
proof (cases "safe_float qty (Fin 0)")
  case (Inl e)
  then show ?thesis
    using safe_float_error [OF Inl] by (simp add: validate_product_calculation_def bind_err_def)
next
  case q: (Inr q)
  show ?thesis
  proof (cases "safe_float unit_price (Fin 0)")
    case (Inl e)
    then show ?thesis
      using safe_float_error [OF Inl] q
      by (simp add: validate_product_calculation_def bind_err_def)
  next
    case u: (Inr u)
    show ?thesis
    proof (cases "safe_float declared (Fin 0)")
      case (Inl e)
      then show ?thesis
        using safe_float_error [OF Inl] q u
        by (simp add: validate_product_calculation_def bind_err_def)
    next
      case t: (Inr t)
      show ?thesis
        using q u t by (simp add: validate_product_calculation_cases [OF q u t])
    qed
  qed
qed


lemmas product_eval = validate_product_calculation_finite

lemma example_20_00:
  "map_sum id fst (validate_product_calculation (VFloat (Fin (literal 2)))
      (VFloat (Fin (literal 10.00))) (VFloat (Fin (literal 20.00))) (Fin (literal 0.02)))
   = Inr True"
  by (simp add: product_eval dec_eval float_eval cong: bind_err_weak_cong let_weak_cong)

lemma example_20_02:
  "map_sum id fst (validate_product_calculation (VFloat (Fin (literal 2)))
      (VFloat (Fin (literal 10.00))) (VFloat (Fin (literal 20.02))) (Fin (literal 0.02)))
   = Inr True"
  by (simp add: product_eval dec_eval float_eval cong: bind_err_weak_cong let_weak_cong)

lemma example_20_03:
  "map_sum id fst (validate_product_calculation (VFloat (Fin (literal 2)))
      (VFloat (Fin (literal 10.00))) (VFloat (Fin (literal 20.03))) (Fin (literal 0.02)))
   = Inr False"
  by (simp add: product_eval dec_eval float_eval cong: bind_err_weak_cong let_weak_cong)

lemma example_0_05:
  "map_sum id fst (validate_product_calculation (VFloat (Fin (literal 1)))
      (VFloat (Fin (literal 0.03))) (VFloat (Fin (literal 0.05))) (Fin (literal 0.02)))
   = Inr False"
  by (simp add: product_eval dec_eval float_eval cong: bind_err_weak_cong let_weak_cong)

text \<open>Conversions of \<open>_safe_float\<close> used in the examples.\<close>

lemma safe_float_int_2: "safe_float (VInt 2) (Fin 0) = Inr (Fin 2)"
  by (simp add: float_of_int_def float_eval)

lemma float_of_string_10_00: "float_of_string ''10.00'' = Some (Fin 10)"
  by (simp add: float_of_string_def strip_space_def is_space_def is_digit_def drop_sign_def
      has_sign_def minus_sign_def lower_def lower_char_def parse_decimal_def parse_exponent_def
      digits_value_def int_of_digit_def float_eval)

lemma float_of_string_nan: "float_of_string ''nan'' = Some NaN"
  by (simp add: float_of_string_def strip_space_def is_space_def is_digit_def drop_sign_def
      has_sign_def minus_sign_def lower_def lower_char_def)

lemma float_of_string_abc: "float_of_string ''abc'' = None"
  by (simp add: float_of_string_def strip_space_def is_space_def is_digit_def drop_sign_def
      has_sign_def minus_sign_def lower_def lower_char_def parse_decimal_def)

lemma safe_float_huge: "safe_float (VInt (2 ^ 1024)) (Fin 0) = Inl OverflowError"
  by (simp add: float_of_int_def float_eval)

lemma within_20_02:
  "\<not> product_out_of_range (Fin 2) (Fin 10)
   \<and> fle (float_difference (expected_total (Fin 2) (Fin 10)) (Fin (literal 20.02)))
         (Fin (literal 0.02))"
  by (simp add: float_difference_def dec_eval float_eval cong: let_weak_cong)

lemma out_of_range_example:
  "product_out_of_range (Fin (literal 1000000000000000)) (Fin (literal 1000000000000000))"
  by (simp add: dec_eval float_eval cong: let_weak_cong)


text \<open>
  Claim C7, as stated, fails at the boundary: for one unit at 0.03 declared as 0.05 with
  tolerance 0.02, the rounded product 0.03 and the declared total differ by exactly the
  tolerance, so the check should pass; the program subtracts in binary floating point,
  gets 0.020000000000000004 and rejects.
\<close>

theorem boundary_counterexample:
  "line_total_within 1 0.03 0.05 0.02
   \<and> map_sum id fst (validate_product_calculation (VFloat (Fin (literal 1)))
         (VFloat (Fin (literal 0.03))) (VFloat (Fin (literal 0.05))) (Fin (literal 0.02)))
     = Inr False"
  using example_0_05 by (simp add: line_total_within_def round_half_even_def)

text \<open>
  Claim C7, amended. Let \<open>q\<close>, \<open>u\<close> and \<open>t\<close> be the floats that \<open>_safe_float\<close> makes
  of quantity, unit price and declared total (it raises \<open>OverflowError\<close> for an integer
  too large for a float, and then so does \<open>validate_product_calculation\<close>, which raises
  \<open>OverflowError\<close> in no other case). \<open>validate_product_calculation\<close> raises
  \<open>InvalidOperation\<close> exactly when the product rounded to two places needs more than 28
  digits or one of \<open>q\<close>, \<open>u\<close> is infinite and the other is not NaN. Otherwise it
  returns a result, whose ok is false exactly when the floating-point difference between
  the expected total (the float nearest to the decimal product rounded half-even to two
  places) and \<open>t\<close> is greater than the tolerance. So when neither this difference nor the
  tolerance is NaN, ok holds exactly when the difference is at most the tolerance, the
  boundary of the floating-point comparison included; and when the difference or the
  tolerance is NaN, ok is true. With tolerance 0.02 the inputs (2, 10.00, 20.00) and
  (2, 10.00, 20.02) return ok = true, while (2, 10.00, 20.03) returns ok = false.
\<close>

theorem validate_product_calculation_tolerance:
  "(validate_product_calculation qty unit_price declared tolerance = Inl OverflowError
      \<longleftrightarrow> safe_float qty (Fin 0) = Inl OverflowError
        \<or> safe_float unit_price (Fin 0) = Inl OverflowError
        \<or> safe_float declared (Fin 0) = Inl OverflowError)
   \<and> (safe_float qty (Fin 0) = Inr q \<and> safe_float unit_price (Fin 0) = Inr u
        \<and> safe_float declared (Fin 0) = Inr t
      \<longrightarrow> (validate_product_calculation qty unit_price declared tolerance = Inl InvalidOperation
             \<longleftrightarrow> product_out_of_range q u)
        \<and> (\<not> product_out_of_range q u
           \<longrightarrow> (\<exists>ok msg details.
                  validate_product_calculation qty unit_price declared tolerance
                    = Inr (ok, msg, details)
                  \<and> (\<not> ok \<longleftrightarrow> fgt (float_difference (expected_total q u) t) tolerance)
                  \<and> (float_difference (expected_total q u) t \<noteq> NaN \<and> tolerance \<noteq> NaN
                     \<longrightarrow> (ok \<longleftrightarrow> fle (float_difference (expected_total q u) t) tolerance))
                  \<and> (float_difference (expected_total q u) t = NaN \<or> tolerance = NaN
                     \<longrightarrow> ok))))
   \<and> map_sum id fst (validate_product_calculation (VFloat (Fin (literal 2)))
         (VFloat (Fin (literal 10.00))) (VFloat (Fin (literal 20.00))) (Fin (literal 0.02)))
       = Inr True
   \<and> map_sum id fst (validate_product_calculation (VFloat (Fin (literal 2)))
         (VFloat (Fin (literal 10.00))) (VFloat (Fin (literal 20.02))) (Fin (literal 0.02)))
       = Inr True
   \<and> map_sum id fst (validate_product_calculation (VFloat (Fin (literal 2)))
         (VFloat (Fin (literal 10.00))) (VFloat (Fin (literal 20.03))) (Fin (literal 0.02)))
       = Inr False"
proof -
  let ?run = "validate_product_calculation qty unit_price declared tolerance"
  let ?d = "float_difference (expected_total q u) t"
  have general: "(?run = Inl InvalidOperation \<longleftrightarrow> product_out_of_range q u)
        \<and> (\<not> product_out_of_range q u
           \<longrightarrow> (\<exists>ok msg details. ?run = Inr (ok, msg, details)
                  \<and> (\<not> ok \<longleftrightarrow> fgt ?d tolerance)
                  \<and> (?d \<noteq> NaN \<and> tolerance \<noteq> NaN \<longrightarrow> (ok \<longleftrightarrow> fle ?d tolerance))
                  \<and> (?d = NaN \<or> tolerance = NaN \<longrightarrow> ok)))"
    if conv: "safe_float qty (Fin 0) = Inr q" "safe_float unit_price (Fin 0) = Inr u"
      "safe_float declared (Fin 0) = Inr t"
  proof (cases "product_out_of_range q u")
    case True
    then show ?thesis
      by (simp add: validate_product_calculation_cases [OF conv])
  next
    case False
    have "?d \<noteq> NaN \<and> tolerance \<noteq> NaN \<longrightarrow> (\<not> fgt ?d tolerance \<longleftrightarrow> fle ?d tolerance)"
      using not_fgt_iff_fle by blast
    moreover have "?d = NaN \<or> tolerance = NaN \<longrightarrow> \<not> fgt ?d tolerance"
      using fgt_NaN by auto
    ultimately show ?thesis
      using False by (simp add: validate_product_calculation_cases [OF conv])
  qed
  show ?thesis
    using validate_product_calculation_overflow [of qty unit_price declared tolerance] general
      example_20_00 example_20_02 example_20_03
    by blast
qed

theorem validate_product_calculation_tolerance_witness:
  "(\<exists>msg details.
      validate_product_calculation (VInt 2) (VStr ''10.00'') (VFloat (Fin (literal 20.02)))
        (Fin (literal 0.02)) = Inr (True, msg, details))
   \<and> fle (float_difference (expected_total (Fin 2) (Fin 10)) (Fin (literal 20.02)))
         (Fin (literal 0.02))
   \<and> (\<exists>msg details.
      validate_product_calculation (VInt 2) (VStr ''10.00'') (VStr ''nan'')
        (Fin (literal 0.02)) = Inr (True, msg, details))
   \<and> \<not> fle (float_difference (expected_total (Fin 2) (Fin 10)) NaN) (Fin (literal 0.02))
   \<and> validate_product_calculation (VFloat (Fin (literal 1000000000000000)))
        (VFloat (Fin (literal 1000000000000000))) VNone (Fin (literal 0.02))
       = Inl InvalidOperation
   \<and> validate_product_calculation (VInt (2 ^ 1024)) VNone VNone (Fin (literal 0.02))
       = Inl OverflowError"
proof -
  have q: "safe_float (VInt 2) (Fin 0) = Inr (Fin 2)"
    by (rule safe_float_int_2)
  have u: "safe_float (VStr ''10.00'') (Fin 0) = Inr (Fin 10)"
    by (simp add: float_of_string_10_00)
  have t: "safe_float (VFloat (Fin (literal 20.02))) (Fin 0) = Inr (Fin (literal 20.02))"
    by simp
  have n: "safe_float (VStr ''nan'') (Fin 0) = Inr NaN"
    by (simp add: float_of_string_nan)
  have d: "float_difference (expected_total (Fin 2) (Fin 10)) NaN = NaN"
    by (cases "expected_total (Fin 2) (Fin 10)") (simp_all add: float_difference_def fsub_def)
  have big: "safe_float (VFloat (Fin (literal 1000000000000000))) (Fin 0)
      = Inr (Fin (literal 1000000000000000))"
    by simp
  have none: "safe_float VNone (Fin 0) = Inr (Fin 0)"
    by simp
  from validate_product_calculation_tolerance
    [of "VInt 2" "VStr ''10.00''" "VFloat (Fin (literal 20.02))" "Fin (literal 0.02)"
      "Fin 2" "Fin 10" "Fin (literal 20.02)"] q u t within_20_02
  have 1: "\<exists>msg details.
      validate_product_calculation (VInt 2) (VStr ''10.00'') (VFloat (Fin (literal 20.02)))
        (Fin (literal 0.02)) = Inr (True, msg, details)"
    by (metis fgt_NaN(1) not_fgt_iff_fle)
  from validate_product_calculation_tolerance
    [of "VInt 2" "VStr ''10.00''" "VStr ''nan''" "Fin (literal 0.02)" "Fin 2" "Fin 10" NaN]
    q u n d within_20_02
  have 2: "\<exists>msg details.
      validate_product_calculation (VInt 2) (VStr ''10.00'') (VStr ''nan'')
        (Fin (literal 0.02)) = Inr (True, msg, details)"
    by metis
  from validate_product_calculation_tolerance
    [of "VFloat (Fin (literal 1000000000000000))" "VFloat (Fin (literal 1000000000000000))"
      VNone "Fin (literal 0.02)" "Fin (literal 1000000000000000)"
      "Fin (literal 1000000000000000)" "Fin 0"]
    big none out_of_range_example
  have 3: "validate_product_calculation (VFloat (Fin (literal 1000000000000000)))
        (VFloat (Fin (literal 1000000000000000))) VNone (Fin (literal 0.02))
       = Inl InvalidOperation"
    by blast
  from validate_product_calculation_tolerance
    [of "VInt (2 ^ 1024)" VNone VNone "Fin (literal 0.02)"] safe_float_huge
  have 4: "validate_product_calculation (VInt (2 ^ 1024)) VNone VNone (Fin (literal 0.02))
       = Inl OverflowError"
    by blast
  show ?thesis
    using 1 2 3 4 within_20_02 d by simp
qed

section \<open>Properties of the fiscal calculator\<close>


lemma raises_only_Inl: "e \<in> es \<Longrightarrow> raises_only es (Inl e)"
  by (simp add: raises_only_def)

















subsection \<open>The batch\<close>







subsection \<open>What the loop accumulates\<close>

lemma safe_decimal_get: "safe_decimal (get e) = decimal_of_float (float_or_zero e)"
  by (cases e) (simp_all add: safe_decimal_def float_or_zero_def)

lemma section_of_totais:
  "section_of (inv_totais nf) empty_totais = Inr t \<Longrightarrow> t = totais_of nf"
  by (cases "inv_totais nf") (simp_all add: totais_of_def)




subsection \<open>Rows and sorting\<close>







lemma analisar_nota_individual_Inr:
  assumes "analisar_nota_individual self nf = Inr r"
  shows "\<exists>total_impostos carga_tributaria.
      quantize round_half_up (taxes nf) = Inr total_impostos
      \<and> (if 0 < decimal_of_float (grand_total nf)
          then share_of total_impostos (decimal_of_float (grand_total nf)) else Inr 0)
          = Inr carga_tributaria
      \<and> lookup_path r [''impostos_calculados'', ''total_impostos'']
          = Some (VFloat (float_of_decimal total_impostos))
      \<and> lookup_path r [''impostos_calculados'', ''pis'']
          = Some (VFloat (float_of_decimal
               (decimal_of_float (float_or_zero (totais_valor_pis (totais_of nf))))))
      \<and> lookup_path r [''impostos_calculados'', ''cofins'']
          = Some (VFloat (float_of_decimal
               (decimal_of_float (float_or_zero (totais_valor_cofins (totais_of nf))))))
      \<and> lookup_path r [''impostos_calculados'', ''campos_ausentes'']
          = Some (VList
              ((if get (totais_valor_pis (totais_of nf)) = None then [VStr ''PIS''] else [])
               @ (if get (totais_valor_cofins (totais_of nf)) = None then [VStr ''COFINS''] else [])
               @ (if get (totais_valor_icms (totais_of nf)) = None then [VStr ''ICMS''] else [])))
      \<and> lookup_path r [''qualidade_dados'', ''campos_none_lista'']
          = lookup_path r [''impostos_calculados'', ''campos_ausentes'']
      \<and> lookup_path r [''carga_tributaria'', ''percentual'']
          = Some (VFloat (float_of_decimal carga_tributaria))"
proof -
  from assms obtain t where t: "section_of (inv_totais nf) empty_totais = Inr t"
    by (auto simp: analisar_nota_individual_def bind_err_def Let_def split: sum.splits)
  note tt = section_of_totais [OF t]
  show ?thesis
    using assms
    unfolding analisar_nota_individual_def Let_def bind_err_def t sum.case tt
      taxes_def grand_total_def safe_decimal_get
    by (auto split: sum.splits)
qed

section \<open>The claims about the fiscal calculator\<close>

text \<open>Evaluation of the calculator on concrete invoices.\<close>

lemmas calc_eval = analisar_nota_individual_def
     percent_of_def share_of_def safe_decimal_def produtos_get_def len_produtos_def
     emitente_uf_of_def destinatario_uf_of_def descend_def leaf_def classificar_carga_tributaria_def
     regimes_dict_def new_calculator_def dict_get_def empty_impostos_def empty_totais_def


lemma literal_0: "literal 0 = 0"
  by (simp add: literal_def fl_def)

lemma example_decimals:
  "decimal_of_float (literal 32.9) = 32.9"
  "decimal_of_float (literal 1.94) = 1.94"
  "decimal_of_float (literal 259.78) = 259.78"
  "decimal_of_float (literal 2.72) = 2.72"
  "decimal_of_float (literal 15.1) = 15.1"
  "decimal_of_float 0 = 0"
  by (simp_all add: dec_eval float_eval cong: let_weak_cong)






text \<open>
  Claim C5: \<open>analisar_multiplas_notas\<close> applied to the empty list of invoices returns the
  empty dictionary; it raises nothing.
\<close>

theorem analisar_multiplas_notas_empty: "analisar_multiplas_notas self [] = Inr (VDict [])"
  by (simp add: analisar_multiplas_notas_def)



lemma example_floats:
  "float_of_decimal 259.78 = Fin (literal 259.78)"
  "float_of_decimal 2.72 = Fin (literal 2.72)"
  "float_of_decimal 1.05 = Fin (literal 1.05)"
  by (simp_all add: float_eval cong: let_weak_cong)

lemma exemplo_produtos_loop:
  "analisar_produtos_loop exemplo_produtos (0, [], [])
     = Inr (34.84, [VStr ''OLEO YAMALUBE 4T''], [VStr ''OLEO YAMALUBE 4T'', VStr ''GAXETA''])"
  by (simp add: exemplo_produtos_def safe_decimal_def example_decimals empty_impostos_def
      dec_eval float_eval cong: bind_err_weak_cong let_weak_cong)

lemma valor_medio: "bind_err (dec_div 34.84 2) (quantize round_half_up) = Inr 17.42"
  by (simp add: dec_eval float_eval cong: bind_err_weak_cong let_weak_cong)

lemma exemplo_analisar_produtos: "\<exists>r. analisar_produtos (Some exemplo_produtos) = Inr r"
proof -
  have ne: "exemplo_produtos \<noteq> []" and len: "length exemplo_produtos = 2"
    by (simp_all add: exemplo_produtos_def)
  show ?thesis
    unfolding analisar_produtos_def option.case if_not_P [OF ne] exemplo_produtos_loop
      bind_err_simps len
    using valor_medio by (simp add: bind_err_simps)
qed

lemma exemplo_comparar: "\<exists>r. comparar_regimes_tributarios (Fin (literal 259.78)) = Inr r"
  by (simp add: percent_of_def example_decimals dec_eval float_eval cong: bind_err_weak_cong let_weak_cong)

lemma exemplo_run: "\<exists>r. analisar_nota_individual new_calculator exemplo_nf_com_none = Inr r"
proof -
  from exemplo_analisar_produtos obtain ap where
    ap: "analisar_produtos (Some exemplo_produtos) = Inr ap"
    by (elim exE)
  from exemplo_comparar obtain cr where
    cr: "comparar_regimes_tributarios (Fin (literal 259.78)) = Inr cr"
    by (elim exE)
  show ?thesis
    by (simp add: exemplo_nf_com_none_def exemplo_totais_def calc_eval ap cr example_decimals
        example_floats literal_0 dec_eval float_eval cong: bind_err_weak_cong let_weak_cong)
qed


lemma float_or_zero_None: "get e = None \<Longrightarrow> float_or_zero e = 0"
  by (cases e) (simp_all add: float_or_zero_def)

lemma example_total_impostos:
  "quantize round_half_up (dec_add (dec_add (dec_add 2.72 0) 0) 0) = Inr 2.72"
  by (simp add: dec_eval float_eval cong: let_weak_cong)

lemma example_carga: "share_of 2.72 259.78 = Inr 1.05"
  by (simp add: share_of_def dec_eval float_eval cong: bind_err_weak_cong let_weak_cong)

text \<open>
  Claim C4: when \<open>analisar_nota_individual\<close> returns for an invoice whose totals have
  valor_total_nf = 259.78, valor_icms = 2.72, valor_pis = None, valor_cofins = None and
  valor_ipi = 0.0, the result has \<open>impostos_calculados.total_impostos\<close> = 2.72 (PIS and
  COFINS are reported as 0.0), \<open>impostos_calculados.campos_ausentes\<close> = ["PIS", "COFINS"],
  \<open>qualidade_dados.campos_none_lista\<close> equal to it, and \<open>carga_tributaria.percentual\<close> =
  1.05, which is 2.72 / 259.78 * 100 rounded half-up to two places.
\<close>

theorem analisar_nota_individual_campos_none:
  assumes "inv_totais nf = Val t"
    and "totais_valor_total_nf t = Val (literal 259.78)"
    and "totais_valor_icms t = Val (literal 2.72)"
    and "get (totais_valor_pis t) = None"
    and "get (totais_valor_cofins t) = None"
    and "totais_valor_ipi t = Val (literal 0.0)"
    and "analisar_nota_individual self nf = Inr r"
  shows "lookup_path r [''impostos_calculados'', ''total_impostos'']
           = Some (VFloat (Fin (literal 2.72)))
       \<and> lookup_path r [''impostos_calculados'', ''pis''] = Some (VFloat (Fin 0))
       \<and> lookup_path r [''impostos_calculados'', ''cofins''] = Some (VFloat (Fin 0))
       \<and> lookup_path r [''impostos_calculados'', ''campos_ausentes'']
           = Some (VList [VStr ''PIS'', VStr ''COFINS''])
       \<and> lookup_path r [''qualidade_dados'', ''campos_none_lista'']
           = Some (VList [VStr ''PIS'', VStr ''COFINS''])
       \<and> lookup_path r [''carga_tributaria'', ''percentual'']
           = Some (VFloat (Fin (literal 1.05)))
       \<and> of_int (round_half_up (2.72 / 259.78 * 100 * 100)) / 100 = (1.05 :: real)"
proof -
  have t: "totais_of nf = t"
    by (simp add: totais_of_def assms(1))
  have f: "float_or_zero (totais_valor_total_nf t) = literal 259.78"
    "float_or_zero (totais_valor_icms t) = literal 2.72"
    "float_or_zero (totais_valor_pis t) = 0"
    "float_or_zero (totais_valor_cofins t) = 0"
    "float_or_zero (totais_valor_ipi t) = 0"
    using assms(2,3,6) float_or_zero_None [OF assms(4)] float_or_zero_None [OF assms(5)]
    by (simp_all add: float_or_zero_def literal_0)
  have g: "get (totais_valor_icms t) \<noteq> None"
    by (simp add: assms(3))
  have taxes: "taxes nf = dec_add (dec_add (dec_add 2.72 0) 0) 0"
    by (simp only: taxes_def t f example_decimals)
  have total: "decimal_of_float (grand_total nf) = 259.78"
    by (simp only: grand_total_def t f example_decimals)
  from analisar_nota_individual_Inr [OF assms(7)] obtain total_impostos carga_tributaria where
    1: "quantize round_half_up (taxes nf) = Inr total_impostos"
    and 2: "(if 0 < decimal_of_float (grand_total nf)
          then share_of total_impostos (decimal_of_float (grand_total nf)) else Inr 0)
          = Inr carga_tributaria"
    and 3: "lookup_path r [''impostos_calculados'', ''total_impostos'']
          = Some (VFloat (float_of_decimal total_impostos))"
    and 4: "lookup_path r [''impostos_calculados'', ''pis'']
          = Some (VFloat (float_of_decimal
               (decimal_of_float (float_or_zero (totais_valor_pis (totais_of nf))))))"
    and 5: "lookup_path r [''impostos_calculados'', ''cofins'']
          = Some (VFloat (float_of_decimal
               (decimal_of_float (float_or_zero (totais_valor_cofins (totais_of nf))))))"
    and 6: "lookup_path r [''impostos_calculados'', ''campos_ausentes'']
          = Some (VList
              ((if get (totais_valor_pis (totais_of nf)) = None then [VStr ''PIS''] else [])
               @ (if get (totais_valor_cofins (totais_of nf)) = None then [VStr ''COFINS''] else [])
               @ (if get (totais_valor_icms (totais_of nf)) = None then [VStr ''ICMS''] else [])))"
    and 7: "lookup_path r [''qualidade_dados'', ''campos_none_lista'']
          = lookup_path r [''impostos_calculados'', ''campos_ausentes'']"
    and 8: "lookup_path r [''carga_tributaria'', ''percentual'']
          = Some (VFloat (float_of_decimal carga_tributaria))"
    by (elim exE conjE) blast
  from 1 have ti: "total_impostos = 2.72"
    by (simp only: taxes example_total_impostos sum.inject)
  from 2 have ct: "carga_tributaria = 1.05"
    unfolding total ti example_carga by simp
  have zero: "float_of_decimal (decimal_of_float 0) = Fin 0"
    by (simp add: decimal_of_float_def float_of_decimal_def fl_def)
  have campos: "lookup_path r [''impostos_calculados'', ''campos_ausentes'']
           = Some (VList [VStr ''PIS'', VStr ''COFINS''])"
    using 6 g by (simp add: t assms(4,5))
  have rounding: "of_int (round_half_up (2.72 / 259.78 * 100 * 100)) / 100 = (1.05 :: real)"
    by (simp add: round_half_up_def)
  show ?thesis
    using 3 4 5 7 8 campos rounding
    by (simp only: ti ct t f zero example_floats)
qed

theorem analisar_nota_individual_campos_none_witness:
  "\<exists>r. analisar_nota_individual new_calculator exemplo_nf_com_none = Inr r
     \<and> lookup_path r [''impostos_calculados'', ''total_impostos'']
         = Some (VFloat (Fin (literal 2.72)))
     \<and> lookup_path r [''impostos_calculados'', ''campos_ausentes'']
         = Some (VList [VStr ''PIS'', VStr ''COFINS''])
     \<and> lookup_path r [''qualidade_dados'', ''campos_none_lista'']
         = Some (VList [VStr ''PIS'', VStr ''COFINS''])
     \<and> lookup_path r [''carga_tributaria'', ''percentual'']
         = Some (VFloat (Fin (literal 1.05)))"
proof -
  from exemplo_run obtain r where
    r: "analisar_nota_individual new_calculator exemplo_nf_com_none = Inr r"
    by (elim exE)
  have "inv_totais exemplo_nf_com_none = Val exemplo_totais"
    by (simp add: exemplo_nf_com_none_def)
  from analisar_nota_individual_campos_none [OF this _ _ _ _ _ r]
  have "lookup_path r [''impostos_calculados'', ''total_impostos'']
           = Some (VFloat (Fin (literal 2.72)))
       \<and> lookup_path r [''impostos_calculados'', ''campos_ausentes'']
           = Some (VList [VStr ''PIS'', VStr ''COFINS''])
       \<and> lookup_path r [''qualidade_dados'', ''campos_none_lista'']
           = Some (VList [VStr ''PIS'', VStr ''COFINS''])
       \<and> lookup_path r [''carga_tributaria'', ''percentual'']
           = Some (VFloat (Fin (literal 1.05)))"
    by (simp add: exemplo_totais_def)
  with r show ?thesis
    by (intro exI [of _ r] conjI) simp_all
qed

section \<open>The claim about determinism\<close>







end
